theory Spec2Isabelle
  imports Complex_Main "HOL-Library.Word"
begin

unbundle bit_operations_syntax

section \<open>IEEE 754 binary64 values and arithmetic\<close>

text \<open>
  The C type \<^verbatim>\<open>double\<close> of geodesic.c: a value is a NaN, an infinity, the negative
  zero, or a finite real (\<open>Fin 0\<close> is the positive zero). Every arithmetic operation
  computes the exact real result and rounds it to the nearest binary64 number, ties to
  even (53 bits of precision, exponents from -1022 to 1023, gradual underflow). The
  sign of a NaN is not modelled: \<open>signbit NaN\<close> is taken as false.
\<close>

datatype double = NaN | PInf | NInf | MZero | Fin real

definition val :: "double \<Rightarrow> real" where
  "val x = (case x of Fin r \<Rightarrow> r | _ \<Rightarrow> 0)"

definition isinf :: "double \<Rightarrow> bool" where
  "isinf x = (x = PInf \<or> x = NInf)"

definition is_zero :: "double \<Rightarrow> bool" where
  "is_zero x = (x = MZero \<or> x = Fin 0)"

definition isfinite :: "double \<Rightarrow> bool" where
  "isfinite x = (case x of Fin r \<Rightarrow> True | MZero \<Rightarrow> True | _ \<Rightarrow> False)"

definition signbit :: "double \<Rightarrow> bool" where
  "signbit x = (case x of NInf \<Rightarrow> True | MZero \<Rightarrow> True | Fin r \<Rightarrow> r < 0 | _ \<Rightarrow> False)"

text \<open>Round half to even, to an integer.\<close>

definition rhe :: "real \<Rightarrow> int" where
  "rhe x = (let f = \<lfloor>x\<rfloor>; d = x - of_int f in
            if d < 1 / 2 then f else if 1 / 2 < d then f + 1
            else if even f then f else f + 1)"

text \<open>The exponent of a real in binary64 (that of the least normal number for a
  subnormal), and the unit in the last place there.\<close>

definition expo :: "real \<Rightarrow> int" where
  "expo x = max \<lfloor>log 2 \<bar>x\<bar>\<rfloor> (- 1022)"

definition ulp :: "real \<Rightarrow> real" where
  "ulp x = 2 powr (of_int (expo x) - 52)"

text \<open>Rounding to nearest, ties to even; \<open>s\<close> is the sign a zero result takes.\<close>

definition rnds :: "bool \<Rightarrow> real \<Rightarrow> double" where
  "rnds s x = (let y = of_int (rhe (x / ulp x)) * ulp x in
               if y = 0 then (if s then MZero else Fin 0)
               else if 2 ^ 1024 \<le> \<bar>y\<bar> then (if y < 0 then NInf else PInf)
               else Fin y)"

definition rnd :: "real \<Rightarrow> double" where
  "rnd x = rnds (x < 0) x"

definition fneg :: "double \<Rightarrow> double" where
  "fneg x = (case x of NaN \<Rightarrow> NaN | PInf \<Rightarrow> NInf | NInf \<Rightarrow> PInf | MZero \<Rightarrow> Fin 0
             | Fin r \<Rightarrow> (if r = 0 then MZero else Fin (- r)))"

definition fabs :: "double \<Rightarrow> double" where
  "fabs x = (case x of NaN \<Rightarrow> NaN | PInf \<Rightarrow> PInf | NInf \<Rightarrow> PInf | MZero \<Rightarrow> Fin 0
             | Fin r \<Rightarrow> Fin \<bar>r\<bar>)"

definition copysign :: "double \<Rightarrow> double \<Rightarrow> double" where
  "copysign x y = (if signbit y then fneg (fabs x) else fabs x)"

definition fadd :: "double \<Rightarrow> double \<Rightarrow> double" where
  "fadd x y =
     (if x = NaN \<or> y = NaN then NaN
      else if isinf x then (if isinf y \<and> x \<noteq> y then NaN else x)
      else if isinf y then y
      else (let r = val x + val y in
            if r = 0 then (if signbit x \<and> signbit y then MZero else Fin 0) else rnd r))"

definition fmul :: "double \<Rightarrow> double \<Rightarrow> double" where
  "fmul x y =
     (if x = NaN \<or> y = NaN then NaN
      else (let s = (signbit x \<noteq> signbit y) in
            if isinf x \<or> isinf y
            then (if is_zero x \<or> is_zero y then NaN else if s then NInf else PInf)
            else rnds s (val x * val y)))"

definition fdiv :: "double \<Rightarrow> double \<Rightarrow> double" where
  "fdiv x y =
     (if x = NaN \<or> y = NaN then NaN
      else (let s = (signbit x \<noteq> signbit y) in
            if isinf x then (if isinf y then NaN else if s then NInf else PInf)
            else if isinf y then (if s then MZero else Fin 0)
            else if is_zero y then (if is_zero x then NaN else if s then NInf else PInf)
            else rnds s (val x / val y)))"

text \<open>The comparisons of C: every comparison with a NaN is false, and the two zeros
  are equal.\<close>

definition feq :: "double \<Rightarrow> double \<Rightarrow> bool" where
  "feq x y = (if x = NaN \<or> y = NaN then False
              else if isinf x \<or> isinf y then x = y
              else val x = val y)"

definition flt :: "double \<Rightarrow> double \<Rightarrow> bool" where
  "flt x y = (if x = NaN \<or> y = NaN then False
              else if x = PInf \<or> y = NInf then False
              else if x = NInf \<or> y = PInf then True
              else val x < val y)"

definition fle :: "double \<Rightarrow> double \<Rightarrow> bool" where
  "fle x y = (flt x y \<or> feq x y)"

instantiation double :: "{zero, one, plus, minus, uminus, times, inverse, ord}"
begin

definition zero_double_def: "0 = Fin 0"

definition one_double_def: "1 = Fin 1"

definition plus_double_def: "x + y = fadd x y"

definition uminus_double_def: "- x = fneg x"

definition minus_double_def: "x - y = fadd x (fneg y)"

definition times_double_def: "x * y = fmul x y"

definition divide_double_def: "x div y = fdiv x y"

definition inverse_double_def: "inverse x = fdiv (Fin 1) x"

definition less_double_def: "x < y = flt x y"

definition less_eq_double_def: "x \<le> y = fle x y"

instance ..

end

text \<open>The functions of \<^verbatim>\<open>math.h\<close> that are exact.\<close>

definition fmax :: "double \<Rightarrow> double \<Rightarrow> double" where
  "fmax x y = (if x = NaN then y else if y = NaN then x else if x < y then y else x)"

definition fmin :: "double \<Rightarrow> double \<Rightarrow> double" where
  "fmin x y = (if x = NaN then y else if y = NaN then x else if y < x then y else x)"

definition fsqrt :: "double \<Rightarrow> double" where
  "fsqrt x = (case x of NaN \<Rightarrow> NaN | PInf \<Rightarrow> PInf | NInf \<Rightarrow> NaN | MZero \<Rightarrow> MZero
              | Fin r \<Rightarrow> (if r < 0 then NaN else rnd (sqrt r)))"

text \<open>\<^verbatim>\<open>remquo(x, y, &q)\<close>: the remainder \<open>x - n * y\<close> with \<open>n\<close> the integer nearest
  to \<open>x / y\<close> (ties to even); it is exact. C stores in \<open>q\<close> a value with the sign of
  \<open>n\<close> and congruent to it modulo at least 8 in magnitude; the model returns \<open>n\<close>
  itself, which has the same residue modulo 4, the only thing geodesic.c reads.\<close>

definition remquo :: "double \<Rightarrow> double \<Rightarrow> double \<times> int" where
  "remquo x y =
     (if x = NaN \<or> y = NaN \<or> isinf x \<or> is_zero y then (NaN, 0)
      else if isinf y then (x, 0)
      else (let n = rhe (val x / val y); r = val x - of_int n * val y in
            (if r = 0 then (if signbit x then MZero else Fin 0) else Fin r, n)))"

definition remainder :: "double \<Rightarrow> double \<Rightarrow> double" where
  "remainder x y = fst (remquo x y)"

text \<open>The functions of \<^verbatim>\<open>math.h\<close> whose rounding the C standard leaves to the
  library are parameters of the model (a record \<open>lm\<close>); the values Annex F of the C
  standard fixes (a NaN argument, a zero, an infinity) are built in around them.\<close>

record libm =
  lib_sin :: "double \<Rightarrow> double"
  lib_cos :: "double \<Rightarrow> double"
  lib_atan2 :: "double \<Rightarrow> double \<Rightarrow> double"
  lib_hypot :: "double \<Rightarrow> double \<Rightarrow> double"
  lib_cbrt :: "double \<Rightarrow> double"
  lib_atan :: "double \<Rightarrow> double"
  lib_atanh :: "double \<Rightarrow> double"

definition msin :: "libm \<Rightarrow> double \<Rightarrow> double" where
  "msin lm x = (if x = NaN \<or> isinf x then NaN else if is_zero x then x else lib_sin lm x)"

definition mcos :: "libm \<Rightarrow> double \<Rightarrow> double" where
  "mcos lm x = (if x = NaN \<or> isinf x then NaN else if is_zero x then Fin 1 else lib_cos lm x)"

definition matan2 :: "libm \<Rightarrow> double \<Rightarrow> double \<Rightarrow> double" where
  "matan2 lm y x = (if y = NaN \<or> x = NaN then NaN
                    else if is_zero y \<and> \<not> signbit x then y
                    else lib_atan2 lm y x)"

definition mhypot :: "libm \<Rightarrow> double \<Rightarrow> double \<Rightarrow> double" where
  "mhypot lm x y = (if isinf x \<or> isinf y then PInf
                    else if x = NaN \<or> y = NaN then NaN
                    else if is_zero y then fabs x
                    else if is_zero x then fabs y
                    else lib_hypot lm x y)"

definition mcbrt :: "libm \<Rightarrow> double \<Rightarrow> double" where
  "mcbrt lm x = (if x = NaN then NaN else if is_zero x \<or> isinf x then x else lib_cbrt lm x)"

definition matan :: "libm \<Rightarrow> double \<Rightarrow> double" where
  "matan lm x = (if x = NaN then NaN else if is_zero x then x else lib_atan lm x)"

definition matanh :: "libm \<Rightarrow> double \<Rightarrow> double" where
  "matanh lm x = (if x = NaN then NaN else if is_zero x then x else lib_atanh lm x)"

text \<open>A library whose functions are correctly rounded, for closed examples.\<close>

definition atan2r :: "real \<Rightarrow> real \<Rightarrow> real" where
  "atan2r y x = (if 0 < x then arctan (y / x)
                 else if x < 0 then (if 0 \<le> y then arctan (y / x) + pi else arctan (y / x) - pi)
                 else if 0 < y then pi / 2 else if y < 0 then - (pi / 2) else 0)"

definition cr_atan2 :: "double \<Rightarrow> double \<Rightarrow> double" where
  "cr_atan2 y x =
     (if isinf y then
        (let a = (if x = PInf then pi / 4 else if x = NInf then 3 * pi / 4 else pi / 2) in
         if y = NInf then rnd (- a) else rnd a)
      else if isinf x then
        (if x = PInf then (if signbit y then MZero else Fin 0)
         else if signbit y then rnd (- pi) else rnd pi)
      else if is_zero y then (if signbit y then rnd (- pi) else rnd pi)
      else rnd (atan2r (val y) (val x)))"

definition libm_cr :: libm where
  "libm_cr = \<lparr> lib_sin = (\<lambda>x. rnd (sin (val x))),
               lib_cos = (\<lambda>x. rnd (cos (val x))),
               lib_atan2 = cr_atan2,
               lib_hypot = (\<lambda>x y. rnd (sqrt ((val x)\<^sup>2 + (val y)\<^sup>2))),
               lib_cbrt = (\<lambda>x. rnd (root 3 (val x))),
               lib_atan = (\<lambda>x. if x = PInf then rnd (pi / 2) else if x = NInf then rnd (- (pi / 2))
                               else rnd (arctan (val x))),
               lib_atanh = (\<lambda>x. if isinf x \<or> 1 < \<bar>val x\<bar> then NaN
                                else if val x = 1 then PInf else if val x = - 1 then NInf
                                else rnd (artanh (val x))) \<rparr>"

section \<open>Constants set by \<^verbatim>\<open>Init\<close>\<close>

definition qd :: double where "qd = Fin 90"
definition hd' :: double where "hd' = Fin 180"
definition td :: double where "td = Fin 360"

definition digits :: nat where "digits = 53"
definition epsilon :: double where "epsilon = Fin (1 / 2 ^ 52)"
definition realmin :: double where "realmin = Fin (1 / 2 ^ 1022)"
definition pi_d :: double where "pi_d = Fin (884279719003555 / 2 ^ 48)"
definition maxit1 :: nat where "maxit1 = 20"
definition maxit2 :: nat where "maxit2 = maxit1 + digits + 10"
definition tiny :: double where "tiny = fsqrt realmin"
definition tol0 :: double where "tol0 = epsilon"
definition tol1 :: double where "tol1 = Fin 200 * tol0"
definition tol2 :: double where "tol2 = fsqrt tol0"
definition tolb :: double where "tolb = tol0"
definition xthresh :: double where "xthresh = Fin 1000 * tol2"
definition degree :: double where "degree = pi_d / hd'"

section \<open>The numeric kernel\<close>

definition sq :: "double \<Rightarrow> double" where
  "sq x = x * x"

definition sumx :: "double \<Rightarrow> double \<Rightarrow> double \<times> double" where
  "sumx u v = (let s = u + v;
                   up = s - v;
                   vpp = s - up;
                   up = up - u;
                   vpp = vpp - v;
                   t = (if \<not> feq s 0 then 0 - (up + vpp) else s)
               in (s, t))"

definition AngNormalize :: "double \<Rightarrow> double" where
  "AngNormalize x = (let y = remainder x td in
                     if feq (fabs y) hd' then copysign hd' x else y)"

definition LatFix :: "double \<Rightarrow> double" where
  "LatFix x = (if fabs x > qd then NaN else x)"

definition AngDiff :: "double \<Rightarrow> double \<Rightarrow> double \<times> double" where
  "AngDiff x y = (let (d, t) = sumx (remainder (- x) td) (remainder y td);
                      (d, t) = sumx (remainder d td) t;
                      d = (if feq d 0 \<or> feq (fabs d) hd'
                           then copysign d (if feq t 0 then y - x else - t) else d)
                  in (d, t))"

definition AngRound :: "double \<Rightarrow> double" where
  "AngRound x = (let z = Fin (1 / 16);
                     y = fabs x;
                     w = z - y;
                     y = (if w > 0 then z - w else y)
                 in copysign y x)"

definition sincosdx :: "libm \<Rightarrow> double \<Rightarrow> double \<times> double" where
  "sincosdx lm x = (let (r, q) = remquo x qd;
                        r = r * degree;
                        s = msin lm r;
                        c = mcos lm r;
                        (sinx, cosx) = (if q mod 4 = 0 then (s, c)
                                        else if q mod 4 = 1 then (c, - s)
                                        else if q mod 4 = 2 then (- s, - c)
                                        else (- c, s));
                        cosx = cosx + 0;
                        sinx = (if feq sinx 0 then copysign sinx x else sinx)
                    in (sinx, cosx))"

definition sincosde :: "libm \<Rightarrow> double \<Rightarrow> double \<Rightarrow> double \<times> double" where
  "sincosde lm x t = (let (r, q) = remquo x qd;
                          r = AngRound (r + t);
                          r = r * degree;
                          s = msin lm r;
                          c = mcos lm r;
                          (sinx, cosx) = (if q mod 4 = 0 then (s, c)
                                          else if q mod 4 = 1 then (c, - s)
                                          else if q mod 4 = 2 then (- s, - c)
                                          else (- c, s));
                          cosx = cosx + 0;
                          sinx = (if feq sinx 0 then copysign sinx x else sinx)
                      in (sinx, cosx))"

definition atan2dx :: "libm \<Rightarrow> double \<Rightarrow> double \<Rightarrow> double" where
  "atan2dx lm y x = (let (x, y, q) = (if fabs y > fabs x then (y, x, 2 :: nat) else (x, y, 0));
                         (x, q) = (if signbit x then (- x, q + 1) else (x, q));
                         ang = matan2 lm y x / degree
                     in if q = 1 then copysign hd' y - ang
                        else if q = 2 then qd - ang
                        else if q = 3 then - qd + ang
                        else ang)"

definition norm2 :: "libm \<Rightarrow> double \<times> double \<Rightarrow> double \<times> double" where
  "norm2 lm sc = (let (sinx, cosx) = sc; r = mhypot lm sinx cosx in (sinx / r, cosx / r))"

text \<open>\<^verbatim>\<open>polyvalx(N, p, x)\<close>: Horner's rule over \<open>p[0..N]\<close>; \<open>p\<close> is the array from the
  pointer onwards.\<close>

fun polyvalx_loop :: "nat \<Rightarrow> double list \<Rightarrow> double \<Rightarrow> double \<Rightarrow> double" where
  "polyvalx_loop 0 p x y = y"
| "polyvalx_loop (Suc N) p x y = polyvalx_loop N (tl p) x (y * x + hd p)"

definition polyvalx :: "int \<Rightarrow> double list \<Rightarrow> double \<Rightarrow> double" where
  "polyvalx N p x = (if N < 0 then 0 else polyvalx_loop (nat N) (tl p) x (hd p))"

text \<open>\<^verbatim>\<open>SinCosSeries\<close>: Clenshaw summation; \<open>k\<close> is the index the pointer \<open>c\<close> stands at.\<close>

fun SinCosSeries_loop ::
  "nat \<Rightarrow> double \<Rightarrow> double list \<Rightarrow> nat \<Rightarrow> double \<Rightarrow> double \<Rightarrow> double \<times> double" where
  "SinCosSeries_loop 0 ar c k y0 y1 = (y0, y1)"
| "SinCosSeries_loop (Suc n) ar c k y0 y1 =
     (let y1 = ar * y0 - y1 + c ! (k - 1);
          y0 = ar * y1 - y0 + c ! (k - 2)
      in SinCosSeries_loop n ar c (k - 2) y0 y1)"

definition SinCosSeries :: "bool \<Rightarrow> double \<Rightarrow> double \<Rightarrow> double list \<Rightarrow> nat \<Rightarrow> double" where
  "SinCosSeries sinp sinx cosx c n =
     (let k = n + (if sinp then 1 else 0);
          ar = Fin 2 * (cosx - sinx) * (cosx + sinx);
          (y0, k) = (if odd n then (c ! (k - 1), k - 1) else (0, k));
          y1 = 0;
          (y0, y1) = SinCosSeries_loop (n div 2) ar c k y0 y1
      in if sinp then Fin 2 * sinx * cosx * y0 else cosx * (y0 - y1))"

section \<open>Series coefficients\<close>

definition GEOGRAPHICLIB_GEODESIC_ORDER :: nat where [simp]: "GEOGRAPHICLIB_GEODESIC_ORDER = 6"
definition nA1 :: nat where [simp]: "nA1 = GEOGRAPHICLIB_GEODESIC_ORDER"
definition nC1 :: nat where [simp]: "nC1 = GEOGRAPHICLIB_GEODESIC_ORDER"
definition nC1p :: nat where [simp]: "nC1p = GEOGRAPHICLIB_GEODESIC_ORDER"
definition nA2 :: nat where [simp]: "nA2 = GEOGRAPHICLIB_GEODESIC_ORDER"
definition nC2 :: nat where [simp]: "nC2 = GEOGRAPHICLIB_GEODESIC_ORDER"
definition nA3 :: nat where [simp]: "nA3 = GEOGRAPHICLIB_GEODESIC_ORDER"
definition nC3 :: nat where [simp]: "nC3 = GEOGRAPHICLIB_GEODESIC_ORDER"
definition nC4 :: nat where [simp]: "nC4 = GEOGRAPHICLIB_GEODESIC_ORDER"
definition nC :: nat where [simp]: "nC = GEOGRAPHICLIB_GEODESIC_ORDER + 1"

text \<open>\<^verbatim>\<open>struct geod_geodesic\<close> (declared in geodesic.h), with the fields geodesic.c
  reads and writes.\<close>

record geod_geodesic =
  g_a :: double
  g_f :: double
  g_f1 :: double
  g_e2 :: double
  g_ep2 :: double
  g_n :: double
  g_b :: double
  g_c2 :: double
  g_etol2 :: double
  g_A3x :: "double list"
  g_C3x :: "double list"
  g_C4x :: "double list"

definition A1m1f_coeff :: "double list" where
  "A1m1f_coeff = map Fin [1, 4, 64, 0, 256]"

definition A1m1f :: "double \<Rightarrow> double" where
  "A1m1f eps = (let m = nA1 div 2;
                    t = polyvalx (int m) A1m1f_coeff (sq eps) / (A1m1f_coeff ! (m + 1))
                in (t + eps) / (1 - eps))"

definition A2m1f_coeff :: "double list" where
  "A2m1f_coeff = map Fin [- 11, - 28, - 192, 0, 256]"

definition A2m1f :: "double \<Rightarrow> double" where
  "A2m1f eps = (let m = nA2 div 2;
                    t = polyvalx (int m) A2m1f_coeff (sq eps) / (A2m1f_coeff ! (m + 1))
                in (t - eps) / (1 + eps))"

text \<open>The loop shared, word for word, by \<^verbatim>\<open>C1f\<close>, \<^verbatim>\<open>C1pf\<close> and \<^verbatim>\<open>C2f\<close>:
  \<^verbatim>\<open>for (l = 1; l <= n; ++l)\<close> over the table \<open>coeff\<close>, writing \<open>c[l]\<close>.\<close>

function Cf_loop ::
  "double list \<Rightarrow> nat \<Rightarrow> double \<Rightarrow> double \<Rightarrow> nat \<Rightarrow> nat \<Rightarrow> double \<Rightarrow> double list \<Rightarrow> double list" where
  "Cf_loop coeff n eps eps2 l o' d c =
     (if l \<le> n then
        (let m = (n - l) div 2;
             c = c[l := d * polyvalx (int m) (drop o' coeff) eps2 / (coeff ! (o' + m + 1))]
         in Cf_loop coeff n eps eps2 (l + 1) (o' + m + 2) (d * eps) c)
      else c)"
  by pat_completeness auto
termination
  by (relation "measure (\<lambda>(coeff, n, eps, eps2, l, o', d, c). n + 1 - l)") auto

definition C1f_coeff :: "double list" where
  "C1f_coeff = map Fin [- 1, 6, - 16, 32,
                        - 9, 64, - 128, 2048,
                        9, - 16, 768,
                        3, - 5, 512,
                        - 7, 1280,
                        - 7, 2048]"

definition C1f :: "double \<Rightarrow> double list \<Rightarrow> double list" where
  "C1f eps c = Cf_loop C1f_coeff nC1 eps (sq eps) 1 0 eps c"

definition C1pf_coeff :: "double list" where
  "C1pf_coeff = map Fin [205, - 432, 768, 1536,
                         4005, - 4736, 3840, 12288,
                         - 225, 116, 384,
                         - 7173, 2695, 7680,
                         3467, 7680,
                         38081, 61440]"

definition C1pf :: "double \<Rightarrow> double list \<Rightarrow> double list" where
  "C1pf eps c = Cf_loop C1pf_coeff nC1p eps (sq eps) 1 0 eps c"

definition C2f_coeff :: "double list" where
  "C2f_coeff = map Fin [1, 2, 16, 32,
                        35, 64, 384, 2048,
                        15, 80, 768,
                        7, 35, 512,
                        63, 1280,
                        77, 2048]"

definition C2f :: "double \<Rightarrow> double list \<Rightarrow> double list" where
  "C2f eps c = Cf_loop C2f_coeff nC2 eps (sq eps) 1 0 eps c"

definition A3f :: "geod_geodesic \<Rightarrow> double \<Rightarrow> double" where
  "A3f g eps = polyvalx (int (nA3 - 1)) (g_A3x g) eps"

function C3f_loop ::
  "geod_geodesic \<Rightarrow> double \<Rightarrow> nat \<Rightarrow> nat \<Rightarrow> double \<Rightarrow> double list \<Rightarrow> double list" where
  "C3f_loop g eps l o' mult c =
     (if l < nC3 then
        (let m = nC3 - l - 1;
             mult = mult * eps;
             c = c[l := mult * polyvalx (int m) (drop o' (g_C3x g)) eps]
         in C3f_loop g eps (l + 1) (o' + m + 1) mult c)
      else c)"
  by pat_completeness auto
termination
  by (relation "measure (\<lambda>(g, eps, l, o', mult, c). nC3 - l)") auto

definition C3f :: "geod_geodesic \<Rightarrow> double \<Rightarrow> double list \<Rightarrow> double list" where
  "C3f g eps c = C3f_loop g eps 1 0 1 c"

function C4f_loop ::
  "geod_geodesic \<Rightarrow> double \<Rightarrow> nat \<Rightarrow> nat \<Rightarrow> double \<Rightarrow> double list \<Rightarrow> double list" where
  "C4f_loop g eps l o' mult c =
     (if l < nC4 then
        (let m = nC4 - l - 1;
             c = c[l := mult * polyvalx (int m) (drop o' (g_C4x g)) eps]
         in C4f_loop g eps (l + 1) (o' + m + 1) (mult * eps) c)
      else c)"
  by pat_completeness auto
termination
  by (relation "measure (\<lambda>(g, eps, l, o', mult, c). nC4 - l)") auto

definition C4f :: "geod_geodesic \<Rightarrow> double \<Rightarrow> double list \<Rightarrow> double list" where
  "C4f g eps c = C4f_loop g eps 0 0 1 c"

definition A3coeff_coeff :: "double list" where
  "A3coeff_coeff = map Fin [- 3, 128,
                            - 2, - 3, 64,
                            - 1, - 3, - 1, 16,
                            3, - 1, - 2, 8,
                            1, - 1, 2,
                            1, 1]"

text \<open>\<^verbatim>\<open>for (j = nA3 - 1; j >= 0; --j)\<close>: the first argument is \<open>j + 1\<close>.\<close>

fun A3coeff_loop :: "double \<Rightarrow> nat \<Rightarrow> nat \<Rightarrow> nat \<Rightarrow> double list \<Rightarrow> double list" where
  "A3coeff_loop n 0 o' k A = A"
| "A3coeff_loop n (Suc j) o' k A =
     (let m = (if nA3 - j - 1 < j then nA3 - j - 1 else j);
          A = A[k := polyvalx (int m) (drop o' A3coeff_coeff) n / (A3coeff_coeff ! (o' + m + 1))]
      in A3coeff_loop n j (o' + m + 2) (k + 1) A)"

definition A3coeff :: "geod_geodesic \<Rightarrow> geod_geodesic" where
  "A3coeff g = g\<lparr>g_A3x := A3coeff_loop (g_n g) nA3 0 0 (g_A3x g)\<rparr>"

definition C3coeff_coeff :: "double list" where
  "C3coeff_coeff = map Fin [3, 128,
                            2, 5, 128,
                            - 1, 3, 3, 64,
                            - 1, 0, 1, 8,
                            - 1, 1, 4,
                            5, 256,
                            1, 3, 128,
                            - 3, - 2, 3, 64,
                            1, - 3, 2, 32,
                            7, 512,
                            - 10, 9, 384,
                            5, - 9, 5, 192,
                            7, 512,
                            - 14, 7, 512,
                            21, 2560]"

text \<open>The inner loop \<^verbatim>\<open>for (j = nC3 - 1; j >= l; --j)\<close>: the third argument is
  \<open>j + 1\<close>; it returns \<open>o\<close>, \<open>k\<close> and the table.\<close>

fun C3coeff_inner ::
  "double \<Rightarrow> nat \<Rightarrow> nat \<Rightarrow> nat \<Rightarrow> nat \<Rightarrow> double list \<Rightarrow> nat \<times> nat \<times> double list" where
  "C3coeff_inner n l 0 o' k C = (o', k, C)"
| "C3coeff_inner n l (Suc j) o' k C =
     (if l \<le> j then
        (let m = (if nC3 - j - 1 < j then nC3 - j - 1 else j);
             C = C[k := polyvalx (int m) (drop o' C3coeff_coeff) n / (C3coeff_coeff ! (o' + m + 1))]
         in C3coeff_inner n l j (o' + m + 2) (k + 1) C)
      else (o', k, C))"

function C3coeff_loop :: "double \<Rightarrow> nat \<Rightarrow> nat \<Rightarrow> nat \<Rightarrow> double list \<Rightarrow> double list" where
  "C3coeff_loop n l o' k C =
     (if l < nC3 then
        (let (o', k, C) = C3coeff_inner n l nC3 o' k C in C3coeff_loop n (l + 1) o' k C)
      else C)"
  by pat_completeness auto
termination
  by (relation "measure (\<lambda>(n, l, o', k, C). nC3 - l)") auto

definition C3coeff :: "geod_geodesic \<Rightarrow> geod_geodesic" where
  "C3coeff g = g\<lparr>g_C3x := C3coeff_loop (g_n g) 1 0 0 (g_C3x g)\<rparr>"

definition C4coeff_coeff :: "double list" where
  "C4coeff_coeff = map Fin [97, 15015,
                            1088, 156, 45045,
                            - 224, - 4784, 1573, 45045,
                            - 10656, 14144, - 4576, - 858, 45045,
                            64, 624, - 4576, 6864, - 3003, 15015,
                            100, 208, 572, 3432, - 12012, 30030, 45045,
                            1, 9009,
                            - 2944, 468, 135135,
                            5792, 1040, - 1287, 135135,
                            5952, - 11648, 9152, - 2574, 135135,
                            - 64, - 624, 4576, - 6864, 3003, 135135,
                            8, 10725,
                            1856, - 936, 225225,
                            - 8448, 4992, - 1144, 225225,
                            - 1440, 4160, - 4576, 1716, 225225,
                            - 136, 63063,
                            1024, - 208, 105105,
                            3584, - 3328, 1144, 315315,
                            - 128, 135135,
                            - 2560, 832, 405405,
                            128, 99099]"

fun C4coeff_inner ::
  "double \<Rightarrow> nat \<Rightarrow> nat \<Rightarrow> nat \<Rightarrow> nat \<Rightarrow> double list \<Rightarrow> nat \<times> nat \<times> double list" where
  "C4coeff_inner n l 0 o' k C = (o', k, C)"
| "C4coeff_inner n l (Suc j) o' k C =
     (if l \<le> j then
        (let m = nC4 - j - 1;
             C = C[k := polyvalx (int m) (drop o' C4coeff_coeff) n / (C4coeff_coeff ! (o' + m + 1))]
         in C4coeff_inner n l j (o' + m + 2) (k + 1) C)
      else (o', k, C))"

function C4coeff_loop :: "double \<Rightarrow> nat \<Rightarrow> nat \<Rightarrow> nat \<Rightarrow> double list \<Rightarrow> double list" where
  "C4coeff_loop n l o' k C =
     (if l < nC4 then
        (let (o', k, C) = C4coeff_inner n l nC4 o' k C in C4coeff_loop n (l + 1) o' k C)
      else C)"
  by pat_completeness auto
termination
  by (relation "measure (\<lambda>(n, l, o', k, C). nC4 - l)") auto

definition C4coeff :: "geod_geodesic \<Rightarrow> geod_geodesic" where
  "C4coeff g = g\<lparr>g_C4x := C4coeff_loop (g_n g) 0 0 0 (g_C4x g)\<rparr>"

text \<open>\<^verbatim>\<open>geod_init\<close>; \<open>g0\<close> is the object the pointer \<open>g\<close> points to before the call
  (its tables have 6, 15 and 21 elements).\<close>

definition geod_init :: "libm \<Rightarrow> geod_geodesic \<Rightarrow> double \<Rightarrow> double \<Rightarrow> geod_geodesic" where
  "geod_init lm g0 a f =
     (let g = g0\<lparr>g_a := a\<rparr>;
          g = g\<lparr>g_f := f\<rparr>;
          g = g\<lparr>g_f1 := 1 - g_f g\<rparr>;
          g = g\<lparr>g_e2 := g_f g * (Fin 2 - g_f g)\<rparr>;
          g = g\<lparr>g_ep2 := g_e2 g / sq (g_f1 g)\<rparr>;
          g = g\<lparr>g_n := g_f g / (Fin 2 - g_f g)\<rparr>;
          g = g\<lparr>g_b := g_a g * g_f1 g\<rparr>;
          g = g\<lparr>g_c2 := (sq (g_a g) + sq (g_b g) *
                 (if feq (g_e2 g) 0 then 1
                  else (if g_e2 g > 0 then matanh lm (fsqrt (g_e2 g))
                        else matan lm (fsqrt (- g_e2 g))) /
                       fsqrt (fabs (g_e2 g)))) / Fin 2\<rparr>;
          g = g\<lparr>g_etol2 := rnd (1 / 10) * tol2 /
                 fsqrt (fmax (rnd (1 / 1000)) (fabs (g_f g)) * fmin (Fin 1) (1 - g_f g / Fin 2) / Fin 2)\<rparr>;
          g = A3coeff g;
          g = C3coeff g;
          g = C4coeff g
      in g)"

section \<open>Accumulators and area reduction\<close>

text \<open>An accumulator is the array \<^verbatim>\<open>double s[2]\<close>, here the pair \<open>(s[0], s[1])\<close>.\<close>

definition accini :: "double \<times> double" where
  "accini = (0, 0)"

definition accadd :: "double \<times> double \<Rightarrow> double \<Rightarrow> double \<times> double" where
  "accadd s y = (let (s0, s1) = s;
                     (z, u) = sumx y s1;
                     (s0, s1) = sumx z s0
                 in if feq s0 0 then (u, s1) else (s0, s1 + u))"

definition accsum :: "double \<times> double \<Rightarrow> double \<Rightarrow> double" where
  "accsum s y = fst (accadd s y)"

definition accneg :: "double \<times> double \<Rightarrow> double \<times> double" where
  "accneg s = (- fst s, - snd s)"

definition accrem :: "double \<times> double \<Rightarrow> double \<Rightarrow> double \<times> double" where
  "accrem s y = accadd (remainder (fst s) y, snd s) 0"

definition areareduceA :: "double \<times> double \<Rightarrow> double \<Rightarrow> int \<Rightarrow> bool \<Rightarrow> bool \<Rightarrow> double" where
  "areareduceA area area0 crossings reverse sign =
     (let area = accrem area area0;
          area = (if odd crossings
                  then accadd area ((if fst area < 0 then Fin 1 else Fin (- 1)) * area0 / Fin 2)
                  else area);
          area = (if \<not> reverse then accneg area else area);
          area = (if sign then
                    (if fst area > area0 / Fin 2 then accadd area (- area0)
                     else if fst area \<le> - area0 / Fin 2 then accadd area area0
                     else area)
                  else
                    (if fst area \<ge> area0 then accadd area (- area0)
                     else if fst area < 0 then accadd area area0
                     else area))
      in 0 + fst area)"


definition transit :: "double \<Rightarrow> double \<Rightarrow> int" where
  "transit lon1 lon2 =
     (let lon12 = fst (AngDiff lon1 lon2);
          lon1 = AngNormalize lon1;
          lon2 = AngNormalize lon2
      in if lon12 > 0 \<and> ((lon1 < 0 \<and> lon2 \<ge> 0) \<or> (lon1 > 0 \<and> feq lon2 0)) then 1
         else if lon12 < 0 \<and> lon1 \<ge> 0 \<and> lon2 < 0 then - 1 else 0)"

definition transitdirect :: "double \<Rightarrow> double \<Rightarrow> int" where
  "transitdirect lon1 lon2 =
     (let lon1 = remainder lon1 (Fin 2 * td);
          lon2 = remainder lon2 (Fin 2 * td)
      in (if lon2 \<ge> 0 \<and> lon2 < td then 0 else 1) - (if lon1 \<ge> 0 \<and> lon1 < td then 0 else 1))"

section \<open>Capability masks and flags\<close>

text \<open>\<^verbatim>\<open>enum captype\<close> of geodesic.c.\<close>

definition CAP_NONE :: "32 word" where "CAP_NONE = 0"
definition CAP_C1 :: "32 word" where "CAP_C1 = 1"
definition CAP_C1p :: "32 word" where "CAP_C1p = 2"
definition CAP_C2 :: "32 word" where "CAP_C2 = 4"
definition CAP_C3 :: "32 word" where "CAP_C3 = 8"
definition CAP_C4 :: "32 word" where "CAP_C4 = 16"
definition CAP_ALL :: "32 word" where "CAP_ALL = 0x1F"
definition OUT_ALL :: "32 word" where "OUT_ALL = 0x7F80"

text \<open>Modelled from the spec: \<^verbatim>\<open>enum geod_mask\<close> and \<^verbatim>\<open>enum geod_flags\<close> are declared in
  geodesic.h, which is not among the source files. They are the capabilities the spec
  lists (distance-in, longitude, latitude, azimuth, reduced-length, scale, area,
  long-unroll), each an output bit within \<open>OUT_ALL\<close> together with the \<open>CAP\<close> bits of
  the series it needs, at the bit positions of the public header.\<close>

definition GEOD_NONE :: "32 word" where "GEOD_NONE = 0"
definition GEOD_LATITUDE :: "32 word" where "GEOD_LATITUDE = 0x80"
definition GEOD_LONGITUDE :: "32 word" where "GEOD_LONGITUDE = 0x100 OR 8"
definition GEOD_AZIMUTH :: "32 word" where "GEOD_AZIMUTH = 0x200"
definition GEOD_DISTANCE :: "32 word" where "GEOD_DISTANCE = 0x400 OR 1"
definition GEOD_DISTANCE_IN :: "32 word" where "GEOD_DISTANCE_IN = 0x800 OR 1 OR 2"
definition GEOD_REDUCEDLENGTH :: "32 word" where "GEOD_REDUCEDLENGTH = 0x1000 OR 1 OR 4"
definition GEOD_GEODESICSCALE :: "32 word" where "GEOD_GEODESICSCALE = 0x2000 OR 1 OR 4"
definition GEOD_AREA :: "32 word" where "GEOD_AREA = 0x4000 OR 16"
definition GEOD_ALL :: "32 word" where "GEOD_ALL = 0x7F80 OR 0x1F"

definition GEOD_NOFLAGS :: "32 word" where "GEOD_NOFLAGS = 0"
definition GEOD_ARCMODE :: "32 word" where "GEOD_ARCMODE = 1"
definition GEOD_LONG_UNROLL :: "32 word" where "GEOD_LONG_UNROLL = 0x8000"

section \<open>Geodesic lines and the direct problem\<close>

text \<open>\<^verbatim>\<open>struct geod_geodesicline\<close> (declared in geodesic.h).\<close>

record geod_geodesicline =
  l_lat1 :: double
  l_lon1 :: double
  l_azi1 :: double
  l_a :: double
  l_f :: double
  l_salp1 :: double
  l_calp1 :: double
  l_a13 :: double
  l_s13 :: double
  l_b :: double
  l_c2 :: double
  l_f1 :: double
  l_salp0 :: double
  l_calp0 :: double
  l_k2 :: double
  l_ssig1 :: double
  l_csig1 :: double
  l_dn1 :: double
  l_stau1 :: double
  l_ctau1 :: double
  l_somg1 :: double
  l_comg1 :: double
  l_A1m1 :: double
  l_A2m1 :: double
  l_A3c :: double
  l_B11 :: double
  l_B21 :: double
  l_B31 :: double
  l_A4 :: double
  l_B41 :: double
  l_C1a :: "double list"
  l_C1pa :: "double list"
  l_C2a :: "double list"
  l_C3a :: "double list"
  l_C4a :: "double list"
  l_caps :: "32 word"

text \<open>An output parameter \<^verbatim>\<open>double* p\<close>: \<open>None\<close> is the null pointer, \<open>Some v\<close> a cell
  holding \<open>v\<close>. A function returns the cells as it leaves them.\<close>

definition store :: "double option \<Rightarrow> double \<Rightarrow> double option" where
  "store p v = (case p of None \<Rightarrow> None | Some w \<Rightarrow> Some v)"

text \<open>\<^verbatim>\<open>if (c && p) *p = v;\<close>\<close>

definition store_if :: "bool \<Rightarrow> double option \<Rightarrow> double \<Rightarrow> double option" where
  "store_if c p v = (if c then store p v else p)"

record geod_outs =
  plat2 :: "double option"
  plon2 :: "double option"
  pazi2 :: "double option"
  ps12 :: "double option"
  pm12 :: "double option"
  pM12 :: "double option"
  pM21 :: "double option"
  pS12 :: "double option"

text \<open>\<^verbatim>\<open>geod_lineinit_int\<close>, block by block; \<open>l\<close> is the object behind the pointer
  before the call. First the assignments of the ellipsoid's constants, the capabilities
  and the starting point.\<close>

definition lineinit_point ::
  "geod_geodesicline \<Rightarrow> geod_geodesic \<Rightarrow> double \<Rightarrow> double \<Rightarrow> double \<Rightarrow> double \<Rightarrow> double
   \<Rightarrow> 32 word \<Rightarrow> geod_geodesicline" where
  "lineinit_point l g lat1 lon1 azi1 salp1 calp1 caps =
     l\<lparr>l_a := g_a g, l_f := g_f g, l_b := g_b g, l_c2 := g_c2 g, l_f1 := g_f1 g,
       l_caps := (if caps \<noteq> 0 then caps else GEOD_DISTANCE_IN OR GEOD_LONGITUDE) OR
                 GEOD_LATITUDE OR GEOD_AZIMUTH OR GEOD_LONG_UNROLL,
       l_lat1 := LatFix lat1, l_lon1 := lon1, l_azi1 := azi1,
       l_salp1 := salp1, l_calp1 := calp1\<rparr>"

text \<open>From \<^verbatim>\<open>sincosdx(AngRound(l->lat1), &sbet1, &cbet1)\<close> to \<^verbatim>\<open>l->k2\<close>.\<close>

definition lineinit_sig1 :: "libm \<Rightarrow> geod_geodesic \<Rightarrow> geod_geodesicline \<Rightarrow> geod_geodesicline" where
  "lineinit_sig1 lm g l =
     (let (sbet1, cbet1) = sincosdx lm (AngRound (l_lat1 l));
          sbet1 = sbet1 * l_f1 l;
          (sbet1, cbet1) = norm2 lm (sbet1, cbet1);
          cbet1 = fmax tiny cbet1;
          dn1 = fsqrt (1 + g_ep2 g * sq sbet1);
          salp0 = l_salp1 l * cbet1;
          calp0 = mhypot lm (l_calp1 l) (l_salp1 l * sbet1);
          ssig1 = sbet1;
          somg1 = salp0 * sbet1;
          comg1 = (if \<not> feq sbet1 0 \<or> \<not> feq (l_calp1 l) 0 then cbet1 * l_calp1 l else 1);
          csig1 = comg1;
          (ssig1, csig1) = norm2 lm (ssig1, csig1);
          k2 = sq calp0 * g_ep2 g
      in l\<lparr>l_dn1 := dn1, l_salp0 := salp0, l_calp0 := calp0, l_ssig1 := ssig1,
           l_somg1 := somg1, l_csig1 := csig1, l_comg1 := comg1, l_k2 := k2\<rparr>)"

definition lineinit_C1 :: "libm \<Rightarrow> double \<Rightarrow> geod_geodesicline \<Rightarrow> geod_geodesicline" where
  "lineinit_C1 lm eps l =
     (if (l_caps l AND CAP_C1) \<noteq> 0 then
        (let A1m1 = A1m1f eps;
             C1a = C1f eps (l_C1a l);
             B11 = SinCosSeries True (l_ssig1 l) (l_csig1 l) C1a nC1;
             s = msin lm B11;
             c = mcos lm B11
         in l\<lparr>l_A1m1 := A1m1, l_C1a := C1a, l_B11 := B11,
              l_stau1 := l_ssig1 l * c + l_csig1 l * s,
              l_ctau1 := l_csig1 l * c - l_ssig1 l * s\<rparr>)
      else l)"

definition lineinit_C1p :: "double \<Rightarrow> geod_geodesicline \<Rightarrow> geod_geodesicline" where
  "lineinit_C1p eps l =
     (if (l_caps l AND CAP_C1p) \<noteq> 0 then l\<lparr>l_C1pa := C1pf eps (l_C1pa l)\<rparr> else l)"

definition lineinit_C2 :: "double \<Rightarrow> geod_geodesicline \<Rightarrow> geod_geodesicline" where
  "lineinit_C2 eps l =
     (if (l_caps l AND CAP_C2) \<noteq> 0 then
        (let A2m1 = A2m1f eps;
             C2a = C2f eps (l_C2a l)
         in l\<lparr>l_A2m1 := A2m1, l_C2a := C2a,
              l_B21 := SinCosSeries True (l_ssig1 l) (l_csig1 l) C2a nC2\<rparr>)
      else l)"

definition lineinit_C3 :: "geod_geodesic \<Rightarrow> double \<Rightarrow> geod_geodesicline \<Rightarrow> geod_geodesicline" where
  "lineinit_C3 g eps l =
     (if (l_caps l AND CAP_C3) \<noteq> 0 then
        (let C3a = C3f g eps (l_C3a l)
         in l\<lparr>l_C3a := C3a,
              l_A3c := - l_f l * l_salp0 l * A3f g eps,
              l_B31 := SinCosSeries True (l_ssig1 l) (l_csig1 l) C3a (nC3 - 1)\<rparr>)
      else l)"

definition lineinit_C4 :: "geod_geodesic \<Rightarrow> double \<Rightarrow> geod_geodesicline \<Rightarrow> geod_geodesicline" where
  "lineinit_C4 g eps l =
     (if (l_caps l AND CAP_C4) \<noteq> 0 then
        (let C4a = C4f g eps (l_C4a l)
         in l\<lparr>l_C4a := C4a,
              l_A4 := sq (l_a l) * l_calp0 l * l_salp0 l * g_e2 g,
              l_B41 := SinCosSeries False (l_ssig1 l) (l_csig1 l) C4a nC4\<rparr>)
      else l)"

definition geod_lineinit_int ::
  "libm \<Rightarrow> geod_geodesicline \<Rightarrow> geod_geodesic \<Rightarrow> double \<Rightarrow> double \<Rightarrow> double \<Rightarrow> double \<Rightarrow> double
   \<Rightarrow> 32 word \<Rightarrow> geod_geodesicline" where
  "geod_lineinit_int lm l g lat1 lon1 azi1 salp1 calp1 caps =
     (let l = lineinit_point l g lat1 lon1 azi1 salp1 calp1 caps;
          l = lineinit_sig1 lm g l;
          eps = l_k2 l / (Fin 2 * (1 + fsqrt (1 + l_k2 l)) + l_k2 l);
          l = lineinit_C1 lm eps l;
          l = lineinit_C1p eps l;
          l = lineinit_C2 eps l;
          l = lineinit_C3 g eps l;
          l = lineinit_C4 g eps l
      in l\<lparr>l_s13 := NaN, l_a13 := NaN\<rparr>)"

definition geod_lineinit ::
  "libm \<Rightarrow> geod_geodesicline \<Rightarrow> geod_geodesic \<Rightarrow> double \<Rightarrow> double \<Rightarrow> double \<Rightarrow> 32 word
   \<Rightarrow> geod_geodesicline" where
  "geod_lineinit lm l g lat1 lon1 azi1 caps =
     (let azi1 = AngNormalize azi1;
          (salp1, calp1) = sincosdx lm (AngRound azi1)
      in geod_lineinit_int lm l g lat1 lon1 azi1 salp1 calp1 caps)"

text \<open>The mask \<^verbatim>\<open>geod_genposition\<close> and \<^verbatim>\<open>geod_gendirect\<close> build from their output
  pointers.\<close>

definition position_outmask :: "geod_outs \<Rightarrow> 32 word" where
  "position_outmask outs =
     (if plat2 outs \<noteq> None then GEOD_LATITUDE else GEOD_NONE) OR
     (if plon2 outs \<noteq> None then GEOD_LONGITUDE else GEOD_NONE) OR
     (if pazi2 outs \<noteq> None then GEOD_AZIMUTH else GEOD_NONE) OR
     (if ps12 outs \<noteq> None then GEOD_DISTANCE else GEOD_NONE) OR
     (if pm12 outs \<noteq> None then GEOD_REDUCEDLENGTH else GEOD_NONE) OR
     (if pM12 outs \<noteq> None \<or> pM21 outs \<noteq> None then GEOD_GEODESICSCALE else GEOD_NONE) OR
     (if pS12 outs \<noteq> None then GEOD_AREA else GEOD_NONE)"

text \<open>The first block of \<^verbatim>\<open>geod_genposition\<close> (\<^verbatim>\<open>if (flags & GEOD_ARCMODE) ... else ...\<close>):
  the arc length \<open>sig12\<close>, its sine and cosine, and \<open>B12\<close>.\<close>

definition genposition_sig12 ::
  "libm \<Rightarrow> geod_geodesicline \<Rightarrow> 32 word \<Rightarrow> double \<Rightarrow> double \<Rightarrow> double \<times> double \<times> double \<times> double" where
  "genposition_sig12 lm l flags s12_a12 B12 =
     (if (flags AND GEOD_ARCMODE) \<noteq> 0 then
        (let sig12 = s12_a12 * degree;
             (ssig12, csig12) = sincosdx lm s12_a12
         in (sig12, ssig12, csig12, B12))
      else
        (let tau12 = s12_a12 / (l_b l * (1 + l_A1m1 l));
             s = msin lm tau12;
             c = mcos lm tau12;
             B12 = - SinCosSeries True (l_stau1 l * c + l_ctau1 l * s)
                       (l_ctau1 l * c - l_stau1 l * s) (l_C1pa l) nC1p;
             sig12 = tau12 - (B12 - l_B11 l);
             ssig12 = msin lm sig12;
             csig12 = mcos lm sig12
         in if fabs (l_f l) > rnd (1 / 100) then
              (let ssig2 = l_ssig1 l * csig12 + l_csig1 l * ssig12;
                   csig2 = l_csig1 l * csig12 - l_ssig1 l * ssig12;
                   B12 = SinCosSeries True ssig2 csig2 (l_C1a l) nC1;
                   serr = (1 + l_A1m1 l) * (sig12 + (B12 - l_B11 l)) - s12_a12 / l_b l;
                   sig12 = sig12 - serr / fsqrt (1 + l_k2 l * sq ssig2);
                   ssig12 = msin lm sig12;
                   csig12 = mcos lm sig12
               in (sig12, ssig12, csig12, B12))
            else (sig12, ssig12, csig12, B12)))"

text \<open>The body of \<^verbatim>\<open>if (outmask & GEOD_LONGITUDE) { ... }\<close>: the value of \<open>lon2\<close>.\<close>

definition genposition_lon2 ::
  "libm \<Rightarrow> geod_geodesicline \<Rightarrow> 32 word \<Rightarrow> double \<Rightarrow> double \<Rightarrow> double \<Rightarrow> double" where
  "genposition_lon2 lm l flags sig12 ssig2 csig2 =
     (let E = copysign (Fin 1) (l_salp0 l);
          somg2 = l_salp0 l * ssig2;
          comg2 = csig2;
          omg12 = (if (flags AND GEOD_LONG_UNROLL) \<noteq> 0
                   then E * (sig12
                             - (matan2 lm ssig2 csig2 - matan2 lm (l_ssig1 l) (l_csig1 l))
                             + (matan2 lm (E * somg2) comg2
                                - matan2 lm (E * l_somg1 l) (l_comg1 l)))
                   else matan2 lm (somg2 * l_comg1 l - comg2 * l_somg1 l)
                                  (comg2 * l_comg1 l + somg2 * l_somg1 l));
          lam12 = omg12 + l_A3c l *
            (sig12 + (SinCosSeries True ssig2 csig2 (l_C3a l) (nC3 - 1) - l_B31 l));
          lon12 = lam12 / degree
      in if (flags AND GEOD_LONG_UNROLL) \<noteq> 0 then l_lon1 l + lon12
         else AngNormalize (AngNormalize (l_lon1 l) + AngNormalize lon12))"

text \<open>The body of \<^verbatim>\<open>if (outmask & (GEOD_REDUCEDLENGTH | GEOD_GEODESICSCALE)) { ... }\<close>:
  the values of \<open>m12\<close>, \<open>M12\<close> and \<open>M21\<close> after it.\<close>

definition genposition_m12 ::
  "geod_geodesicline \<Rightarrow> 32 word \<Rightarrow> double \<Rightarrow> double \<Rightarrow> double \<Rightarrow> double \<Rightarrow> double \<Rightarrow> double
   \<Rightarrow> double \<times> double \<times> double \<Rightarrow> double \<times> double \<times> double" where
  "genposition_m12 l outmask sig12 csig12 ssig2 csig2 dn2 AB1 mM =
     (let (m12, M12, M21) = mM;
          B22 = SinCosSeries True ssig2 csig2 (l_C2a l) nC2;
          AB2 = (1 + l_A2m1 l) * (B22 - l_B21 l);
          J12 = (l_A1m1 l - l_A2m1 l) * sig12 + (AB1 - AB2);
          m12 = (if (outmask AND GEOD_REDUCEDLENGTH) \<noteq> 0
                 then l_b l * ((dn2 * (l_csig1 l * ssig2) - l_dn1 l * (l_ssig1 l * csig2))
                               - l_csig1 l * csig2 * J12)
                 else m12)
      in if (outmask AND GEOD_GEODESICSCALE) \<noteq> 0 then
           (let t = l_k2 l * (ssig2 - l_ssig1 l) * (ssig2 + l_ssig1 l) / (l_dn1 l + dn2)
            in (m12,
                csig12 + (t * ssig2 - csig2 * J12) * l_ssig1 l / l_dn1 l,
                csig12 - (t * l_ssig1 l - l_csig1 l * J12) * ssig2 / dn2))
         else (m12, M12, M21))"

text \<open>The body of \<^verbatim>\<open>if (outmask & GEOD_AREA) { ... }\<close>: the value of \<open>S12\<close>.\<close>

definition genposition_S12 ::
  "libm \<Rightarrow> geod_geodesicline \<Rightarrow> double \<Rightarrow> double \<Rightarrow> double \<Rightarrow> double \<Rightarrow> double \<Rightarrow> double
   \<Rightarrow> double" where
  "genposition_S12 lm l ssig12 csig12 ssig2 csig2 salp2 calp2 =
     (let B42 = SinCosSeries False ssig2 csig2 (l_C4a l) nC4;
          (salp12, calp12) =
            (if feq (l_calp0 l) 0 \<or> feq (l_salp0 l) 0 then
               (salp2 * l_calp1 l - calp2 * l_salp1 l,
                calp2 * l_calp1 l + salp2 * l_salp1 l)
             else
               (l_calp0 l * l_salp0 l *
                  (if csig12 \<le> 0 then l_csig1 l * (1 - csig12) + ssig12 * l_ssig1 l
                   else ssig12 * (l_csig1 l * ssig12 / (1 + csig12) + l_ssig1 l)),
                sq (l_salp0 l) + sq (l_calp0 l) * l_csig1 l * csig2))
      in l_c2 l * matan2 lm salp12 calp12 + l_A4 l * (B42 - l_B41 l))"

text \<open>\<^verbatim>\<open>geod_genposition\<close>: the returned arc length and the output cells.\<close>

definition geod_genposition ::
  "libm \<Rightarrow> geod_geodesicline \<Rightarrow> 32 word \<Rightarrow> double \<Rightarrow> geod_outs \<Rightarrow> double \<times> geod_outs" where
  "geod_genposition lm l flags s12_a12 outs =
     (let lat2 = 0; lon2 = 0; azi2 = 0; s12 = 0; m12 = 0; M12 = 0; M21 = 0; S12 = 0;
          B12 = 0; AB1 = 0;
          outmask = position_outmask outs;
          outmask = outmask AND (l_caps l AND OUT_ALL)
      in if \<not> ((flags AND GEOD_ARCMODE) \<noteq> 0 \<or> (l_caps l AND (GEOD_DISTANCE_IN AND OUT_ALL)) \<noteq> 0)
         then (NaN, outs)
         else
          (let (sig12, ssig12, csig12, B12) = genposition_sig12 lm l flags s12_a12 B12;
               ssig2 = l_ssig1 l * csig12 + l_csig1 l * ssig12;
               csig2 = l_csig1 l * csig12 - l_ssig1 l * ssig12;
               dn2 = fsqrt (1 + l_k2 l * sq ssig2);
               (B12, AB1) =
                 (if (outmask AND (GEOD_DISTANCE OR GEOD_REDUCEDLENGTH OR GEOD_GEODESICSCALE)) \<noteq> 0 then
                    (let B12 = (if (flags AND GEOD_ARCMODE) \<noteq> 0 \<or> fabs (l_f l) > rnd (1 / 100)
                                then SinCosSeries True ssig2 csig2 (l_C1a l) nC1 else B12)
                     in (B12, (1 + l_A1m1 l) * (B12 - l_B11 l)))
                  else (B12, AB1));
               sbet2 = l_calp0 l * ssig2;
               cbet2 = mhypot lm (l_salp0 l) (l_calp0 l * csig2);
               (cbet2, csig2) = (if feq cbet2 0 then (tiny, tiny) else (cbet2, csig2));
               salp2 = l_salp0 l;
               calp2 = l_calp0 l * csig2;
               s12 = (if (outmask AND GEOD_DISTANCE) \<noteq> 0 then
                        (if (flags AND GEOD_ARCMODE) \<noteq> 0
                         then l_b l * ((1 + l_A1m1 l) * sig12 + AB1)
                         else s12_a12)
                      else s12);
               lon2 = (if (outmask AND GEOD_LONGITUDE) \<noteq> 0
                       then genposition_lon2 lm l flags sig12 ssig2 csig2 else lon2);
               lat2 = (if (outmask AND GEOD_LATITUDE) \<noteq> 0 then atan2dx lm sbet2 (l_f1 l * cbet2) else lat2);
               azi2 = (if (outmask AND GEOD_AZIMUTH) \<noteq> 0 then atan2dx lm salp2 calp2 else azi2);
               (m12, M12, M21) =
                 (if (outmask AND (GEOD_REDUCEDLENGTH OR GEOD_GEODESICSCALE)) \<noteq> 0
                  then genposition_m12 l outmask sig12 csig12 ssig2 csig2 dn2 AB1 (m12, M12, M21)
                  else (m12, M12, M21));
               S12 = (if (outmask AND GEOD_AREA) \<noteq> 0
                      then genposition_S12 lm l ssig12 csig12 ssig2 csig2 salp2 calp2 else S12)
           in (if (flags AND GEOD_ARCMODE) \<noteq> 0 then s12_a12 else sig12 / degree,
               outs\<lparr>plat2 := store_if ((outmask AND GEOD_LATITUDE) \<noteq> 0) (plat2 outs) lat2,
                    plon2 := store_if ((outmask AND GEOD_LONGITUDE) \<noteq> 0) (plon2 outs) lon2,
                    pazi2 := store_if ((outmask AND GEOD_AZIMUTH) \<noteq> 0) (pazi2 outs) azi2,
                    ps12 := store_if ((outmask AND GEOD_DISTANCE) \<noteq> 0) (ps12 outs) s12,
                    pm12 := store_if ((outmask AND GEOD_REDUCEDLENGTH) \<noteq> 0) (pm12 outs) m12,
                    pM12 := store_if ((outmask AND GEOD_GEODESICSCALE) \<noteq> 0) (pM12 outs) M12,
                    pM21 := store_if ((outmask AND GEOD_GEODESICSCALE) \<noteq> 0) (pM21 outs) M21,
                    pS12 := store_if ((outmask AND GEOD_AREA) \<noteq> 0) (pS12 outs) S12\<rparr>)))"

text \<open>No output cell requested: the null pointers of \<^verbatim>\<open>geod_setdistance\<close>.\<close>

definition no_outs :: geod_outs where
  "no_outs = \<lparr>plat2 = None, plon2 = None, pazi2 = None, ps12 = None, pm12 = None,
              pM12 = None, pM21 = None, pS12 = None\<rparr>"

definition geod_setdistance :: "libm \<Rightarrow> geod_geodesicline \<Rightarrow> double \<Rightarrow> geod_geodesicline" where
  "geod_setdistance lm l s13 =
     (let l = l\<lparr>l_s13 := s13\<rparr>
      in l\<lparr>l_a13 := fst (geod_genposition lm l GEOD_NOFLAGS (l_s13 l) no_outs)\<rparr>)"

definition geod_setarc :: "libm \<Rightarrow> geod_geodesicline \<Rightarrow> double \<Rightarrow> geod_geodesicline" where
  "geod_setarc lm l a13 =
     (let l = l\<lparr>l_a13 := a13\<rparr>;
          l = l\<lparr>l_s13 := NaN\<rparr>;
          (r, outs) = geod_genposition lm l GEOD_ARCMODE (l_a13 l) (no_outs\<lparr>ps12 := Some (l_s13 l)\<rparr>)
      in l\<lparr>l_s13 := the (ps12 outs)\<rparr>)"

definition geod_gensetdistance ::
  "libm \<Rightarrow> geod_geodesicline \<Rightarrow> 32 word \<Rightarrow> double \<Rightarrow> geod_geodesicline" where
  "geod_gensetdistance lm l flags s13_a13 =
     (if (flags AND GEOD_ARCMODE) \<noteq> 0 then geod_setarc lm l s13_a13 else geod_setdistance lm l s13_a13)"

definition geod_gendirectline ::
  "libm \<Rightarrow> geod_geodesicline \<Rightarrow> geod_geodesic \<Rightarrow> double \<Rightarrow> double \<Rightarrow> double \<Rightarrow> 32 word \<Rightarrow> double
   \<Rightarrow> 32 word \<Rightarrow> geod_geodesicline" where
  "geod_gendirectline lm l g lat1 lon1 azi1 flags s12_a12 caps =
     geod_gensetdistance lm (geod_lineinit lm l g lat1 lon1 azi1 caps) flags s12_a12"

definition geod_directline ::
  "libm \<Rightarrow> geod_geodesicline \<Rightarrow> geod_geodesic \<Rightarrow> double \<Rightarrow> double \<Rightarrow> double \<Rightarrow> double
   \<Rightarrow> 32 word \<Rightarrow> geod_geodesicline" where
  "geod_directline lm l g lat1 lon1 azi1 s12 caps =
     geod_gendirectline lm l g lat1 lon1 azi1 GEOD_NOFLAGS s12 caps"

text \<open>\<^verbatim>\<open>geod_position\<close>; the flags argument \<^verbatim>\<open>FALSE\<close> is 0.\<close>

definition geod_position ::
  "libm \<Rightarrow> geod_geodesicline \<Rightarrow> double \<Rightarrow> double option \<Rightarrow> double option \<Rightarrow> double option
   \<Rightarrow> geod_outs" where
  "geod_position lm l s12 lat2 lon2 azi2 =
     snd (geod_genposition lm l 0 s12 (no_outs\<lparr>plat2 := lat2, plon2 := lon2, pazi2 := azi2\<rparr>))"

text \<open>\<^verbatim>\<open>geod_gendirect\<close>; \<open>l0\<close> is the content of the local, uninitialised line object.\<close>

definition geod_gendirect ::
  "libm \<Rightarrow> geod_geodesicline \<Rightarrow> geod_geodesic \<Rightarrow> double \<Rightarrow> double \<Rightarrow> double \<Rightarrow> 32 word \<Rightarrow> double
   \<Rightarrow> geod_outs \<Rightarrow> double \<times> geod_outs" where
  "geod_gendirect lm l0 g lat1 lon1 azi1 flags s12_a12 outs =
     (let outmask = position_outmask outs;
          l = geod_lineinit lm l0 g lat1 lon1 azi1
                (outmask OR (if (flags AND GEOD_ARCMODE) \<noteq> 0 then GEOD_NONE else GEOD_DISTANCE_IN))
      in geod_genposition lm l flags s12_a12 outs)"

definition geod_direct ::
  "libm \<Rightarrow> geod_geodesicline \<Rightarrow> geod_geodesic \<Rightarrow> double \<Rightarrow> double \<Rightarrow> double \<Rightarrow> double
   \<Rightarrow> double option \<Rightarrow> double option \<Rightarrow> double option \<Rightarrow> geod_outs" where
  "geod_direct lm l0 g lat1 lon1 azi1 s12 lat2 lon2 azi2 =
     snd (geod_gendirect lm l0 g lat1 lon1 azi1 GEOD_NOFLAGS s12
            (no_outs\<lparr>plat2 := lat2, plon2 := lon2, pazi2 := azi2\<rparr>))"

section \<open>Objects for closed examples\<close>

text \<open>A line object and an ellipsoid object in zero-filled memory, and the WGS84
  ellipsoid as \<^verbatim>\<open>geod_init\<close> builds it with a correctly rounded library.\<close>

definition line_zero :: geod_geodesicline where
  "line_zero = \<lparr>l_lat1 = 0, l_lon1 = 0, l_azi1 = 0, l_a = 0, l_f = 0, l_salp1 = 0, l_calp1 = 0,
     l_a13 = 0, l_s13 = 0, l_b = 0, l_c2 = 0, l_f1 = 0, l_salp0 = 0, l_calp0 = 0, l_k2 = 0,
     l_ssig1 = 0, l_csig1 = 0, l_dn1 = 0, l_stau1 = 0, l_ctau1 = 0, l_somg1 = 0, l_comg1 = 0,
     l_A1m1 = 0, l_A2m1 = 0, l_A3c = 0, l_B11 = 0, l_B21 = 0, l_B31 = 0, l_A4 = 0, l_B41 = 0,
     l_C1a = replicate 7 0, l_C1pa = replicate 7 0, l_C2a = replicate 7 0,
     l_C3a = replicate 6 0, l_C4a = replicate 6 0, l_caps = 0\<rparr>"

definition geod_zero :: geod_geodesic where
  "geod_zero = \<lparr>g_a = 0, g_f = 0, g_f1 = 0, g_e2 = 0, g_ep2 = 0, g_n = 0, g_b = 0, g_c2 = 0,
     g_etol2 = 0, g_A3x = replicate 6 0, g_C3x = replicate 15 0, g_C4x = replicate 21 0\<rparr>"

definition wgs84 :: geod_geodesic where
  "wgs84 = geod_init libm_cr geod_zero (Fin 6378137) (rnd (1 / 298.257223563))"

section \<open>The inverse problem\<close>

text \<open>An \<^verbatim>\<open>int\<close> converted to \<^verbatim>\<open>double\<close> (the signs and small constants of geodesic.c).\<close>

definition dbl :: "int \<Rightarrow> double" where
  "dbl i = Fin (of_int i)"

text \<open>\<^verbatim>\<open>Lengths\<close>. Its five output pointers are cells (\<open>None\<close> for \<^verbatim>\<open>nullptr\<close>); the
  scratch array \<open>Ca\<close> is returned as the call leaves it. The local array \<open>Cb\<close> is
  uninitialised in C; only the elements \<^verbatim>\<open>C2f\<close> has written are read, and the model
  starts it from zeros.\<close>

record lengths_ptrs =
  L_ps12b :: "double option"
  L_pm12b :: "double option"
  L_pm0 :: "double option"
  L_pM12 :: "double option"
  L_pM21 :: "double option"

function Lengths_loop ::
  "double \<Rightarrow> double \<Rightarrow> double list \<Rightarrow> nat \<Rightarrow> double list \<Rightarrow> double list" where
  "Lengths_loop A1 A2 Ca l Cb =
     (if l \<le> nC2 then Lengths_loop A1 A2 Ca (l + 1) (Cb[l := A1 * Ca ! l - A2 * Cb ! l]) else Cb)"
  by pat_completeness auto
termination
  by (relation "measure (\<lambda>(A1, A2, Ca, l, Cb). nC2 + 1 - l)") auto

definition Lengths ::
  "geod_geodesic \<Rightarrow> double \<Rightarrow> double \<Rightarrow> double \<Rightarrow> double \<Rightarrow> double \<Rightarrow> double \<Rightarrow> double \<Rightarrow> double
   \<Rightarrow> double \<Rightarrow> double \<Rightarrow> lengths_ptrs \<Rightarrow> double list \<Rightarrow> lengths_ptrs \<times> double list" where
  "Lengths g eps sig12 ssig1 csig1 dn1 ssig2 csig2 dn2 cbet1 cbet2 ptrs Ca =
     (let m0 = 0; J12 = 0; A1 = 0; A2 = 0;
          Cb = replicate nC 0;
          redlp = (L_pm12b ptrs \<noteq> None \<or> L_pm0 ptrs \<noteq> None \<or> L_pM12 ptrs \<noteq> None
                   \<or> L_pM21 ptrs \<noteq> None);
          (A1, A2, m0, Ca, Cb) =
            (if L_ps12b ptrs \<noteq> None \<or> redlp then
               (let A1 = A1m1f eps;
                    Ca = C1f eps Ca;
                    (A2, m0, Cb) =
                      (if redlp then
                         (let A2 = A2m1f eps;
                              Cb = C2f eps Cb;
                              m0 = A1 - A2;
                              A2 = 1 + A2
                          in (A2, m0, Cb))
                       else (A2, m0, Cb));
                    A1 = 1 + A1
                in (A1, A2, m0, Ca, Cb))
             else (A1, A2, m0, Ca, Cb));
          (ptrs, J12) =
            (if L_ps12b ptrs \<noteq> None then
               (let B1 = SinCosSeries True ssig2 csig2 Ca nC1 - SinCosSeries True ssig1 csig1 Ca nC1;
                    ptrs = ptrs\<lparr>L_ps12b := Some (A1 * (sig12 + B1))\<rparr>
                in if redlp then
                     (let B2 = SinCosSeries True ssig2 csig2 Cb nC2
                               - SinCosSeries True ssig1 csig1 Cb nC2
                      in (ptrs, m0 * sig12 + (A1 * B1 - A2 * B2)))
                   else (ptrs, J12))
             else if redlp then
               (let Cb = Lengths_loop A1 A2 Ca 1 Cb
                in (ptrs, m0 * sig12 + (SinCosSeries True ssig2 csig2 Cb nC2
                                         - SinCosSeries True ssig1 csig1 Cb nC2)))
             else (ptrs, J12));
          ptrs = ptrs\<lparr>L_pm0 := store (L_pm0 ptrs) m0\<rparr>;
          ptrs = ptrs\<lparr>L_pm12b := store (L_pm12b ptrs)
                   (dn2 * (csig1 * ssig2) - dn1 * (ssig1 * csig2) - csig1 * csig2 * J12)\<rparr>;
          ptrs = (if L_pM12 ptrs \<noteq> None \<or> L_pM21 ptrs \<noteq> None then
                    (let csig12 = csig1 * csig2 + ssig1 * ssig2;
                         t = g_ep2 g * (cbet1 - cbet2) * (cbet1 + cbet2) / (dn1 + dn2)
                     in ptrs\<lparr>L_pM12 := store (L_pM12 ptrs)
                                (csig12 + (t * ssig2 - csig2 * J12) * ssig1 / dn1),
                              L_pM21 := store (L_pM21 ptrs)
                                (csig12 - (t * ssig1 - csig1 * J12) * ssig2 / dn2)\<rparr>)
                  else ptrs)
      in (ptrs, Ca))"

definition Astroid :: "libm \<Rightarrow> double \<Rightarrow> double \<Rightarrow> double" where
  "Astroid lm x y =
     (let p = sq x;
          q = sq y;
          r = (p + q - 1) / Fin 6
      in if \<not> (feq q 0 \<and> r \<le> 0) then
           (let S = p * q / Fin 4;
                r2 = sq r;
                r3 = r * r2;
                disc = S * (S + Fin 2 * r3);
                u = r;
                u = (if disc \<ge> 0 then
                       (let T3 = S + r3;
                            T3 = T3 + (if T3 < 0 then - fsqrt disc else fsqrt disc);
                            T = mcbrt lm T3
                        in u + (T + (if \<not> feq T 0 then r2 / T else 0)))
                     else
                       (let ang = matan2 lm (fsqrt (- disc)) (- (S + r3))
                        in u + Fin 2 * r * mcos lm (ang / Fin 3)));
                v = fsqrt (sq u + q);
                uv = (if u < 0 then q / (v - u) else u + v);
                w = (uv - q) / (Fin 2 * v)
            in uv / (fsqrt (uv + sq w) + w))
         else 0)"

text \<open>The last branch of \<^verbatim>\<open>InverseStart\<close> (the points are nearly antipodal): the scaled
  coordinates \<open>x\<close>, \<open>y\<close> and the starting azimuth from the strip near the cut or from the
  astroid. It returns \<open>salp1\<close>, \<open>calp1\<close> and the scratch array.\<close>

definition InverseStart_antipodal ::
  "libm \<Rightarrow> geod_geodesic \<Rightarrow> double \<Rightarrow> double \<Rightarrow> double \<Rightarrow> double \<Rightarrow> double \<Rightarrow> double \<Rightarrow> double
   \<Rightarrow> double \<Rightarrow> double \<Rightarrow> double list \<Rightarrow> double \<times> double \<times> double list" where
  "InverseStart_antipodal lm g sbet1 cbet1 dn1 sbet2 cbet2 dn2 slam12 clam12 sbet12a Ca =
     (let lam12x = matan2 lm (- slam12) (- clam12);
          (x, y, lamscale, Ca) =
            (if g_f g \<ge> 0 then
               (let k2 = sq sbet1 * g_ep2 g;
                    eps = k2 / (Fin 2 * (1 + fsqrt (1 + k2)) + k2);
                    lamscale = g_f g * cbet1 * A3f g eps * pi_d;
                    betscale = lamscale * cbet1;
                    x = lam12x / lamscale;
                    y = sbet12a / betscale
                in (x, y, lamscale, Ca))
             else
               (let cbet12a = cbet2 * cbet1 - sbet2 * sbet1;
                    bet12a = matan2 lm sbet12a cbet12a;
                    (ptrs, Ca) = Lengths g (g_n g) (pi_d + bet12a) sbet1 (- cbet1) dn1 sbet2 cbet2 dn2
                                   cbet1 cbet2
                                   \<lparr>L_ps12b = None, L_pm12b = Some 0, L_pm0 = Some 0,
                                    L_pM12 = None, L_pM21 = None\<rparr> Ca;
                    m12b = the (L_pm12b ptrs);
                    m0 = the (L_pm0 ptrs);
                    x = Fin (- 1) + m12b / (cbet1 * cbet2 * m0 * pi_d);
                    betscale = (if x < - rnd (1 / 100) then sbet12a / x
                                else - g_f g * sq cbet1 * pi_d);
                    lamscale = betscale / cbet1;
                    y = lam12x / lamscale
                in (x, y, lamscale, Ca)))
      in if y > - tol1 \<and> x > Fin (- 1) - xthresh then
           (if g_f g \<ge> 0 then
              (let salp1 = fmin (Fin 1) (- x);
                   calp1 = - fsqrt (1 - sq salp1)
               in (salp1, calp1, Ca))
            else
              (let calp1 = fmax (if x > - tol1 then Fin 0 else Fin (- 1)) x;
                   salp1 = fsqrt (1 - sq calp1)
               in (salp1, calp1, Ca)))
         else
           (let k = Astroid lm x y;
                omg12a = lamscale * (if g_f g \<ge> 0 then - x * k / (1 + k) else - y * (1 + k) / k);
                somg12 = msin lm omg12a;
                comg12 = - mcos lm omg12a;
                salp1 = cbet2 * somg12;
                calp1 = sbet12a - cbet2 * sbet1 * sq somg12 / (1 - comg12)
            in (salp1, calp1, Ca)))"

text \<open>\<^verbatim>\<open>InverseStart\<close>. The cells behind \<open>psalp2\<close>, \<open>pcalp2\<close> and \<open>pdnm\<close> hold \<open>salp2'\<close>,
  \<open>calp2'\<close> and \<open>dnm'\<close> before the call. The result is the returned \<open>sig12\<close>, then
  \<open>salp1\<close>, \<open>calp1\<close>, the three cells after the call, and the scratch array.\<close>

definition InverseStart ::
  "libm \<Rightarrow> geod_geodesic \<Rightarrow> double \<Rightarrow> double \<Rightarrow> double \<Rightarrow> double \<Rightarrow> double \<Rightarrow> double \<Rightarrow> double
   \<Rightarrow> double \<Rightarrow> double \<Rightarrow> double \<Rightarrow> double \<Rightarrow> double \<Rightarrow> double list
   \<Rightarrow> double \<times> double \<times> double \<times> double \<times> double \<times> double \<times> double list" where
  "InverseStart lm g sbet1 cbet1 dn1 sbet2 cbet2 dn2 lam12 slam12 clam12 salp2' calp2' dnm' Ca =
     (let salp2 = 0; calp2 = 0; dnm = 0;
          sig12 = Fin (- 1);
          sbet12 = sbet2 * cbet1 - cbet2 * sbet1;
          cbet12 = cbet2 * cbet1 + sbet2 * sbet1;
          shortline = (cbet12 \<ge> 0 \<and> sbet12 < Fin (1 / 2) \<and> cbet2 * lam12 < Fin (1 / 2));
          sbet12a = sbet2 * cbet1 + cbet2 * sbet1;
          (somg12, comg12, dnm) =
            (if shortline then
               (let sbetm2 = sq (sbet1 + sbet2);
                    sbetm2 = sbetm2 / (sbetm2 + sq (cbet1 + cbet2));
                    dnm = fsqrt (1 + g_ep2 g * sbetm2);
                    omg12 = lam12 / (g_f1 g * dnm)
                in (msin lm omg12, mcos lm omg12, dnm))
             else (slam12, clam12, dnm));
          salp1 = cbet2 * somg12;
          calp1 = (if comg12 \<ge> 0
                   then sbet12 + cbet2 * sbet1 * sq somg12 / (1 + comg12)
                   else sbet12a - cbet2 * sbet1 * sq somg12 / (1 - comg12));
          ssig12 = mhypot lm salp1 calp1;
          csig12 = sbet1 * sbet2 + cbet1 * cbet2 * comg12;
          (salp1, calp1, salp2, calp2, sig12, Ca) =
            (if shortline \<and> ssig12 < g_etol2 g then
               (let salp2 = cbet1 * somg12;
                    calp2 = sbet12 - cbet1 * sbet2 *
                              (if comg12 \<ge> 0 then sq somg12 / (1 + comg12) else 1 - comg12);
                    (salp2, calp2) = norm2 lm (salp2, calp2);
                    sig12 = matan2 lm ssig12 csig12
                in (salp1, calp1, salp2, calp2, sig12, Ca))
             else if fabs (g_n g) > rnd (1 / 10) \<or> csig12 \<ge> 0 \<or>
                     ssig12 \<ge> Fin 6 * fabs (g_n g) * pi_d * sq cbet1 then
               (salp1, calp1, salp2, calp2, sig12, Ca)
             else
               (let (salp1, calp1, Ca) =
                      InverseStart_antipodal lm g sbet1 cbet1 dn1 sbet2 cbet2 dn2 slam12 clam12
                        sbet12a Ca
                in (salp1, calp1, salp2, calp2, sig12, Ca)));
          (salp1, calp1) = (if \<not> (salp1 \<le> 0) then norm2 lm (salp1, calp1) else (1, 0))
      in (sig12, salp1, calp1,
          if sig12 \<ge> 0 then salp2 else salp2',
          if sig12 \<ge> 0 then calp2 else calp2',
          if shortline then dnm else dnm',
          Ca))"

text \<open>\<^verbatim>\<open>Lambda12\<close>: the returned \<open>lam12\<close> and the values it stores through its pointers.
  \<open>dlam12'\<close> is what the cell behind \<open>pdlam12\<close> holds before the call; it is overwritten
  only when \<open>diffp\<close> is set.\<close>

record lambda12 =
  lr_lam12 :: double
  lr_salp2 :: double
  lr_calp2 :: double
  lr_sig12 :: double
  lr_ssig1 :: double
  lr_csig1 :: double
  lr_ssig2 :: double
  lr_csig2 :: double
  lr_eps :: double
  lr_domg12 :: double
  lr_dlam12 :: double
  lr_Ca :: "double list"

definition Lambda12 ::
  "libm \<Rightarrow> geod_geodesic \<Rightarrow> double \<Rightarrow> double \<Rightarrow> double \<Rightarrow> double \<Rightarrow> double \<Rightarrow> double \<Rightarrow> double
   \<Rightarrow> double \<Rightarrow> double \<Rightarrow> double \<Rightarrow> bool \<Rightarrow> double \<Rightarrow> double list \<Rightarrow> lambda12" where
  "Lambda12 lm g sbet1 cbet1 dn1 sbet2 cbet2 dn2 salp1 calp1 slam120 clam120 diffp dlam12' Ca =
     (let dlam12 = 0;
          calp1 = (if feq sbet1 0 \<and> feq calp1 0 then - tiny else calp1);
          salp0 = salp1 * cbet1;
          calp0 = mhypot lm calp1 (salp1 * sbet1);
          ssig1 = sbet1;
          somg1 = salp0 * sbet1;
          comg1 = calp1 * cbet1;
          csig1 = comg1;
          (ssig1, csig1) = norm2 lm (ssig1, csig1);
          salp2 = (if \<not> feq cbet2 cbet1 then salp0 / cbet2 else salp1);
          calp2 = (if \<not> feq cbet2 cbet1 \<or> \<not> feq (fabs sbet2) (- sbet1) then
                     fsqrt (sq (calp1 * cbet1) +
                            (if cbet1 < - sbet1
                             then (cbet2 - cbet1) * (cbet1 + cbet2)
                             else (sbet1 - sbet2) * (sbet1 + sbet2))) / cbet2
                   else fabs calp1);
          ssig2 = sbet2;
          somg2 = salp0 * sbet2;
          comg2 = calp2 * cbet2;
          csig2 = comg2;
          (ssig2, csig2) = norm2 lm (ssig2, csig2);
          sig12 = matan2 lm (fmax (Fin 0) (csig1 * ssig2 - ssig1 * csig2) + 0)
                            (csig1 * csig2 + ssig1 * ssig2);
          somg12 = fmax (Fin 0) (comg1 * somg2 - somg1 * comg2) + 0;
          comg12 = comg1 * comg2 + somg1 * somg2;
          eta = matan2 lm (somg12 * clam120 - comg12 * slam120)
                          (comg12 * clam120 + somg12 * slam120);
          k2 = sq calp0 * g_ep2 g;
          eps = k2 / (Fin 2 * (1 + fsqrt (1 + k2)) + k2);
          Ca = C3f g eps Ca;
          B312 = SinCosSeries True ssig2 csig2 Ca (nC3 - 1)
                 - SinCosSeries True ssig1 csig1 Ca (nC3 - 1);
          domg12 = - g_f g * A3f g eps * salp0 * (sig12 + B312);
          lam12 = eta + domg12;
          (dlam12, Ca) =
            (if diffp then
               (if feq calp2 0 then (Fin (- 2) * g_f1 g * dn1 / sbet1, Ca)
                else
                  (let (ptrs, Ca) = Lengths g eps sig12 ssig1 csig1 dn1 ssig2 csig2 dn2 cbet1 cbet2
                                      \<lparr>L_ps12b = None, L_pm12b = Some dlam12, L_pm0 = None,
                                       L_pM12 = None, L_pM21 = None\<rparr> Ca;
                       dlam12 = the (L_pm12b ptrs)
                   in (dlam12 * (g_f1 g / (calp2 * cbet2)), Ca)))
             else (dlam12, Ca))
      in \<lparr>lr_lam12 = lam12, lr_salp2 = salp2, lr_calp2 = calp2, lr_sig12 = sig12,
          lr_ssig1 = ssig1, lr_csig1 = csig1, lr_ssig2 = ssig2, lr_csig2 = csig2,
          lr_eps = eps, lr_domg12 = domg12,
          lr_dlam12 = (if diffp then dlam12 else dlam12'), lr_Ca = Ca\<rparr>)"

text \<open>\<^verbatim>\<open>geod_geninverse_int\<close>, block by block. First the canonical form of the input: the
  longitude difference made positive, the point of larger \<open>|latitude|\<close> made point 1, its
  latitude made negative; \<open>lonsign\<close>, \<open>swapp\<close> and \<open>latsign\<close> record the changes.\<close>

record inv_canon =
  cn_lon12 :: double
  cn_lon12s :: double
  cn_lam12 :: double
  cn_slam12 :: double
  cn_clam12 :: double
  cn_lat1 :: double
  cn_lat2 :: double
  cn_lonsign :: int
  cn_swapp :: int
  cn_latsign :: int

definition geninverse_canon :: "libm \<Rightarrow> double \<Rightarrow> double \<Rightarrow> double \<Rightarrow> double \<Rightarrow> inv_canon" where
  "geninverse_canon lm lat1 lon1 lat2 lon2 =
     (let (lon12, lon12s) = AngDiff lon1 lon2;
          lonsign = (if signbit lon12 then - 1 else 1);
          lon12 = lon12 * dbl lonsign;
          lon12s = lon12s * dbl lonsign;
          lam12 = lon12 * degree;
          (slam12, clam12) = sincosde lm lon12 lon12s;
          lon12s = (hd' - lon12) - lon12s;
          lat1 = AngRound (LatFix lat1);
          lat2 = AngRound (LatFix lat2);
          swapp = (if fabs lat1 < fabs lat2 \<or> \<not> feq lat2 lat2 then - 1 else 1);
          (lonsign, lat1, lat2) =
            (if swapp < 0 then (lonsign * (- 1), lat2, lat1) else (lonsign, lat1, lat2));
          latsign = (if signbit lat1 then 1 else - 1);
          lat1 = lat1 * dbl latsign;
          lat2 = lat2 * dbl latsign
      in \<lparr>cn_lon12 = lon12, cn_lon12s = lon12s, cn_lam12 = lam12, cn_slam12 = slam12,
          cn_clam12 = clam12, cn_lat1 = lat1, cn_lat2 = lat2, cn_lonsign = lonsign,
          cn_swapp = swapp, cn_latsign = latsign\<rparr>)"

text \<open>The reduced latitudes of the two points and \<open>dn1\<close>, \<open>dn2\<close>.\<close>

record inv_bet =
  b_sbet1 :: double
  b_cbet1 :: double
  b_sbet2 :: double
  b_cbet2 :: double
  b_dn1 :: double
  b_dn2 :: double

definition geninverse_bet :: "libm \<Rightarrow> geod_geodesic \<Rightarrow> double \<Rightarrow> double \<Rightarrow> inv_bet" where
  "geninverse_bet lm g lat1 lat2 =
     (let (sbet1, cbet1) = sincosdx lm lat1;
          sbet1 = sbet1 * g_f1 g;
          (sbet1, cbet1) = norm2 lm (sbet1, cbet1);
          cbet1 = fmax tiny cbet1;
          (sbet2, cbet2) = sincosdx lm lat2;
          sbet2 = sbet2 * g_f1 g;
          (sbet2, cbet2) = norm2 lm (sbet2, cbet2);
          cbet2 = fmax tiny cbet2;
          (sbet2, cbet2) =
            (if cbet1 < - sbet1
             then (if feq cbet2 cbet1 then copysign sbet1 sbet2 else sbet2, cbet2)
             else (sbet2, if feq (fabs sbet2) (- sbet1) then cbet1 else cbet2));
          dn1 = fsqrt (1 + g_ep2 g * sq sbet1);
          dn2 = fsqrt (1 + g_ep2 g * sq sbet2)
      in \<lparr>b_sbet1 = sbet1, b_cbet1 = cbet1, b_sbet2 = sbet2, b_cbet2 = cbet2,
          b_dn1 = dn1, b_dn2 = dn2\<rparr>)"

text \<open>The local variables of \<^verbatim>\<open>geod_geninverse_int\<close> that the branches assign. \<open>sig12\<close> is
  uninitialised in C and assigned on every path before it is read; the scratch array
  \<open>Ca\<close> is uninitialised too and written before it is read. The model starts both from
  zero.\<close>

record inv_state =
  v_meridian :: bool
  v_salp1 :: double
  v_calp1 :: double
  v_salp2 :: double
  v_calp2 :: double
  v_sig12 :: double
  v_s12x :: double
  v_m12x :: double
  v_a12 :: double
  v_M12 :: double
  v_M21 :: double
  v_omg12 :: double
  v_somg12 :: double
  v_comg12 :: double
  v_Ca :: "double list"

definition inv_state_init :: inv_state where
  "inv_state_init = \<lparr>v_meridian = False, v_salp1 = 0, v_calp1 = 0, v_salp2 = 0, v_calp2 = 0,
     v_sig12 = 0, v_s12x = 0, v_m12x = 0, v_a12 = 0, v_M12 = 0, v_M21 = 0, v_omg12 = 0,
     v_somg12 = Fin 2, v_comg12 = 0, v_Ca = replicate nC 0\<rparr>"

text \<open>\<^verbatim>\<open>meridian = lat1 == -qd || slam12 == 0; if (meridian) { ... }\<close>: the geodesic along a
  meridian, which clears \<open>meridian\<close> again when the points are too close to antipodal.\<close>

definition geninverse_meridian ::
  "geod_geodesic \<Rightarrow> 32 word \<Rightarrow> inv_canon \<Rightarrow> inv_bet \<Rightarrow> libm \<Rightarrow> inv_state \<Rightarrow> inv_state" where
  "geninverse_meridian g outmask cn bt lm st =
     (if feq (cn_lat1 cn) (- qd) \<or> feq (cn_slam12 cn) 0 then
        (let calp1 = cn_clam12 cn;
             salp1 = cn_slam12 cn;
             calp2 = 1;
             salp2 = 0;
             ssig1 = b_sbet1 bt;
             csig1 = calp1 * b_cbet1 bt;
             ssig2 = b_sbet2 bt;
             csig2 = calp2 * b_cbet2 bt;
             sig12 = matan2 lm (fmax (Fin 0) (csig1 * ssig2 - ssig1 * csig2) + 0)
                               (csig1 * csig2 + ssig1 * ssig2);
             scale = ((outmask AND GEOD_GEODESICSCALE) \<noteq> 0);
             (ptrs, Ca) = Lengths g (g_n g) sig12 ssig1 csig1 (b_dn1 bt) ssig2 csig2 (b_dn2 bt)
                            (b_cbet1 bt) (b_cbet2 bt)
                            \<lparr>L_ps12b = Some (v_s12x st), L_pm12b = Some (v_m12x st), L_pm0 = None,
                             L_pM12 = (if scale then Some (v_M12 st) else None),
                             L_pM21 = (if scale then Some (v_M21 st) else None)\<rparr> (v_Ca st);
             s12x = the (L_ps12b ptrs);
             m12x = the (L_pm12b ptrs);
             M12 = (if scale then the (L_pM12 ptrs) else v_M12 st);
             M21 = (if scale then the (L_pM21 ptrs) else v_M21 st);
             st = st\<lparr>v_calp1 := calp1, v_salp1 := salp1, v_calp2 := calp2, v_salp2 := salp2,
                     v_sig12 := sig12, v_s12x := s12x, v_m12x := m12x, v_M12 := M12, v_M21 := M21,
                     v_Ca := Ca\<rparr>
         in if sig12 < 1 \<or> m12x \<ge> 0 then
              (let z = (sig12 < Fin 3 * tiny \<or> (sig12 < tol0 \<and> (s12x < 0 \<or> m12x < 0)));
                   sig12 = (if z then 0 else sig12);
                   m12x = (if z then 0 else m12x);
                   s12x = (if z then 0 else s12x);
                   m12x = m12x * g_b g;
                   s12x = s12x * g_b g
               in st\<lparr>v_meridian := True, v_sig12 := sig12, v_m12x := m12x, v_s12x := s12x,
                      v_a12 := sig12 / degree\<rparr>)
            else st\<lparr>v_meridian := False\<rparr>)
      else st\<lparr>v_meridian := False\<rparr>)"

text \<open>The body of the branch \<^verbatim>\<open>/* Geodesic runs along equator */\<close>.\<close>

definition geninverse_equatorial ::
  "geod_geodesic \<Rightarrow> 32 word \<Rightarrow> inv_canon \<Rightarrow> libm \<Rightarrow> inv_state \<Rightarrow> inv_state" where
  "geninverse_equatorial g outmask cn lm st =
     (let s12x = g_a g * cn_lam12 cn;
          sig12 = cn_lam12 cn / g_f1 g;
          m12x = g_b g * msin lm sig12;
          scale = ((outmask AND GEOD_GEODESICSCALE) \<noteq> 0)
      in st\<lparr>v_calp1 := 0, v_calp2 := 0, v_salp1 := 1, v_salp2 := 1,
            v_s12x := s12x, v_sig12 := sig12, v_omg12 := sig12, v_m12x := m12x,
            v_M12 := (if scale then mcos lm sig12 else v_M12 st),
            v_M21 := (if scale then mcos lm sig12 else v_M21 st),
            v_a12 := cn_lon12 cn / g_f1 g\<rparr>)"

text \<open>The state of the loop \<^verbatim>\<open>for (;; ++numit)\<close> of Newton's method: the counter, the
  current azimuth, the bracket, the two trip flags, and what \<^verbatim>\<open>Lambda12\<close> stored last.\<close>

record newton_state =
  n_numit :: nat
  n_salp1 :: double
  n_calp1 :: double
  n_salp1a :: double
  n_calp1a :: double
  n_salp1b :: double
  n_calp1b :: double
  n_tripn :: bool
  n_tripb :: bool
  n_salp2 :: double
  n_calp2 :: double
  n_sig12 :: double
  n_ssig1 :: double
  n_csig1 :: double
  n_ssig2 :: double
  n_csig2 :: double
  n_eps :: double
  n_domg12 :: double
  n_Ca :: "double list"

text \<open>The bracket update at the head of the loop body:
  \<^verbatim>\<open>if (v > 0 && ...) { salp1b = salp1; calp1b = calp1; } else if (v < 0 && ...) { ... }\<close>.\<close>

definition newton_bracket :: "newton_state \<Rightarrow> double \<Rightarrow> newton_state" where
  "newton_bracket s v =
     (if v > 0 \<and> (n_numit s > maxit1 \<or> n_calp1 s / n_salp1 s > n_calp1b s / n_salp1b s)
      then s\<lparr>n_salp1b := n_salp1 s, n_calp1b := n_calp1 s\<rparr>
      else if v < 0 \<and> (n_numit s > maxit1 \<or> n_calp1 s / n_salp1 s < n_calp1a s / n_salp1a s)
      then s\<lparr>n_salp1a := n_salp1 s, n_calp1a := n_calp1 s\<rparr>
      else s)"

text \<open>The new azimuth: a Newton step while \<open>numit < maxit1\<close> and the step is usable
  (then \<^verbatim>\<open>continue\<close>), otherwise the midpoint of the bracket. Both ways go on to
  \<^verbatim>\<open>++numit\<close>.\<close>

definition newton_update :: "libm \<Rightarrow> newton_state \<Rightarrow> double \<Rightarrow> double \<Rightarrow> newton_state" where
  "newton_update lm s v dv =
     (let dalp1 = - v / dv;
          sdalp1 = msin lm dalp1;
          cdalp1 = mcos lm dalp1;
          nsalp1 = n_salp1 s * cdalp1 + n_calp1 s * sdalp1
      in if n_numit s < maxit1 \<and> dv > 0 \<and> fabs dalp1 < pi_d \<and> nsalp1 > 0 then
           (let calp1 = n_calp1 s * cdalp1 - n_salp1 s * sdalp1;
                salp1 = nsalp1;
                (salp1, calp1) = norm2 lm (salp1, calp1)
            in s\<lparr>n_calp1 := calp1, n_salp1 := salp1,
                  n_tripn := (fabs v \<le> Fin 16 * tol0),
                  n_numit := n_numit s + 1\<rparr>)
         else
           (let salp1 = (n_salp1a s + n_salp1b s) / Fin 2;
                calp1 = (n_calp1a s + n_calp1b s) / Fin 2;
                (salp1, calp1) = norm2 lm (salp1, calp1)
            in s\<lparr>n_salp1 := salp1, n_calp1 := calp1, n_tripn := False,
                  n_tripb := (fabs (n_salp1a s - salp1) + (n_calp1a s - calp1) < tolb
                              \<or> fabs (salp1 - n_salp1b s) + (calp1 - n_calp1b s) < tolb),
                  n_numit := n_numit s + 1\<rparr>))"

text \<open>One pass through the loop body: \<^verbatim>\<open>Lambda12\<close>, the test for \<^verbatim>\<open>break\<close>, the bracket,
  the new azimuth. The flag is true when the pass ends at \<^verbatim>\<open>break\<close>; otherwise the state
  is the one the next pass starts from.\<close>

definition newton_body ::
  "libm \<Rightarrow> geod_geodesic \<Rightarrow> inv_canon \<Rightarrow> inv_bet \<Rightarrow> newton_state \<Rightarrow> bool \<times> newton_state" where
  "newton_body lm g cn bt s =
     (let r = Lambda12 lm g (b_sbet1 bt) (b_cbet1 bt) (b_dn1 bt) (b_sbet2 bt) (b_cbet2 bt) (b_dn2 bt)
                (n_salp1 s) (n_calp1 s) (cn_slam12 cn) (cn_clam12 cn) (n_numit s < maxit1) 0 (n_Ca s);
          dv = lr_dlam12 r;
          v = lr_lam12 r;
          s = s\<lparr>n_salp2 := lr_salp2 r, n_calp2 := lr_calp2 r, n_sig12 := lr_sig12 r,
                n_ssig1 := lr_ssig1 r, n_csig1 := lr_csig1 r, n_ssig2 := lr_ssig2 r,
                n_csig2 := lr_csig2 r, n_eps := lr_eps r, n_domg12 := lr_domg12 r,
                n_Ca := lr_Ca r\<rparr>
      in if n_tripb s \<or> \<not> (fabs v \<ge> (if n_tripn s then Fin 8 else Fin 1) * tol0)
            \<or> n_numit s = maxit2
         then (True, s)
         else (False, newton_update lm (newton_bracket s v) v dv))"

text \<open>The loop itself, as written: it runs until a pass ends at \<^verbatim>\<open>break\<close>.\<close>

partial_function (option) newton ::
  "libm \<Rightarrow> geod_geodesic \<Rightarrow> inv_canon \<times> inv_bet \<Rightarrow> newton_state \<Rightarrow> newton_state option" where
  "newton lm g q s =
     (let r = newton_body lm g (fst q) (snd q) s
      in if fst r then Some (snd r) else newton lm g q (snd r))"

text \<open>The state the loop starts from: \<open>numit = 0\<close>, the bracket \<open>(tiny, 1)\<close>, \<open>(tiny, -1)\<close>,
  both trip flags false, the locals the body fills still zero.\<close>

definition newton_init :: "double \<Rightarrow> double \<Rightarrow> double \<Rightarrow> double \<Rightarrow> double \<Rightarrow> double list \<Rightarrow> newton_state" where
  "newton_init salp1 calp1 salp2 calp2 sig12 Ca =
     \<lparr>n_numit = 0, n_salp1 = salp1, n_calp1 = calp1,
      n_salp1a = tiny, n_calp1a = 1, n_salp1b = tiny, n_calp1b = Fin (- 1),
      n_tripn = False, n_tripb = False,
      n_salp2 = salp2, n_calp2 = calp2, n_sig12 = sig12,
      n_ssig1 = 0, n_csig1 = 0, n_ssig2 = 0, n_csig2 = 0, n_eps = 0, n_domg12 = 0, n_Ca = Ca\<rparr>"

text \<open>What follows the loop: \<^verbatim>\<open>Lengths\<close>, the scaling by \<open>b\<close>, \<open>a12\<close>, and \<open>omg12\<close> for the
  area.\<close>

definition geninverse_newton_finish ::
  "geod_geodesic \<Rightarrow> 32 word \<Rightarrow> inv_canon \<Rightarrow> inv_bet \<Rightarrow> libm \<Rightarrow> inv_state \<Rightarrow> newton_state \<Rightarrow> inv_state" where
  "geninverse_newton_finish g outmask cn bt lm st s =
     (let scale = ((outmask AND GEOD_GEODESICSCALE) \<noteq> 0);
          (ptrs, Ca) = Lengths g (n_eps s) (n_sig12 s) (n_ssig1 s) (n_csig1 s) (b_dn1 bt)
                         (n_ssig2 s) (n_csig2 s) (b_dn2 bt) (b_cbet1 bt) (b_cbet2 bt)
                         \<lparr>L_ps12b = Some (v_s12x st), L_pm12b = Some (v_m12x st), L_pm0 = None,
                          L_pM12 = (if scale then Some (v_M12 st) else None),
                          L_pM21 = (if scale then Some (v_M21 st) else None)\<rparr> (n_Ca s);
          m12x = the (L_pm12b ptrs) * g_b g;
          s12x = the (L_ps12b ptrs) * g_b g;
          sdomg12 = msin lm (n_domg12 s);
          cdomg12 = mcos lm (n_domg12 s);
          area = ((outmask AND GEOD_AREA) \<noteq> 0)
      in st\<lparr>v_salp1 := n_salp1 s, v_calp1 := n_calp1 s, v_salp2 := n_salp2 s, v_calp2 := n_calp2 s,
            v_sig12 := n_sig12 s, v_s12x := s12x, v_m12x := m12x,
            v_M12 := (if scale then the (L_pM12 ptrs) else v_M12 st),
            v_M21 := (if scale then the (L_pM21 ptrs) else v_M21 st),
            v_a12 := n_sig12 s / degree,
            v_somg12 := (if area then cn_slam12 cn * cdomg12 - cn_clam12 cn * sdomg12
                         else v_somg12 st),
            v_comg12 := (if area then cn_clam12 cn * cdomg12 + cn_slam12 cn * sdomg12
                         else v_comg12 st),
            v_Ca := Ca\<rparr>)"

text \<open>The branch \<^verbatim>\<open>else if (!meridian) { ... }\<close>: the starting point from
  \<^verbatim>\<open>InverseStart\<close>, then either the short-line result or Newton's method. It has no
  value when the loop does not end.\<close>

definition geninverse_general ::
  "geod_geodesic \<Rightarrow> 32 word \<Rightarrow> inv_canon \<Rightarrow> inv_bet \<Rightarrow> libm \<Rightarrow> inv_state \<Rightarrow> inv_state option" where
  "geninverse_general g outmask cn bt lm st =
     (let dnm = 0;
          (sig12, salp1, calp1, salp2, calp2, dnm, Ca) =
            InverseStart lm g (b_sbet1 bt) (b_cbet1 bt) (b_dn1 bt) (b_sbet2 bt) (b_cbet2 bt) (b_dn2 bt)
              (cn_lam12 cn) (cn_slam12 cn) (cn_clam12 cn) (v_salp2 st) (v_calp2 st) dnm (v_Ca st);
          st = st\<lparr>v_sig12 := sig12, v_salp1 := salp1, v_calp1 := calp1, v_salp2 := salp2,
                  v_calp2 := calp2, v_Ca := Ca\<rparr>
      in if sig12 \<ge> 0 then
           (let scale = ((outmask AND GEOD_GEODESICSCALE) \<noteq> 0)
            in Some (st\<lparr>v_s12x := sig12 * g_b g * dnm,
                         v_m12x := sq dnm * g_b g * msin lm (sig12 / dnm),
                         v_M12 := (if scale then mcos lm (sig12 / dnm) else v_M12 st),
                         v_M21 := (if scale then mcos lm (sig12 / dnm) else v_M21 st),
                         v_a12 := sig12 / degree,
                         v_omg12 := cn_lam12 cn / (g_f1 g * dnm)\<rparr>))
         else
           (case newton lm g (cn, bt) (newton_init salp1 calp1 salp2 calp2 sig12 Ca) of
              None \<Rightarrow> None
            | Some s \<Rightarrow> Some (geninverse_newton_finish g outmask cn bt lm st s)))"

text \<open>The body of \<^verbatim>\<open>if (outmask & GEOD_AREA) { ... }\<close>: the value of \<open>S12\<close>.\<close>

definition geninverse_area ::
  "geod_geodesic \<Rightarrow> inv_canon \<Rightarrow> inv_bet \<Rightarrow> libm \<Rightarrow> inv_state \<Rightarrow> double" where
  "geninverse_area g cn bt lm st =
     (let salp1 = v_salp1 st; calp1 = v_calp1 st; salp2 = v_salp2 st; calp2 = v_calp2 st;
          sbet1 = b_sbet1 bt; cbet1 = b_cbet1 bt; sbet2 = b_sbet2 bt; cbet2 = b_cbet2 bt;
          salp0 = salp1 * cbet1;
          calp0 = mhypot lm calp1 (salp1 * sbet1);
          S12 = (if \<not> feq calp0 0 \<and> \<not> feq salp0 0 then
                   (let ssig1 = sbet1;
                        csig1 = calp1 * cbet1;
                        ssig2 = sbet2;
                        csig2 = calp2 * cbet2;
                        k2 = sq calp0 * g_ep2 g;
                        eps = k2 / (Fin 2 * (1 + fsqrt (1 + k2)) + k2);
                        A4 = sq (g_a g) * calp0 * salp0 * g_e2 g;
                        (ssig1, csig1) = norm2 lm (ssig1, csig1);
                        (ssig2, csig2) = norm2 lm (ssig2, csig2);
                        Ca = C4f g eps (v_Ca st);
                        B41 = SinCosSeries False ssig1 csig1 Ca nC4;
                        B42 = SinCosSeries False ssig2 csig2 Ca nC4
                    in A4 * (B42 - B41))
                 else 0);
          (somg12, comg12) =
            (if \<not> v_meridian st \<and> feq (v_somg12 st) (Fin 2)
             then (msin lm (v_omg12 st), mcos lm (v_omg12 st))
             else (v_somg12 st, v_comg12 st));
          alp12 =
            (if \<not> v_meridian st \<and> comg12 > - rnd (7071 / 10000) \<and> sbet2 - sbet1 < Fin (7 / 4) then
               (let domg12 = 1 + comg12;
                    dbet1 = 1 + cbet1;
                    dbet2 = 1 + cbet2
                in Fin 2 * matan2 lm (somg12 * (sbet1 * dbet2 + sbet2 * dbet1))
                                     (domg12 * (sbet1 * sbet2 + dbet1 * dbet2)))
             else
               (let salp12 = salp2 * calp1 - calp2 * salp1;
                    calp12 = calp2 * calp1 + salp2 * salp1;
                    (salp12, calp12) = (if feq salp12 0 \<and> calp12 < 0
                                        then (tiny * calp1, Fin (- 1)) else (salp12, calp12))
                in matan2 lm salp12 calp12));
          S12 = S12 + g_c2 g * alp12;
          S12 = S12 * dbl (cn_swapp cn * cn_lonsign cn * cn_latsign cn)
      in S12 + 0)"

text \<open>The output pointers of \<^verbatim>\<open>geod_geninverse_int\<close>.\<close>

record inverse_ptrs =
  ip_s12 :: "double option"
  ip_salp1 :: "double option"
  ip_calp1 :: "double option"
  ip_salp2 :: "double option"
  ip_calp2 :: "double option"
  ip_m12 :: "double option"
  ip_M12 :: "double option"
  ip_M21 :: "double option"
  ip_S12 :: "double option"

definition inverse_outmask :: "inverse_ptrs \<Rightarrow> 32 word" where
  "inverse_outmask ptrs =
     ((if ip_s12 ptrs \<noteq> None then GEOD_DISTANCE else GEOD_NONE) OR
      (if ip_m12 ptrs \<noteq> None then GEOD_REDUCEDLENGTH else GEOD_NONE) OR
      (if ip_M12 ptrs \<noteq> None \<or> ip_M21 ptrs \<noteq> None then GEOD_GEODESICSCALE else GEOD_NONE) OR
      (if ip_S12 ptrs \<noteq> None then GEOD_AREA else GEOD_NONE)) AND OUT_ALL"

text \<open>The three branches: meridian, equatorial, general. No value when Newton's loop
  does not end.\<close>

definition geninverse_solve ::
  "geod_geodesic \<Rightarrow> 32 word \<Rightarrow> inv_canon \<Rightarrow> inv_bet \<Rightarrow> libm \<Rightarrow> inv_state option" where
  "geninverse_solve g outmask cn bt lm =
     (let st = geninverse_meridian g outmask cn bt lm inv_state_init
      in if \<not> v_meridian st \<and> feq (b_sbet1 bt) 0 \<and>
            (g_f g \<le> 0 \<or> cn_lon12s cn \<ge> g_f g * hd')
         then Some (geninverse_equatorial g outmask cn lm st)
         else if \<not> v_meridian st then geninverse_general g outmask cn bt lm st
         else Some st)"

text \<open>The end of \<^verbatim>\<open>geod_geninverse_int\<close>: \<open>s12\<close>, \<open>m12\<close>, \<open>S12\<close>, the azimuths put back into
  the caller's frame, the stores, and the returned \<open>a12\<close>.\<close>

definition geninverse_finish ::
  "geod_geodesic \<Rightarrow> 32 word \<Rightarrow> inv_canon \<Rightarrow> inv_bet \<Rightarrow> libm \<Rightarrow> inv_state \<Rightarrow> inverse_ptrs
   \<Rightarrow> double \<times> inverse_ptrs" where
  "geninverse_finish g outmask cn bt lm st ptrs =
     (let s12 = (if (outmask AND GEOD_DISTANCE) \<noteq> 0 then 0 + v_s12x st else 0);
          m12 = (if (outmask AND GEOD_REDUCEDLENGTH) \<noteq> 0 then 0 + v_m12x st else 0);
          S12 = (if (outmask AND GEOD_AREA) \<noteq> 0 then geninverse_area g cn bt lm st else 0);
          scale = ((outmask AND GEOD_GEODESICSCALE) \<noteq> 0);
          swapped = (cn_swapp cn < 0);
          salp1 = (if swapped then v_salp2 st else v_salp1 st);
          salp2 = (if swapped then v_salp1 st else v_salp2 st);
          calp1 = (if swapped then v_calp2 st else v_calp1 st);
          calp2 = (if swapped then v_calp1 st else v_calp2 st);
          M12 = (if swapped \<and> scale then v_M21 st else v_M12 st);
          M21 = (if swapped \<and> scale then v_M12 st else v_M21 st);
          salp1 = salp1 * dbl (cn_swapp cn * cn_lonsign cn);
          calp1 = calp1 * dbl (cn_swapp cn * cn_latsign cn);
          salp2 = salp2 * dbl (cn_swapp cn * cn_lonsign cn);
          calp2 = calp2 * dbl (cn_swapp cn * cn_latsign cn)
      in (v_a12 st,
          ptrs\<lparr>ip_salp1 := store (ip_salp1 ptrs) salp1,
               ip_calp1 := store (ip_calp1 ptrs) calp1,
               ip_salp2 := store (ip_salp2 ptrs) salp2,
               ip_calp2 := store (ip_calp2 ptrs) calp2,
               ip_s12 := store_if ((outmask AND GEOD_DISTANCE) \<noteq> 0) (ip_s12 ptrs) s12,
               ip_m12 := store_if ((outmask AND GEOD_REDUCEDLENGTH) \<noteq> 0) (ip_m12 ptrs) m12,
               ip_M12 := store_if scale (ip_M12 ptrs) M12,
               ip_M21 := store_if scale (ip_M21 ptrs) M21,
               ip_S12 := store_if ((outmask AND GEOD_AREA) \<noteq> 0) (ip_S12 ptrs) S12\<rparr>))"

definition geod_geninverse_int ::
  "libm \<Rightarrow> geod_geodesic \<Rightarrow> double \<Rightarrow> double \<Rightarrow> double \<Rightarrow> double \<Rightarrow> inverse_ptrs
   \<Rightarrow> (double \<times> inverse_ptrs) option" where
  "geod_geninverse_int lm g lat1 lon1 lat2 lon2 ptrs =
     (let outmask = inverse_outmask ptrs;
          cn = geninverse_canon lm lat1 lon1 lat2 lon2;
          bt = geninverse_bet lm g (cn_lat1 cn) (cn_lat2 cn)
      in case geninverse_solve g outmask cn bt lm of
           None \<Rightarrow> None
         | Some st \<Rightarrow> Some (geninverse_finish g outmask cn bt lm st ptrs))"

text \<open>The output pointers of \<^verbatim>\<open>geod_geninverse\<close>.\<close>

record geninverse_outs =
  o_s12 :: "double option"
  o_azi1 :: "double option"
  o_azi2 :: "double option"
  o_m12 :: "double option"
  o_M12 :: "double option"
  o_M21 :: "double option"
  o_S12 :: "double option"

text \<open>\<^verbatim>\<open>geod_geninverse\<close>; its locals \<open>salp1\<close>, \<open>calp1\<close>, \<open>salp2\<close>, \<open>calp2\<close> are uninitialised
  cells that \<^verbatim>\<open>geod_geninverse_int\<close> always fills.\<close>

definition geod_geninverse ::
  "libm \<Rightarrow> geod_geodesic \<Rightarrow> double \<Rightarrow> double \<Rightarrow> double \<Rightarrow> double \<Rightarrow> geninverse_outs
   \<Rightarrow> (double \<times> geninverse_outs) option" where
  "geod_geninverse lm g lat1 lon1 lat2 lon2 outs =
     (case geod_geninverse_int lm g lat1 lon1 lat2 lon2
             \<lparr>ip_s12 = o_s12 outs, ip_salp1 = Some 0, ip_calp1 = Some 0, ip_salp2 = Some 0,
              ip_calp2 = Some 0, ip_m12 = o_m12 outs, ip_M12 = o_M12 outs, ip_M21 = o_M21 outs,
              ip_S12 = o_S12 outs\<rparr> of
        None \<Rightarrow> None
      | Some (a12, ptrs) \<Rightarrow>
          Some (a12,
                outs\<lparr>o_s12 := ip_s12 ptrs, o_m12 := ip_m12 ptrs, o_M12 := ip_M12 ptrs,
                     o_M21 := ip_M21 ptrs, o_S12 := ip_S12 ptrs,
                     o_azi1 := store (o_azi1 outs)
                                 (atan2dx lm (the (ip_salp1 ptrs)) (the (ip_calp1 ptrs))),
                     o_azi2 := store (o_azi2 outs)
                                 (atan2dx lm (the (ip_salp2 ptrs)) (the (ip_calp2 ptrs)))\<rparr>))"

definition geod_inverse ::
  "libm \<Rightarrow> geod_geodesic \<Rightarrow> double \<Rightarrow> double \<Rightarrow> double \<Rightarrow> double
   \<Rightarrow> double option \<Rightarrow> double option \<Rightarrow> double option \<Rightarrow> geninverse_outs option" where
  "geod_inverse lm g lat1 lon1 lat2 lon2 s12 azi1 azi2 =
     map_option snd
       (geod_geninverse lm g lat1 lon1 lat2 lon2
          \<lparr>o_s12 = s12, o_azi1 = azi1, o_azi2 = azi2, o_m12 = None, o_M12 = None, o_M21 = None,
           o_S12 = None\<rparr>)"

text \<open>\<^verbatim>\<open>geod_inverseline\<close>.\<close>

definition geod_inverseline ::
  "libm \<Rightarrow> geod_geodesicline \<Rightarrow> geod_geodesic \<Rightarrow> double \<Rightarrow> double \<Rightarrow> double \<Rightarrow> double \<Rightarrow> 32 word
   \<Rightarrow> geod_geodesicline option" where
  "geod_inverseline lm l g lat1 lon1 lat2 lon2 caps =
     (case geod_geninverse_int lm g lat1 lon1 lat2 lon2
             \<lparr>ip_s12 = None, ip_salp1 = Some 0, ip_calp1 = Some 0, ip_salp2 = None,
              ip_calp2 = None, ip_m12 = None, ip_M12 = None, ip_M21 = None, ip_S12 = None\<rparr> of
        None \<Rightarrow> None
      | Some (a12, ptrs) \<Rightarrow>
          (let salp1 = the (ip_salp1 ptrs);
               calp1 = the (ip_calp1 ptrs);
               azi1 = atan2dx lm salp1 calp1;
               caps = (if caps \<noteq> 0 then caps else GEOD_DISTANCE_IN OR GEOD_LONGITUDE);
               caps = (if (caps AND (OUT_ALL AND GEOD_DISTANCE_IN)) \<noteq> 0
                       then caps OR GEOD_DISTANCE else caps);
               l = geod_lineinit_int lm l g lat1 lon1 azi1 salp1 calp1 caps
           in Some (geod_setarc lm l a12)))"

text \<open>An ellipsoid with the equatorial radius of WGS84 and the flattening \<^verbatim>\<open>1 / 150.0\<close>, as
  \<^verbatim>\<open>geod_init\<close> builds it with a correctly rounded library, for a closed example.\<close>

definition ell150 :: geod_geodesic where
  "ell150 = geod_init libm_cr geod_zero (Fin 6378137) (Fin 1 / Fin 150)"

section \<open>Polygons\<close>

text \<open>\<^verbatim>\<open>struct geod_polygon\<close> with the fields geodesic.c reads and writes: the current
  vertex, the first vertex, the accumulators \<open>A\<close> and \<open>P\<close>, the polyline flag, the
  crossing counter (an \<^verbatim>\<open>int\<close>) and the vertex count (an \<^verbatim>\<open>unsigned\<close>, here a 32-bit
  word, so that \<^verbatim>\<open>p->num + 1\<close> wraps as in C).\<close>

record geod_polygon =
  p_lat :: double
  p_lon :: double
  p_lat0 :: double
  p_lon0 :: double
  p_A :: "double \<times> double"
  p_P :: "double \<times> double"
  p_polyline :: bool
  p_crossings :: int
  p_num :: "32 word"

definition geod_polygon_clear :: "geod_polygon \<Rightarrow> geod_polygon" where
  "geod_polygon_clear p =
     p\<lparr>p_lat0 := NaN, p_lon0 := NaN, p_lat := NaN, p_lon := NaN,
       p_P := accini, p_A := accini, p_num := 0, p_crossings := 0\<rparr>"

definition geod_polygon_init :: "geod_polygon \<Rightarrow> bool \<Rightarrow> geod_polygon" where
  "geod_polygon_init p polylinep = geod_polygon_clear (p\<lparr>p_polyline := polylinep\<rparr>)"

text \<open>The call \<^verbatim>\<open>geod_geninverse(g, lat1, lon1, lat2, lon2, &s12, nullptr, ..., nullptr,
  area ? &S12 : nullptr)\<close> of the polygon functions, giving \<open>s12\<close> and \<open>S12\<close>; \<open>S12\<close>
  keeps the value \<open>S0\<close> it had when it is not asked for. The local \<open>s12\<close> is uninitialised
  in C and always stored to.\<close>

definition polygon_inverse ::
  "libm \<Rightarrow> geod_geodesic \<Rightarrow> double \<Rightarrow> double \<Rightarrow> double \<Rightarrow> double \<Rightarrow> bool \<Rightarrow> double
   \<Rightarrow> (double \<times> double) option" where
  "polygon_inverse lm g lat1 lon1 lat2 lon2 area S0 =
     (case geod_geninverse lm g lat1 lon1 lat2 lon2
             \<lparr>o_s12 = Some 0, o_azi1 = None, o_azi2 = None, o_m12 = None, o_M12 = None,
              o_M21 = None, o_S12 = (if area then Some S0 else None)\<rparr> of
        None \<Rightarrow> None
      | Some (a12, outs) \<Rightarrow> Some (the (o_s12 outs), if area then the (o_S12 outs) else S0))"

definition geod_polygon_addpoint ::
  "libm \<Rightarrow> geod_geodesic \<Rightarrow> geod_polygon \<Rightarrow> double \<Rightarrow> double \<Rightarrow> geod_polygon option" where
  "geod_polygon_addpoint lm g p lat lon =
     (if p_num p = 0 then
        Some (p\<lparr>p_lat0 := lat, p_lat := lat, p_lon0 := lon, p_lon := lon, p_num := p_num p + 1\<rparr>)
      else
        (case polygon_inverse lm g (p_lat p) (p_lon p) lat lon (\<not> p_polyline p) 0 of
           None \<Rightarrow> None
         | Some (s12, S12) \<Rightarrow>
             (let p = p\<lparr>p_P := accadd (p_P p) s12\<rparr>;
                  p = (if \<not> p_polyline p
                       then p\<lparr>p_A := accadd (p_A p) S12,
                              p_crossings := p_crossings p + transit (p_lon p) lon\<rparr>
                       else p)
              in Some (p\<lparr>p_lat := lat, p_lon := lon, p_num := p_num p + 1\<rparr>))))"

text \<open>The call \<^verbatim>\<open>geod_gendirect(g, lat1, lon1, azi, GEOD_LONG_UNROLL, s, &lat, &lon,
  nullptr, ..., nullptr, area ? &S12 : nullptr)\<close> with \<^verbatim>\<open>lat = 0, lon = 0, S12 = 0\<close>.\<close>

definition polygon_direct ::
  "libm \<Rightarrow> geod_geodesicline \<Rightarrow> geod_geodesic \<Rightarrow> double \<Rightarrow> double \<Rightarrow> double \<Rightarrow> double \<Rightarrow> bool
   \<Rightarrow> double \<times> double \<times> double" where
  "polygon_direct lm l0 g lat1 lon1 azi s area =
     (let outs = snd (geod_gendirect lm l0 g lat1 lon1 azi GEOD_LONG_UNROLL s
                        (no_outs\<lparr>plat2 := Some 0, plon2 := Some 0,
                                 pS12 := (if area then Some 0 else None)\<rparr>))
      in (the (plat2 outs), the (plon2 outs), if area then the (pS12 outs) else 0))"

definition geod_polygon_addedge ::
  "libm \<Rightarrow> geod_geodesicline \<Rightarrow> geod_geodesic \<Rightarrow> geod_polygon \<Rightarrow> double \<Rightarrow> double \<Rightarrow> geod_polygon" where
  "geod_polygon_addedge lm l0 g p azi s =
     (if p_num p \<noteq> 0 then
        (let (lat, lon, S12) = polygon_direct lm l0 g (p_lat p) (p_lon p) azi s (\<not> p_polyline p);
             p = p\<lparr>p_P := accadd (p_P p) s\<rparr>;
             p = (if \<not> p_polyline p
                  then p\<lparr>p_A := accadd (p_A p) S12,
                         p_crossings := p_crossings p + transitdirect (p_lon p) lon\<rparr>
                  else p)
         in p\<lparr>p_lat := lat, p_lon := lon, p_num := p_num p + 1\<rparr>)
      else p)"

text \<open>\<^verbatim>\<open>geod_polygon_compute\<close> and the two test functions work on the accumulator \<open>*p\<close>
  and on the cells \<open>*pA\<close> and \<open>*pP\<close>, taken to lie outside the accumulator. A call is
  modelled by state passing: its result holds the returned count, the accumulator as the
  call leaves it, and the two cells as the call leaves them.\<close>

record polygon_result =
  r_num :: "32 word"
  r_p :: geod_polygon
  r_pA :: "double option"
  r_pP :: "double option"


definition geod_polygon_compute ::
  "libm \<Rightarrow> geod_geodesic \<Rightarrow> geod_polygon \<Rightarrow> bool \<Rightarrow> bool \<Rightarrow> double option \<Rightarrow> double option
   \<Rightarrow> polygon_result option" where
  "geod_polygon_compute lm g p reverse sign pA pP =
     (if p_num p < 2 then
        Some \<lparr>r_num = p_num p, r_p = p, r_pA = store_if (\<not> p_polyline p) pA 0, r_pP = store pP 0\<rparr>
      else if p_polyline p then
        Some \<lparr>r_num = p_num p, r_p = p, r_pA = pA, r_pP = store pP (fst (p_P p))\<rparr>
      else
        (case polygon_inverse lm g (p_lat p) (p_lon p) (p_lat0 p) (p_lon0 p) True 0 of
           None \<Rightarrow> None
         | Some (s12, S12) \<Rightarrow>
             (let pP = store pP (accsum (p_P p) s12);
                  t = p_A p;
                  t = accadd t S12;
                  pA = store pA (areareduceA t (Fin 4 * pi_d * g_c2 g)
                                   (p_crossings p + transit (p_lon p) (p_lon0 p)) reverse sign)
              in Some \<lparr>r_num = p_num p, r_p = p, r_pA = pA, r_pP = pP\<rparr>)))"




text \<open>\<^verbatim>\<open>geod_polygonarea\<close>: the points are added one by one to a fresh polygon \<open>p0\<close>.\<close>

fun polygonarea_loop ::
  "libm \<Rightarrow> geod_geodesic \<Rightarrow> geod_polygon \<Rightarrow> (double \<times> double) list \<Rightarrow> geod_polygon option" where
  "polygonarea_loop lm g p [] = Some p"
| "polygonarea_loop lm g p ((lat, lon) # pts) =
     (case geod_polygon_addpoint lm g p lat lon of
        None \<Rightarrow> None
      | Some p \<Rightarrow> polygonarea_loop lm g p pts)"

definition geod_polygonarea ::
  "libm \<Rightarrow> geod_geodesic \<Rightarrow> geod_polygon \<Rightarrow> (double \<times> double) list \<Rightarrow> double option \<Rightarrow> double option
   \<Rightarrow> (double option \<times> double option) option" where
  "geod_polygonarea lm g p0 pts pA pP =
     (case polygonarea_loop lm g (geod_polygon_init p0 False) pts of
        None \<Rightarrow> None
      | Some p \<Rightarrow> map_option (\<lambda>r. (r_pA r, r_pP r)) (geod_polygon_compute lm g p False True pA pP))"

text \<open>A polygon object in zero-filled memory, for closed examples.\<close>

definition polygon_zero :: geod_polygon where
  "polygon_zero = \<lparr>p_lat = 0, p_lon = 0, p_lat0 = 0, p_lon0 = 0, p_A = (0, 0), p_P = (0, 0),
     p_polyline = False, p_crossings = 0, p_num = 0\<rparr>"


section \<open>Facts about the arithmetic\<close>

subsection \<open>A NaN operand gives a NaN\<close>

lemma nan_arith [simp]:
  "NaN + x = NaN" "x + NaN = NaN" "NaN - x = NaN" "x - NaN = NaN"
  "NaN * x = NaN" "x * NaN = NaN" "NaN / x = NaN" "x / NaN = NaN" "- NaN = NaN"
  by (simp_all add: plus_double_def minus_double_def times_double_def divide_double_def
      uminus_double_def fadd_def fmul_def fdiv_def fneg_def)

lemma nan_cmp [simp]:
  "\<not> feq NaN x" "\<not> feq x NaN" "\<not> NaN < x" "\<not> x < NaN" "\<not> NaN \<le> x" "\<not> x \<le> NaN"
  by (simp_all add: feq_def less_double_def less_eq_double_def flt_def fle_def)

lemma nan_fun [simp]:
  "fabs NaN = NaN" "copysign NaN x = NaN" "fsqrt NaN = NaN" "sq NaN = NaN"
  "msin lm NaN = NaN" "mcos lm NaN = NaN" "matan2 lm NaN x = NaN" "matan2 lm x NaN = NaN"
  "remainder NaN x = NaN" "remquo NaN x = (NaN, 0)"
  by (simp_all add: fabs_def copysign_def fsqrt_def sq_def msin_def mcos_def matan2_def
      remainder_def remquo_def fneg_def)

lemma AngNormalize_nan [simp]: "AngNormalize NaN = NaN"
  by (simp add: AngNormalize_def)

lemma AngRound_nan [simp]: "AngRound NaN = NaN"
  by (simp add: AngRound_def Let_def)

lemma atan2dx_nan [simp]: "atan2dx lm NaN x = NaN" "atan2dx lm y NaN = NaN"
  by (simp_all add: atan2dx_def Let_def split_beta)

lemma sincosdx_nan [simp]: "sincosdx lm NaN = (NaN, NaN)"
  by (simp add: sincosdx_def Let_def)

lemma norm2_nan [simp]: "fst (norm2 lm (NaN, c)) = NaN"
  by (simp add: norm2_def Let_def)

lemma LatFix_nan: "fabs lat1 > qd \<Longrightarrow> LatFix lat1 = NaN"
  by (simp add: LatFix_def)

lemma mhypot_nan_ne0 [simp]: "\<not> feq (mhypot lm x NaN) 0"
  by (simp add: mhypot_def feq_def isinf_def zero_double_def)

subsection \<open>Rounding at a known exponent\<close>

lemma rhe_bound: "\<bar>x - of_int (rhe x)\<bar> \<le> 1 / 2"
  unfolding rhe_def Let_def by (auto; linarith)

lemma expo_eq:
  assumes "- 1022 \<le> k" "2 powr (of_int k) \<le> \<bar>x\<bar>" "\<bar>x\<bar> < 2 powr (of_int k + 1)"
  shows "expo x = k"
proof -
  have "0 < \<bar>x\<bar>" using assms(2) by (smt (verit) powr_gt_zero)
  then have "\<lfloor>log 2 \<bar>x\<bar>\<rfloor> = k"
    using assms(2,3) by (subst floor_log_eq_powr_iff) (auto simp: add.commute)
  then show ?thesis using assms(1) by (simp add: expo_def)
qed

lemma rnds_eval:
  assumes "p = 2 powr (of_int k)" "- 1022 \<le> k" "p \<le> \<bar>x\<bar>" "\<bar>x\<bar> < 2 * p"
  shows "rnds s x = (let u = p / 2 ^ 52; y = of_int (rhe (x / u)) * u in
               if y = 0 then (if s then MZero else Fin 0)
               else if 2 ^ 1024 \<le> \<bar>y\<bar> then (if y < 0 then NInf else PInf)
               else Fin y)"
proof -
  have "2 powr (of_int k + 1) = 2 * p" using assms(1) by (simp add: powr_add)
  then have "expo x = k" using assms by (intro expo_eq) auto
  then have u: "ulp x = p / 2 ^ 52"
    using assms(1) by (simp add: ulp_def powr_diff)
  show ?thesis unfolding rnds_def Let_def u by (rule refl)
qed

lemma rhe_of_int [simp]: "rhe (of_int n) = n"
  unfolding rhe_def Let_def by simp

lemma rhe_0 [simp]: "rhe 0 = 0"
  using rhe_of_int [of 0] by simp

lemma rhe_near: "\<bar>x - of_int n\<bar> < 1 / 2 \<Longrightarrow> rhe x = n"
proof -
  assume a: "\<bar>x - of_int n\<bar> < 1 / 2"
  have f: "of_int \<lfloor>x\<rfloor> \<le> x" "x < of_int \<lfloor>x\<rfloor> + 1" by linarith+
  have "real_of_int \<lfloor>x\<rfloor> < real_of_int n + 1" using a f by linarith
  then have u: "\<lfloor>x\<rfloor> < n + 1" by linarith
  have "real_of_int n - 2 < real_of_int \<lfloor>x\<rfloor>" using a f by linarith
  then have l: "n - 2 < \<lfloor>x\<rfloor>" by linarith
  from u l have "\<lfloor>x\<rfloor> = n \<or> \<lfloor>x\<rfloor> = n - 1" by linarith
  then show ?thesis
  proof
    assume e: "\<lfloor>x\<rfloor> = n"
    have "x - of_int n < 1 / 2" using a by linarith
    then show ?thesis unfolding rhe_def Let_def e by simp
  next
    assume e: "\<lfloor>x\<rfloor> = n - 1"
    have "1 / 2 < x - (of_int n - 1)" using a by linarith
    then show ?thesis unfolding rhe_def Let_def e by simp
  qed
qed

lemma rnds_zero [simp]: "rnds s 0 = (if s then MZero else Fin 0)"
  by (simp add: rnds_def Let_def)

lemma rnd_exact:
  assumes x: "x = of_int m * 2 powr (of_int e)" and m: "\<bar>m\<bar> < 2 ^ 53" and e: "- 1074 \<le> e"
    and b: "\<bar>x\<bar> < 2 ^ 1024"
  shows "rnds s x = (if x = 0 then (if s then MZero else Fin 0) else Fin x)"
proof (cases "x = 0")
  case True then show ?thesis by simp
next
  case False
  then have pos: "0 < \<bar>x\<bar>" by simp
  define k where "k = expo x"
  have ke: "k - 52 \<le> e"
  proof (cases "\<lfloor>log 2 \<bar>x\<bar>\<rfloor> \<le> - 1022")
    case True
    then have "k = - 1022" by (simp add: k_def expo_def)
    then show ?thesis using e by simp
  next
    case False
    then have kk: "k = \<lfloor>log 2 \<bar>x\<bar>\<rfloor>" by (simp add: k_def expo_def)
    have "2 powr (of_int k) \<le> \<bar>x\<bar>"
      using pos kk floor_log_eq_powr_iff [of "\<bar>x\<bar>" 2 k] by simp
    also have "\<bar>x\<bar> = \<bar>of_int m\<bar> * 2 powr (of_int e)" by (simp add: x abs_mult)
    also have "\<dots> < 2 ^ 53 * 2 powr (of_int e)"
    proof (rule mult_strict_right_mono)
      have "real_of_int \<bar>m\<bar> < real_of_int (2 ^ 53)" using m by (simp only: of_int_less_iff)
      then show "\<bar>real_of_int m\<bar> < 2 ^ 53" by simp
    qed simp
    also have "\<dots> = 2 powr (53 + of_int e)" by (simp add: powr_add)
    finally have "real_of_int k < 53 + real_of_int e" by simp
    then have "k < 53 + e" by linarith
    then show ?thesis by simp
  qed
  define n where "n = nat (e - (k - 52))"
  have en: "real_of_int e - (real_of_int k - 52) = real n" using ke by (simp add: n_def)
  have u: "ulp x = 2 powr (of_int k - 52)" by (simp add: ulp_def k_def)
  have "x / ulp x = (of_int m * 2 powr (of_int e)) / 2 powr (of_int k - 52)"
    using x u by simp
  also have "\<dots> = of_int m * 2 powr (of_int e - (of_int k - 52))"
    by (simp only: powr_diff [of 2 "of_int e" "of_int k - 52"] times_divide_eq_right)
  also have "\<dots> = of_int m * 2 ^ n" by (simp only: en powr_realpow [of 2 n, simplified])
  also have "\<dots> = of_int (m * 2 ^ n)" by simp
  finally have q: "x / ulp x = of_int (m * 2 ^ n)" .
  have up: "ulp x > 0" by (simp add: u)
  have "rhe (x / ulp x) = m * 2 ^ n" by (simp only: q rhe_of_int)
  then have "of_int (rhe (x / ulp x)) * ulp x = (x / ulp x) * ulp x" by (simp only: q)
  also have "\<dots> = x" using up by simp
  finally have "of_int (rhe (x / ulp x)) * ulp x = x" .
  then show ?thesis using False b by (simp add: rnds_def Let_def)
qed

lemma rnd_int:
  assumes "\<bar>m\<bar> < 2 ^ 53"
  shows "rnds s (of_int m) = (if m = 0 then (if s then MZero else Fin 0) else Fin (of_int m))"
proof -
  have b: "\<bar>real_of_int m\<bar> < 2 ^ 1024"
  proof -
    have "real_of_int \<bar>m\<bar> < real_of_int (2 ^ 53)" using assms by (simp only: of_int_less_iff)
    then have "\<bar>real_of_int m\<bar> < 2 ^ 53" by simp
    also have "\<dots> < (2::real) ^ 1024" by simp
    finally show ?thesis .
  qed
  show ?thesis using rnd_exact [of "of_int m" m 0 s] assms b by simp
qed

lemma rnd_dyadic:
  assumes "\<bar>m\<bar> < 2 ^ 53" "e \<le> 1074"
  shows "rnds s (of_int m / 2 ^ e) = (if m = 0 then (if s then MZero else Fin 0) else Fin (of_int m / 2 ^ e))"
proof -
  have p: "2 powr (of_int (- int e)) = 1 / (2::real) ^ e"
    by (simp add: powr_minus_divide powr_realpow)
  have x: "real_of_int m / 2 ^ e = of_int m * 2 powr (of_int (- int e))" by (simp only: p) simp
  have "\<bar>real_of_int m / 2 ^ e\<bar> \<le> \<bar>real_of_int m\<bar>"
    by (simp add: abs_divide divide_le_eq_1 field_simps) (simp add: mult_le_cancel_left1 flip: abs_mult)
  moreover have "\<bar>real_of_int m\<bar> < 2 ^ 1024"
  proof -
    have "real_of_int \<bar>m\<bar> < real_of_int (2 ^ 53)" using assms by (simp only: of_int_less_iff)
    then have "\<bar>real_of_int m\<bar> < 2 ^ 53" by simp
    also have "\<dots> < (2::real) ^ 1024" by simp
    finally show ?thesis .
  qed
  ultimately have b: "\<bar>real_of_int m / 2 ^ e\<bar> < 2 ^ 1024" by linarith
  show ?thesis using rnd_exact [OF x assms(1) _ b, of s] assms(2) by simp
qed


lemma rnds_to:
  assumes "p = 2 powr (of_int k)" "- 1022 \<le> k" "p \<le> \<bar>x\<bar>" "\<bar>x\<bar> < 2 * p"
    and "\<bar>x * 2 ^ 52 / p - of_int n\<bar> < 1 / 2" "n \<noteq> 0" "\<bar>of_int n * p / 2 ^ 52\<bar> < 2 ^ 1024"
  shows "rnds s x = Fin (of_int n * p / 2 ^ 52)"
proof -
  have pp: "p > 0" using assms(1) by simp
  have "rhe (x / (p / 2 ^ 52)) = n" using assms(5) by (intro rhe_near) simp
  then show ?thesis
    using rnds_eval [OF assms(1-4), of s] assms(6,7) pp by (simp add: Let_def)
qed

lemma fin_add:
  "Fin a + Fin b = (if a + b = 0 then Fin 0 else rnd (a + b))"
  "Fin a + MZero = (if a = 0 then Fin 0 else rnd a)"
  "MZero + Fin a = (if a = 0 then Fin 0 else rnd a)"
  "MZero + MZero = MZero"
  by (auto simp: plus_double_def fadd_def isinf_def val_def signbit_def Let_def)

lemma fin_neg: "- Fin a = (if a = 0 then MZero else Fin (- a))" "- MZero = Fin 0"
  by (simp_all add: uminus_double_def fneg_def)

lemma fin_sub:
  "Fin a - Fin b = (if a = b then Fin 0 else rnd (a - b))"
  "Fin a - MZero = (if a = 0 then Fin 0 else rnd a)"
  "MZero - Fin b = (if b = 0 then MZero else rnd (- b))"
  "MZero - MZero = Fin 0"
  by (auto simp: minus_double_def fadd_def fneg_def isinf_def val_def signbit_def Let_def)

lemma fin_mul:
  "Fin a * Fin b = rnds ((a < 0) \<noteq> (b < 0)) (a * b)"
  "MZero * Fin b = (if b < 0 then Fin 0 else MZero)"
  "Fin a * MZero = (if a < 0 then Fin 0 else MZero)"
  "MZero * MZero = Fin 0"
  by (auto simp: times_double_def fmul_def isinf_def val_def signbit_def Let_def)

lemma fin_div:
  "b \<noteq> 0 \<Longrightarrow> Fin a / Fin b = rnds ((a < 0) \<noteq> (b < 0)) (a / b)"
  "b \<noteq> 0 \<Longrightarrow> MZero / Fin b = (if b < 0 then Fin 0 else MZero)"
  by (auto simp: divide_double_def fdiv_def isinf_def is_zero_def val_def signbit_def Let_def)

lemma fin_cmp:
  "Fin a < Fin b \<longleftrightarrow> a < b" "Fin a \<le> Fin b \<longleftrightarrow> a \<le> b" "feq (Fin a) (Fin b) \<longleftrightarrow> a = b"
  "MZero < Fin b \<longleftrightarrow> 0 < b" "MZero \<le> Fin b \<longleftrightarrow> 0 \<le> b" "feq MZero (Fin b) \<longleftrightarrow> b = 0"
  "Fin a < MZero \<longleftrightarrow> a < 0" "Fin a \<le> MZero \<longleftrightarrow> a \<le> 0" "feq (Fin a) MZero \<longleftrightarrow> a = 0"
  "\<not> MZero < MZero" "MZero \<le> MZero" "feq MZero MZero"
  by (auto simp: less_double_def less_eq_double_def flt_def fle_def feq_def isinf_def val_def)

lemma fin_abs: "fabs (Fin a) = Fin \<bar>a\<bar>" "fabs MZero = Fin 0"
  by (simp_all add: fabs_def)

lemma fin_signbit: "signbit (Fin a) \<longleftrightarrow> a < 0" "signbit MZero"
  by (simp_all add: signbit_def)

lemmas fin_ops = fin_add fin_neg fin_sub fin_mul fin_div fin_cmp fin_abs fin_signbit
  zero_double_def one_double_def rnd_def


subsection \<open>Unfolding the operations\<close>

lemmas dbl_ops = plus_double_def minus_double_def uminus_double_def times_double_def
  divide_double_def less_double_def less_eq_double_def zero_double_def one_double_def
  fadd_def fmul_def fdiv_def fneg_def fabs_def feq_def flt_def fle_def isinf_def is_zero_def
  val_def signbit_def

subsection \<open>Capability bits\<close>

lemmas masks = GEOD_NONE_def GEOD_LATITUDE_def GEOD_LONGITUDE_def GEOD_AZIMUTH_def
  GEOD_DISTANCE_def GEOD_DISTANCE_IN_def GEOD_REDUCEDLENGTH_def GEOD_GEODESICSCALE_def
  GEOD_AREA_def GEOD_ALL_def GEOD_NOFLAGS_def GEOD_ARCMODE_def GEOD_LONG_UNROLL_def
  CAP_NONE_def CAP_C1_def CAP_C1p_def CAP_C2_def CAP_C3_def CAP_C4_def CAP_ALL_def OUT_ALL_def

lemma and_nz: "bit (w :: 32 word) n \<Longrightarrow> bit m n \<Longrightarrow> (w AND m) \<noteq> 0"
proof -
  assume "bit w n" "bit m n"
  then have "bit (w AND m) n" by (simp add: bit_and_iff)
  then show ?thesis by auto
qed

lemma store_if_None [simp]: "store_if c None v = None"
  by (simp add: store_if_def store_def)

lemma store_None [simp]: "store None v = None"
  by (simp add: store_def)

lemma store_if_True [simp]: "store_if True p v = store p v"
  by (simp add: store_if_def)

section \<open>Values of the constants\<close>

lemma degree_val: "degree = Fin (5030569068109113 / 2 ^ 58)"
proof -
  have "rnds False (884279719003555 / 2 ^ 48 / 180) = Fin (of_int 5030569068109113 * (1 / 2 ^ 6) / 2 ^ 52)"
    by (rule rnds_to [of "1 / 2 ^ 6" "- 6"]) (simp_all add: powr_minus_divide)
  then show ?thesis by (simp add: degree_def pi_d_def hd'_def fin_div)
qed

lemma tiny_val: "tiny = Fin (1 / 2 ^ 511)"
proof -
  have s: "sqrt (1 / 2 ^ 1022) = 1 / (2::real) ^ 511"
    by (rule real_sqrt_unique) (simp_all add: power_divide flip: power_mult)
  have a: "\<not> (1 / (2::real) ^ 1022 < 0)" by simp
  have "tiny = rnd (sqrt (1 / 2 ^ 1022))"
    unfolding tiny_def realmin_def fsqrt_def using a by (simp only: double.case if_False)
  also have "\<dots> = rnd (1 / 2 ^ 511)" by (simp only: s)
  also have "\<dots> = Fin (1 / 2 ^ 511)" using rnd_dyadic [of 1 511 False] by (simp add: rnd_def)
  finally show ?thesis .
qed

lemmas rnd_small = rnd_int [of 1, simplified] rnd_int [of "- 1", simplified]
  rnd_int [of 90, simplified] rnd_int [of "- 90", simplified]
  rnd_int [of 180, simplified] rnd_int [of "- 180", simplified]
  rnd_dyadic [of 1 4, simplified]

lemma AngRound_zero: "AngRound (Fin 0) = Fin 0" "AngRound MZero = MZero"
  by (simp_all add: AngRound_def Let_def fin_ops copysign_def rnd_small fneg_def)

lemma LatFix_zero: "LatFix (Fin 0) = Fin 0" "LatFix MZero = MZero"
  by (simp_all add: LatFix_def qd_def fin_ops)

lemma atan2dx_east: "is_zero z \<Longrightarrow> atan2dx lm (Fin 1) z = Fin 90"
  by (auto simp add: is_zero_def atan2dx_def Let_def fin_ops matan2_def degree_val qd_def rnd_small)

lemma atan2dx_west: "is_zero z \<Longrightarrow> atan2dx lm (Fin (- 1)) z = Fin (- 90)"
  by (auto simp add: is_zero_def atan2dx_def Let_def fin_ops matan2_def degree_val qd_def rnd_small)


section \<open>Angle normalization\<close>

lemma remainder_td:
  assumes "isfinite x"
  shows "isfinite (remainder x td) \<and> \<bar>val (remainder x td)\<bar> \<le> 180"
proof -
  define n where "n = rhe (val x / 360)"
  have g: "\<bar>t\<bar> \<le> 1 / 2 \<Longrightarrow> \<bar>360 * t\<bar> \<le> 180" for t :: real by (simp add: abs_mult)
  have h: "\<bar>val x / 360 - of_int n\<bar> \<le> 1 / 2" unfolding n_def by (rule rhe_bound)
  have "\<bar>360 * (val x / 360 - of_int n)\<bar> \<le> 180" using h by (rule g)
  moreover have "360 * (val x / 360 - of_int n) = val x - of_int n * 360" by simp
  ultimately have b: "\<bar>val x - of_int (rhe (val x / 360)) * 360\<bar> \<le> 180"
    unfolding n_def by simp
  from assms show ?thesis using b
    by (auto simp: remainder_def remquo_def Let_def isfinite_def is_zero_def isinf_def val_def
        td_def split: double.splits)
qed

text \<open>
  Claim C3, as amended. For every finite \<open>x\<close>, \<^verbatim>\<open>AngNormalize(x)\<close> is finite and lies in
  the closed interval from -180 to 180. When the reduction \<^verbatim>\<open>remainder(x, 360)\<close> lands on
  180 or -180 the result is 180 with the sign of \<open>x\<close> (so -180 for a negative \<open>x\<close>);
  otherwise it is the remainder itself.
\<close>

theorem AngNormalize_closed_range:
  assumes "isfinite x"
  shows "isfinite (AngNormalize x) \<and> - 180 \<le> val (AngNormalize x) \<and> val (AngNormalize x) \<le> 180
         \<and> (if feq (fabs (remainder x td)) hd'
             then AngNormalize x = (if signbit x then Fin (- 180) else Fin 180)
             else AngNormalize x = remainder x td)"
proof -
  from remainder_td [OF assms] have r: "isfinite (remainder x td)" "\<bar>val (remainder x td)\<bar> \<le> 180"
    by auto
  show ?thesis
  proof (cases "feq (fabs (remainder x td)) hd'")
    case True
    then show ?thesis
      by (simp add: AngNormalize_def Let_def copysign_def hd'_def fabs_def fneg_def isfinite_def val_def)
  next
    case False
    then show ?thesis using r by (auto simp: AngNormalize_def Let_def abs_le_iff)
  qed
qed

text \<open>The amended claim at \<open>x = -540\<close>: the remainder is +180, the result -180.\<close>

theorem AngNormalize_closed_range_witness:
  "isfinite (Fin (- 540)) \<and> remainder (Fin (- 540)) td = Fin 180
   \<and> AngNormalize (Fin (- 540)) = Fin (- 180)"
proof -
  have f: "isfinite (Fin (- 540))" by (simp add: isfinite_def)
  have r: "remainder (Fin (- 540)) td = Fin 180"
    by (simp add: remainder_def remquo_def td_def isinf_def is_zero_def val_def rhe_def Let_def)
  have s: "signbit (Fin (- 540))" by (simp add: signbit_def)
  show ?thesis using AngNormalize_closed_range [OF f] f
    by (simp add: r s feq_def fabs_def hd'_def isinf_def val_def)
qed

text \<open>Claim C3 as stated fails: \<^verbatim>\<open>AngNormalize(-180)\<close> is -180, outside the half-open
  interval.\<close>

theorem AngNormalize_half_open_counterexample:
  "\<not> (- 180 < val (AngNormalize (Fin (- 180))) \<and> val (AngNormalize (Fin (- 180))) \<le> 180)"
  by (simp add: AngNormalize_def remainder_def remquo_def td_def hd'_def isinf_def is_zero_def val_def
      rhe_def Let_def feq_def fabs_def copysign_def signbit_def fneg_def)

section \<open>Area reduction\<close>

lemmas rnd_c1 = rnd_dyadic [of 1 10, simplified] rnd_dyadic [of "- 1" 10, simplified]
  rnd_dyadic [of 8161049947585415 4, simplified]

lemma rnd_c2:
  "rnds s (522307196645466559 / 1024) = Fin (8161049947585415 / 16)"
  "rnds s (522307196645466561 / 1024) = Fin (8161049947585415 / 16)"
  using rnds_to [of "2 ^ 48" 48 "522307196645466559 / 1024" 8161049947585415 s]
        rnds_to [of "2 ^ 48" 48 "522307196645466561 / 1024" 8161049947585415 s]
  by simp_all

text \<open>
  Claim C7, evaluated where the code leaves the interval its own comment names
  (\<^verbatim>\<open>else put area in [0, area0)\<close>). The accumulated area is 1/1024, \<open>area0\<close> is
  510065621724088.4375 (the value of \<^verbatim>\<open>4 * pi * g->c2\<close> for WGS84), no crossing,
  \<^verbatim>\<open>reverse\<close> and \<^verbatim>\<open>sign\<close> false. The area is negated, \<open>area0\<close> is added, and the sum
  rounds to \<open>area0\<close> itself, which is returned.
\<close>

theorem areareduceA_reaches_area0:
  "areareduceA (Fin (1 / 1024), 0) (Fin (8161049947585415 / 16)) 0 False False
     = Fin (8161049947585415 / 16)"
proof -
  have r: "remainder (Fin (1 / 1024)) (Fin (8161049947585415 / 16)) = Fin (1 / 1024)"
    by (simp add: remainder_def remquo_def isinf_def is_zero_def val_def rhe_near [of _ 0] Let_def)
  have a1: "accadd (Fin (1 / 1024), Fin 0) (Fin 0) = (Fin (1 / 1024), Fin 0)"
    by (simp add: accadd_def sumx_def Let_def fin_ops rnd_c1)
  have a2: "accadd (Fin (- (1 / 1024)), MZero) (Fin (8161049947585415 / 16))
              = (Fin (8161049947585415 / 16), Fin (- (1 / 1024)))"
    by (simp add: accadd_def sumx_def Let_def fin_ops rnd_c1 rnd_c2)
  show ?thesis
    by (simp add: areareduceA_def accrem_def accneg_def Let_def r fin_ops a1 a2 rnd_c1)
qed


section \<open>Geodesic lines and the direct problem\<close>

lemma lineinit_point_sel:
  "l_caps (lineinit_point l g lat1 lon1 azi1 salp1 calp1 caps) =
     (if caps \<noteq> 0 then caps else GEOD_DISTANCE_IN OR GEOD_LONGITUDE) OR
       GEOD_LATITUDE OR GEOD_AZIMUTH OR GEOD_LONG_UNROLL"
  "l_lat1 (lineinit_point l g lat1 lon1 azi1 salp1 calp1 caps) = LatFix lat1"
  by (simp_all add: lineinit_point_def)

lemma lineinit_sig1_caps: "l_caps (lineinit_sig1 lm g l) = l_caps l"
  by (simp add: lineinit_sig1_def Let_def split_beta)

lemma lineinit_sig1_nan: "l_lat1 l = NaN \<Longrightarrow> l_ssig1 (lineinit_sig1 lm g l) = NaN"
  by (simp add: lineinit_sig1_def Let_def split_beta)

lemma lineinit_C_caps:
  "l_caps (lineinit_C1 lm eps l) = l_caps l"
  "l_caps (lineinit_C1p eps l) = l_caps l"
  "l_caps (lineinit_C2 eps l) = l_caps l"
  "l_caps (lineinit_C3 g eps l) = l_caps l"
  "l_caps (lineinit_C4 g eps l) = l_caps l"
  by (simp_all add: lineinit_C1_def lineinit_C1p_def lineinit_C2_def lineinit_C3_def
      lineinit_C4_def Let_def)

lemma lineinit_C_ssig1:
  "l_ssig1 (lineinit_C1 lm eps l) = l_ssig1 l"
  "l_ssig1 (lineinit_C1p eps l) = l_ssig1 l"
  "l_ssig1 (lineinit_C2 eps l) = l_ssig1 l"
  "l_ssig1 (lineinit_C3 g eps l) = l_ssig1 l"
  "l_ssig1 (lineinit_C4 g eps l) = l_ssig1 l"
  by (simp_all add: lineinit_C1_def lineinit_C1p_def lineinit_C2_def lineinit_C3_def
      lineinit_C4_def Let_def)

lemma lineinit_int_caps:
  "l_caps (geod_lineinit_int lm l g lat1 lon1 azi1 salp1 calp1 caps) =
     (if caps \<noteq> 0 then caps else GEOD_DISTANCE_IN OR GEOD_LONGITUDE) OR
                           GEOD_LATITUDE OR GEOD_AZIMUTH OR GEOD_LONG_UNROLL"
  by (simp add: geod_lineinit_int_def Let_def lineinit_C_caps lineinit_sig1_caps lineinit_point_sel)

lemma lineinit_int_ssig1:
  "fabs lat1 > qd \<Longrightarrow> l_ssig1 (geod_lineinit_int lm l g lat1 lon1 azi1 salp1 calp1 caps) = NaN"
  by (simp add: geod_lineinit_int_def Let_def lineinit_C_ssig1 lineinit_sig1_nan lineinit_point_sel
      LatFix_nan)

lemma lineinit_caps:
  "l_caps (geod_lineinit lm l g lat1 lon1 azi1 caps) =
     (if caps \<noteq> 0 then caps else GEOD_DISTANCE_IN OR GEOD_LONGITUDE) OR
                           GEOD_LATITUDE OR GEOD_AZIMUTH OR GEOD_LONG_UNROLL"
  by (simp add: geod_lineinit_def Let_def split_beta lineinit_int_caps)

lemma lineinit_ssig1:
  "fabs lat1 > qd \<Longrightarrow> l_ssig1 (geod_lineinit lm l g lat1 lon1 azi1 caps) = NaN"
  by (simp add: geod_lineinit_def Let_def split_beta lineinit_int_ssig1)

lemma lineinit_caps_bits:
  "bit (l_caps (geod_lineinit lm l g lat1 lon1 azi1 caps)) 7"
  "bit (l_caps (geod_lineinit lm l g lat1 lon1 azi1 caps)) 9"
  "bit caps n \<Longrightarrow> bit (l_caps (geod_lineinit lm l g lat1 lon1 azi1 caps)) n"
  by (auto simp add: lineinit_caps masks bit_or_iff)

lemma genposition_early_return:
  assumes "(flags AND GEOD_ARCMODE) = 0" "(l_caps l AND (GEOD_DISTANCE_IN AND OUT_ALL)) = 0"
  shows "geod_genposition lm l flags s12_a12 outs = (NaN, outs)"
  using assms by (simp add: geod_genposition_def Let_def)

lemma latitude_only_line_caps:
  "l_caps (geod_lineinit lm l g lat1 lon1 azi1 GEOD_LATITUDE) AND (GEOD_DISTANCE_IN AND OUT_ALL) = 0"
  by (simp add: lineinit_caps masks)

text \<open>
  Claim C2, as amended. A position query in distance mode (\<^verbatim>\<open>GEOD_ARCMODE\<close> not set) on a
  line whose capabilities lack the distance-input bit returns NaN as its arc length and
  returns at once: every output cell, requested or not, is left holding what it held
  before the call (none is set to NaN), and nothing else is signalled.
\<close>

theorem genposition_without_distance_in:
  assumes "(flags AND GEOD_ARCMODE) = 0" "(l_caps l AND (GEOD_DISTANCE_IN AND OUT_ALL)) = 0"
  shows "geod_genposition lm l flags s12_a12 outs = (NaN, outs)"
  using assms by (rule genposition_early_return)

text \<open>The amended claim on a WGS84 line built with the latitude capability only, asked for
  the point at 10000 m with the latitude cell holding 7.\<close>

theorem genposition_without_distance_in_witness:
  "(GEOD_NOFLAGS AND GEOD_ARCMODE) = 0
   \<and> (l_caps (geod_lineinit libm_cr line_zero wgs84 (Fin 40) (Fin (- 75)) (Fin 45) GEOD_LATITUDE)
        AND (GEOD_DISTANCE_IN AND OUT_ALL)) = 0
   \<and> geod_genposition libm_cr
        (geod_lineinit libm_cr line_zero wgs84 (Fin 40) (Fin (- 75)) (Fin 45) GEOD_LATITUDE)
        GEOD_NOFLAGS (Fin 10000) (no_outs\<lparr>plat2 := Some (Fin 7)\<rparr>)
       = (NaN, no_outs\<lparr>plat2 := Some (Fin 7)\<rparr>)"
proof -
  have a: "(GEOD_NOFLAGS AND GEOD_ARCMODE) = 0" by (simp add: masks)
  show ?thesis
    using genposition_without_distance_in [OF a latitude_only_line_caps] a latitude_only_line_caps
    by simp
qed

text \<open>Claim C2 as stated fails there: the requested latitude is not NaN after the call,
  it is still 7.\<close>

theorem genposition_outputs_nan_counterexample:
  "plat2 (snd (geod_genposition libm_cr
        (geod_lineinit libm_cr line_zero wgs84 (Fin 40) (Fin (- 75)) (Fin 45) GEOD_LATITUDE)
        GEOD_NOFLAGS (Fin 10000) (no_outs\<lparr>plat2 := Some (Fin 7)\<rparr>))) \<noteq> Some NaN"
proof -
  have a: "(GEOD_NOFLAGS AND GEOD_ARCMODE) = 0" by (simp add: masks)
  show ?thesis
    by (simp add: genposition_early_return [OF a latitude_only_line_caps])
qed

lemma genposition_lon2_nan: "genposition_lon2 lm l flags sig12 NaN NaN = NaN"
  by (simp add: genposition_lon2_def Let_def)

lemma genposition_nan:
  assumes "l_ssig1 l = NaN"
    and "(flags AND GEOD_ARCMODE) \<noteq> 0 \<or> (l_caps l AND (GEOD_DISTANCE_IN AND OUT_ALL)) \<noteq> 0"
  shows "plat2 (snd (geod_genposition lm l flags s12_a12 outs))
           = store_if ((position_outmask outs AND (l_caps l AND OUT_ALL) AND GEOD_LATITUDE) \<noteq> 0) (plat2 outs) NaN"
    and "plon2 (snd (geod_genposition lm l flags s12_a12 outs))
           = store_if ((position_outmask outs AND (l_caps l AND OUT_ALL) AND GEOD_LONGITUDE) \<noteq> 0) (plon2 outs) NaN"
    and "pazi2 (snd (geod_genposition lm l flags s12_a12 outs))
           = store_if ((position_outmask outs AND (l_caps l AND OUT_ALL) AND GEOD_AZIMUTH) \<noteq> 0) (pazi2 outs) NaN"
  using assms
  by (simp_all add: geod_genposition_def Let_def split_beta genposition_lon2_nan store_if_def
      and.assoc)

lemma gendirect_masks:
  "plat2 outs \<noteq> None \<Longrightarrow> bit (position_outmask outs) 7"
  "plon2 outs \<noteq> None \<Longrightarrow> bit (position_outmask outs) 8"
  "pazi2 outs \<noteq> None \<Longrightarrow> bit (position_outmask outs) 9"
  by (simp_all add: position_outmask_def masks bit_or_iff)

text \<open>
  Claim C5. For every starting latitude with \<open>|lat1| > 90\<close> (an infinity included),
  whatever the ellipsoid, the other inputs, the flags and the content of the local line
  object, \<^verbatim>\<open>geod_gendirect\<close> leaves NaN in each of the cells \<open>lat2\<close>, \<open>lon2\<close> and \<open>azi2\<close> that
  the caller passed (a null pointer stays null); the call returns normally.
\<close>

theorem gendirect_invalid_latitude:
  assumes "fabs lat1 > qd"
  shows "plat2 (snd (geod_gendirect lm l0 g lat1 lon1 azi1 flags s12_a12 outs)) = store (plat2 outs) NaN
       \<and> plon2 (snd (geod_gendirect lm l0 g lat1 lon1 azi1 flags s12_a12 outs)) = store (plon2 outs) NaN
       \<and> pazi2 (snd (geod_gendirect lm l0 g lat1 lon1 azi1 flags s12_a12 outs)) = store (pazi2 outs) NaN"
proof -
  define caps where "caps = position_outmask outs OR
     (if (flags AND GEOD_ARCMODE) \<noteq> 0 then GEOD_NONE else GEOD_DISTANCE_IN)"
  define l where "l = geod_lineinit lm l0 g lat1 lon1 azi1 caps"
  have gd: "geod_gendirect lm l0 g lat1 lon1 azi1 flags s12_a12 outs
              = geod_genposition lm l flags s12_a12 outs"
    by (simp add: geod_gendirect_def Let_def l_def caps_def)
  have s: "l_ssig1 l = NaN" unfolding l_def using assms by (rule lineinit_ssig1)
  have guard: "(flags AND GEOD_ARCMODE) \<noteq> 0 \<or> (l_caps l AND (GEOD_DISTANCE_IN AND OUT_ALL)) \<noteq> 0"
  proof (cases "(flags AND GEOD_ARCMODE) \<noteq> 0")
    case True then show ?thesis by simp
  next
    case False
    then have "bit caps 11" by (simp add: caps_def masks bit_or_iff)
    then have "bit (l_caps l) 11" unfolding l_def by (rule lineinit_caps_bits(3))
    moreover have "bit (GEOD_DISTANCE_IN AND OUT_ALL) 11" by (simp add: masks bit_and_iff bit_or_iff)
    ultimately show ?thesis by (simp add: and_nz)
  qed
  have b7: "bit (l_caps l AND OUT_ALL) 7" and b9: "bit (l_caps l AND OUT_ALL) 9"
    unfolding l_def by (simp_all add: bit_and_iff lineinit_caps_bits masks)
  have b8: "bit (l_caps l AND OUT_ALL) 8" if "plon2 outs \<noteq> None"
  proof -
    from that have "bit caps 8" by (simp add: caps_def bit_or_iff gendirect_masks)
    then have "bit (l_caps l) 8" unfolding l_def by (rule lineinit_caps_bits(3))
    then show ?thesis by (simp add: bit_and_iff masks)
  qed
  have lat: "plat2 (snd (geod_genposition lm l flags s12_a12 outs)) = store (plat2 outs) NaN"
  proof (cases "plat2 outs")
    case None then show ?thesis by (simp add: genposition_nan(1) [OF s guard])
  next
    case (Some v)
    then have "bit (position_outmask outs) 7" by (simp add: gendirect_masks)
    then have "bit (position_outmask outs AND (l_caps l AND OUT_ALL)) 7" using b7 by (simp add: bit_and_iff)
    moreover have "bit GEOD_LATITUDE 7" by (simp add: masks)
    ultimately have "(position_outmask outs AND (l_caps l AND OUT_ALL)) AND GEOD_LATITUDE \<noteq> 0"
      by (rule and_nz)
    then show ?thesis by (simp add: genposition_nan(1) [OF s guard] and.assoc)
  qed
  have lon: "plon2 (snd (geod_genposition lm l flags s12_a12 outs)) = store (plon2 outs) NaN"
  proof (cases "plon2 outs")
    case None then show ?thesis by (simp add: genposition_nan(2) [OF s guard])
  next
    case (Some v)
    then have "bit (position_outmask outs) 8" by (simp add: gendirect_masks)
    then have "bit (position_outmask outs AND (l_caps l AND OUT_ALL)) 8" using b8 Some by (simp add: bit_and_iff)
    moreover have "bit GEOD_LONGITUDE 8" by (simp add: masks bit_or_iff)
    ultimately have "(position_outmask outs AND (l_caps l AND OUT_ALL)) AND GEOD_LONGITUDE \<noteq> 0"
      by (rule and_nz)
    then show ?thesis by (simp add: genposition_nan(2) [OF s guard] and.assoc)
  qed
  have azi: "pazi2 (snd (geod_genposition lm l flags s12_a12 outs)) = store (pazi2 outs) NaN"
  proof (cases "pazi2 outs")
    case None then show ?thesis by (simp add: genposition_nan(3) [OF s guard])
  next
    case (Some v)
    then have "bit (position_outmask outs) 9" by (simp add: gendirect_masks)
    then have "bit (position_outmask outs AND (l_caps l AND OUT_ALL)) 9" using b9 by (simp add: bit_and_iff)
    moreover have "bit GEOD_AZIMUTH 9" by (simp add: masks)
    ultimately have "(position_outmask outs AND (l_caps l AND OUT_ALL)) AND GEOD_AZIMUTH \<noteq> 0"
      by (rule and_nz)
    then show ?thesis by (simp add: genposition_nan(3) [OF s guard] and.assoc)
  qed
  show ?thesis unfolding gd using lat lon azi by simp
qed

text \<open>Claim C5 at latitude 91 on WGS84, distance 10000 m, all three cells passed.\<close>

theorem gendirect_invalid_latitude_witness:
  "fabs (Fin 91) > qd
   \<and> plat2 (snd (geod_gendirect libm_cr line_zero wgs84 (Fin 91) (Fin (- 75)) (Fin 45) GEOD_NOFLAGS
        (Fin 10000) (no_outs\<lparr>plat2 := Some 0, plon2 := Some 0, pazi2 := Some 0\<rparr>))) = Some NaN
   \<and> plon2 (snd (geod_gendirect libm_cr line_zero wgs84 (Fin 91) (Fin (- 75)) (Fin 45) GEOD_NOFLAGS
        (Fin 10000) (no_outs\<lparr>plat2 := Some 0, plon2 := Some 0, pazi2 := Some 0\<rparr>))) = Some NaN
   \<and> pazi2 (snd (geod_gendirect libm_cr line_zero wgs84 (Fin 91) (Fin (- 75)) (Fin 45) GEOD_NOFLAGS
        (Fin 10000) (no_outs\<lparr>plat2 := Some 0, plon2 := Some 0, pazi2 := Some 0\<rparr>))) = Some NaN"
proof -
  have a: "fabs (Fin 91) > qd" by (simp add: dbl_ops qd_def)
  show ?thesis
    using gendirect_invalid_latitude [OF a, of libm_cr line_zero wgs84 "Fin (- 75)" "Fin 45"
        GEOD_NOFLAGS "Fin 10000" "no_outs\<lparr>plat2 := Some 0, plon2 := Some 0, pazi2 := Some 0\<rparr>"] a
    by (simp add: store_def)
qed

section \<open>The inverse problem: Newton's loop ends\<close>

text \<open>The counter \<open>numit\<close> is an \<^verbatim>\<open>unsigned\<close> in C; it is a \<open>nat\<close> here, and the lemmas
  below show that it never passes \<open>maxit2 = 83\<close>, far from any wrap-around. A pass of the
  loop body either ends at \<^verbatim>\<open>break\<close> and leaves \<open>numit\<close> alone, or goes on with
  \<open>numit + 1\<close>; at \<open>numit = maxit2\<close> it always ends at \<^verbatim>\<open>break\<close>.\<close>

lemma newton_bracket_numit: "n_numit (newton_bracket s v) = n_numit s"
  by (simp add: newton_bracket_def)

lemma newton_update_numit: "n_numit (newton_update lm s v dv) = n_numit s + 1"
  by (simp add: newton_update_def Let_def split_beta)

lemma newton_body_numit:
  "n_numit (snd (newton_body lm g cn bt s)) =
     (if fst (newton_body lm g cn bt s) then n_numit s else n_numit s + 1)"
  "\<not> fst (newton_body lm g cn bt s) \<longrightarrow> n_numit s \<noteq> maxit2"
  by (simp_all add: newton_body_def Let_def newton_update_numit newton_bracket_numit)

lemma newton_body_break:
  "fst (newton_body lm g cn bt s) \<Longrightarrow> n_numit (snd (newton_body lm g cn bt s)) = n_numit s"
  by (simp add: newton_body_numit)

lemma newton_body_continue:
  "\<not> fst (newton_body lm g cn bt s) \<Longrightarrow>
     n_numit (snd (newton_body lm g cn bt s)) = n_numit s + 1 \<and> n_numit s \<noteq> maxit2"
  using newton_body_numit(2)[of lm g cn bt s] by (simp add: newton_body_numit(1))

lemma newton_body_cap: "n_numit s = maxit2 \<Longrightarrow> fst (newton_body lm g cn bt s)"
  by (simp add: newton_body_def Let_def)

lemma newton_returns:
  "n_numit s \<le> maxit2 \<Longrightarrow> \<exists>r. newton lm g q s = Some r \<and> n_numit r \<le> maxit2"
proof (induction "maxit2 - n_numit s" arbitrary: s rule: less_induct)
  case less
  show ?case
  proof (cases "fst (newton_body lm g (fst q) (snd q) s)")
    case True
    then show ?thesis
      using newton_body_break[OF True] less.prems
      by (subst newton.simps) (simp add: Let_def)
  next
    case False
    note c = newton_body_continue[OF False]
    let ?s = "snd (newton_body lm g (fst q) (snd q) s)"
    have a: "n_numit ?s \<le> maxit2" using c less.prems by simp
    have "n_numit s < maxit2" using c less.prems by simp
    then have "maxit2 - n_numit ?s < maxit2 - n_numit s" using c by simp
    then have "\<exists>r. newton lm g q ?s = Some r \<and> n_numit r \<le> maxit2"
      using less.hyps a by blast
    then show ?thesis using False
      by (subst newton.simps) (simp add: Let_def)
  qed
qed

lemma newton_init_returns: "newton lm g q (newton_init a b c d e Ca) \<noteq> None"
  using newton_returns[of "newton_init a b c d e Ca" lm g q] by (auto simp add: newton_init_def)

lemma general_returns: "\<exists>st'. geninverse_general g outmask cn bt lm st = Some st'"
  by (simp add: geninverse_general_def Let_def split_beta newton_init_returns split: option.splits)

lemma solve_returns: "\<exists>st. geninverse_solve g outmask cn bt lm = Some st"
  unfolding geninverse_solve_def Let_def using general_returns by simp

lemma geninverse_int_returns: "\<exists>res. geod_geninverse_int lm g lat1 lon1 lat2 lon2 ptrs = Some res"
proof -
  obtain st where "geninverse_solve g (inverse_outmask ptrs) (geninverse_canon lm lat1 lon1 lat2 lon2)
     (geninverse_bet lm g (cn_lat1 (geninverse_canon lm lat1 lon1 lat2 lon2)) (cn_lat2 (geninverse_canon lm lat1 lon1 lat2 lon2))) lm = Some st"
    using solve_returns by blast
  then show ?thesis unfolding geod_geninverse_int_def Let_def by simp
qed

lemma geninverse_returns: "\<exists>res. geod_geninverse lm g lat1 lon1 lat2 lon2 outs = Some res"
proof -
  obtain res where "geod_geninverse_int lm g lat1 lon1 lat2 lon2
             \<lparr>ip_s12 = o_s12 outs, ip_salp1 = Some 0, ip_calp1 = Some 0, ip_salp2 = Some 0,
              ip_calp2 = Some 0, ip_m12 = o_m12 outs, ip_M12 = o_M12 outs, ip_M21 = o_M21 outs,
              ip_S12 = o_S12 outs\<rparr> = Some res"
    using geninverse_int_returns by blast
  then show ?thesis unfolding geod_geninverse_def by (simp add: split_beta)
qed

text \<open>Claim C1. For every ellipsoid \<open>g\<close>, every \<^verbatim>\<open>libm\<close> and every pair of end points the
  safeguarded Newton/bisection loop of the general case ends: \<open>maxit2\<close> is
  \<open>20 + DBL_MANT_DIG + 10\<close>; a pass of the body that starts with \<open>numit = maxit2\<close> ends at
  \<^verbatim>\<open>break\<close>; started at \<open>numit = 0\<close> the loop returns a state whose counter is at most
  \<open>maxit2\<close>; and so \<^verbatim>\<open>geod_geninverse_int\<close> and \<^verbatim>\<open>geod_geninverse\<close>, whose other paths are
  loop-free or run a fixed number of times, always return a result.\<close>

theorem newton_loop_terminates:
  "maxit2 = 20 + 53 + 10
   \<and> fst (newton_body lm g cn bt (s\<lparr>n_numit := maxit2\<rparr>))
   \<and> (\<exists>r. newton lm g (cn, bt) (newton_init salp1 calp1 salp2 calp2 sig12 Ca) = Some r
           \<and> n_numit r \<le> maxit2)
   \<and> (\<exists>res. geod_geninverse_int lm g lat1 lon1 lat2 lon2 ptrs = Some res)
   \<and> (\<exists>res. geod_geninverse lm g lat1 lon1 lat2 lon2 outs = Some res)"
proof -
  have "maxit2 = 20 + 53 + 10" by (simp add: maxit2_def maxit1_def digits_def)
  moreover have "fst (newton_body lm g cn bt (s\<lparr>n_numit := maxit2\<rparr>))"
    by (rule newton_body_cap) simp
  moreover have "\<exists>r. newton lm g (cn, bt) (newton_init salp1 calp1 salp2 calp2 sig12 Ca) = Some r
           \<and> n_numit r \<le> maxit2"
    by (rule newton_returns) (simp add: newton_init_def)
  ultimately show ?thesis using geninverse_int_returns geninverse_returns by blast
qed

text \<open>The theorem at an instance: WGS84, from \<open>(10, 20)\<close> to \<open>(30, 40)\<close>, distance and both
  azimuths requested.\<close>

theorem newton_loop_terminates_witness:
  "(\<exists>r. newton libm_cr wgs84
          (geninverse_canon libm_cr (Fin 10) (Fin 20) (Fin 30) (Fin 40),
           geninverse_bet libm_cr wgs84 (Fin (- 30)) (Fin (- 10)))
          (newton_init 1 0 0 1 (Fin (- 1)) (replicate nC 0)) = Some r \<and> n_numit r \<le> maxit2)
   \<and> (\<exists>res. geod_geninverse libm_cr wgs84 (Fin 10) (Fin 20) (Fin 30) (Fin 40)
           \<lparr>o_s12 = Some 0, o_azi1 = Some 0, o_azi2 = Some 0, o_m12 = None, o_M12 = None,
            o_M21 = None, o_S12 = None\<rparr> = Some res)"
  using newton_loop_terminates [of libm_cr wgs84
      "geninverse_canon libm_cr (Fin 10) (Fin 20) (Fin 30) (Fin 40)"
      "geninverse_bet libm_cr wgs84 (Fin (- 30)) (Fin (- 10))" _
      1 0 0 1 "Fin (- 1)" "replicate nC 0" "Fin 10" "Fin 20" "Fin 30" "Fin 40" _
      "\<lparr>o_s12 = Some 0, o_azi1 = Some 0, o_azi2 = Some 0, o_m12 = None,
        o_M12 = None, o_M21 = None, o_S12 = None\<rparr>"]
  by blast

section \<open>The inverse problem on the equator\<close>

text \<open>Both latitudes zero. The canonical form has \<open>lat1 = -0\<close>, no swap, and
  \<open>lonsign\<close> the sign of the longitude difference; the reduced latitude of point 1 is a
  zero whenever \<open>f1\<close> is finite; the meridian block is skipped when \<open>slam12\<close> is not zero;
  the final block puts \<open>lonsign\<close> on \<open>salp1\<close> and \<open>salp2\<close>.\<close>

lemma canon_equator:
  assumes "is_zero lat1" "is_zero lat2"
  shows "cn_lat1 (geninverse_canon lm lat1 lon1 lat2 lon2) = MZero"
    and "is_zero (cn_lat2 (geninverse_canon lm lat1 lon1 lat2 lon2))"
    and "cn_swapp (geninverse_canon lm lat1 lon1 lat2 lon2) = 1"
    and "cn_latsign (geninverse_canon lm lat1 lon1 lat2 lon2) = (if signbit lat1 then 1 else - 1)"
    and "cn_lonsign (geninverse_canon lm lat1 lon1 lat2 lon2)
           = (if signbit (fst (AngDiff lon1 lon2)) then - 1 else 1)"
    and "cn_lon12 (geninverse_canon lm lat1 lon1 lat2 lon2)
           = fst (AngDiff lon1 lon2) * dbl (if signbit (fst (AngDiff lon1 lon2)) then - 1 else 1)"
    and "cn_lam12 (geninverse_canon lm lat1 lon1 lat2 lon2)
           = cn_lon12 (geninverse_canon lm lat1 lon1 lat2 lon2) * degree"
  using assms
  by (auto simp add: is_zero_def geninverse_canon_def Let_def split_beta AngRound_zero LatFix_zero
      fin_ops dbl_def)

lemma sincosdx_zero: "sincosdx lm MZero = (MZero, Fin 1)" "sincosdx lm (Fin 0) = (Fin 0, Fin 1)"
  by (simp_all add: sincosdx_def remquo_def qd_def isinf_def is_zero_def val_def signbit_def
      Let_def degree_val fin_ops msin_def mcos_def rnd_small copysign_def fabs_def fneg_def)

lemma bet_equator:
  assumes "isfinite (g_f1 g)" "is_zero l2"
  shows "is_zero (b_sbet1 (geninverse_bet lm g MZero l2))"
proof -
  obtain z where z: "MZero * g_f1 g = z" "is_zero z"
    using assms(1) by (cases "g_f1 g") (auto simp add: isfinite_def fin_ops is_zero_def)
  have n: "norm2 lm (z, Fin 1) = (z, Fin 1)"
    using z(2) by (auto simp add: norm2_def Let_def mhypot_def is_zero_def isinf_def fin_ops rnd_small)
  show ?thesis
    using z n by (simp add: geninverse_bet_def Let_def split_beta sincosdx_zero)
qed

lemma solve_equator:
  assumes "cn_lat1 cn = MZero" "\<not> feq (cn_slam12 cn) 0" "is_zero (b_sbet1 bt)"
    and "g_f g \<le> 0 \<or> cn_lon12s cn \<ge> g_f g * hd'"
  shows "geninverse_solve g outmask cn bt lm
           = Some (geninverse_equatorial g outmask cn lm inv_state_init)"
proof -
  have m: "geninverse_meridian g outmask cn bt lm inv_state_init = inv_state_init"
    using assms(1,2) by (simp add: geninverse_meridian_def qd_def fin_ops inv_state_init_def)
  have z: "feq (b_sbet1 bt) 0" using assms(3) by (auto simp add: is_zero_def fin_ops)
  have v: "\<not> v_meridian inv_state_init" by (simp add: inv_state_init_def)
  show ?thesis using assms(4) z v by (simp add: geninverse_solve_def m)
qed

lemma outmask_distance: "ip_s12 ptrs \<noteq> None \<Longrightarrow> (inverse_outmask ptrs AND GEOD_DISTANCE) \<noteq> 0"
proof -
  assume "ip_s12 ptrs \<noteq> None"
  then have "bit (inverse_outmask ptrs) 10"
    by (simp add: inverse_outmask_def masks bit_or_iff bit_and_iff)
  moreover have "bit GEOD_DISTANCE 10" by (simp add: masks bit_or_iff)
  ultimately show ?thesis by (rule and_nz)
qed

lemma sign_mul:
  "Fin 1 * dbl 1 = Fin 1" "Fin 1 * dbl (- 1) = Fin (- 1)"
  "Fin 0 * dbl 1 = Fin 0" "Fin 0 * dbl (- 1) = MZero"
  by (simp_all add: dbl_def fin_ops rnd_small)

lemma finish_equator:
  assumes "cn_swapp cn = 1" "cn_lonsign cn = (if w then - 1 else 1)"
    and "cn_latsign cn = (if n then 1 else - 1)"
  shows "fst (geninverse_finish g outmask cn bt lm (geninverse_equatorial g outmask cn lm st) ptrs)
           = cn_lon12 cn / g_f1 g"
    and "ip_s12 (snd (geninverse_finish g outmask cn bt lm (geninverse_equatorial g outmask cn lm st) ptrs))
           = store_if ((outmask AND GEOD_DISTANCE) \<noteq> 0) (ip_s12 ptrs)
               (if (outmask AND GEOD_DISTANCE) \<noteq> 0 then 0 + g_a g * cn_lam12 cn else 0)"
    and "ip_salp1 (snd (geninverse_finish g outmask cn bt lm (geninverse_equatorial g outmask cn lm st) ptrs))
           = store (ip_salp1 ptrs) (if w then Fin (- 1) else Fin 1)"
    and "ip_salp2 (snd (geninverse_finish g outmask cn bt lm (geninverse_equatorial g outmask cn lm st) ptrs))
           = store (ip_salp2 ptrs) (if w then Fin (- 1) else Fin 1)"
    and "\<exists>z. is_zero z \<and> ip_calp1 (snd (geninverse_finish g outmask cn bt lm (geninverse_equatorial g outmask cn lm st) ptrs))
           = store (ip_calp1 ptrs) z"
    and "\<exists>z. is_zero z \<and> ip_calp2 (snd (geninverse_finish g outmask cn bt lm (geninverse_equatorial g outmask cn lm st) ptrs))
           = store (ip_calp2 ptrs) z"
  by (auto simp add: geninverse_finish_def geninverse_equatorial_def Let_def assms sign_mul
      zero_double_def one_double_def is_zero_def)


lemma geninverse_equator:
  assumes lat: "is_zero lat1" "is_zero lat2" and f1: "isfinite (g_f1 g)"
    and cn: "cn = geninverse_canon lm lat1 lon1 lat2 lon2"
    and bt: "bt = geninverse_bet lm g (cn_lat1 cn) (cn_lat2 cn)"
    and sl: "\<not> feq (cn_slam12 cn) 0"
    and gd: "g_f g \<le> 0 \<or> cn_lon12s cn \<ge> g_f g * hd'"
  shows "geninverse_solve g outmask cn bt lm
           = Some (geninverse_equatorial g outmask cn lm inv_state_init)"
    and "\<exists>r. geod_geninverse lm g lat1 lon1 lat2 lon2 outs = Some (cn_lon12 cn / g_f1 g, r)
           \<and> o_s12 r = store (o_s12 outs) (0 + g_a g * (cn_lon12 cn * degree))
           \<and> o_azi1 r = store (o_azi1 outs) (if cn_lonsign cn = 1 then Fin 90 else Fin (- 90))
           \<and> o_azi2 r = store (o_azi2 outs) (if cn_lonsign cn = 1 then Fin 90 else Fin (- 90))"
proof -
  define w where "w = signbit (fst (AngDiff lon1 lon2))"
  define n where "n = signbit lat1"
  note c = canon_equator [OF lat, of lm lon1 lon2, folded cn w_def n_def]
  have b: "is_zero (b_sbet1 bt)" unfolding bt c(1) using f1 c(2) by (rule bet_equator)
  show s: "geninverse_solve g outmask cn bt lm
           = Some (geninverse_equatorial g outmask cn lm inv_state_init)" for outmask
    using c(1) sl b gd by (rule solve_equator)
  define ptrs where "ptrs = \<lparr>ip_s12 = o_s12 outs, ip_salp1 = Some 0, ip_calp1 = Some 0,
      ip_salp2 = Some 0, ip_calp2 = Some 0, ip_m12 = o_m12 outs, ip_M12 = o_M12 outs,
      ip_M21 = o_M21 outs, ip_S12 = o_S12 outs\<rparr>"
  define om where "om = inverse_outmask ptrs"
  define res where "res = geninverse_finish g om cn bt lm (geninverse_equatorial g om cn lm inv_state_init) ptrs"
  have i: "geod_geninverse_int lm g lat1 lon1 lat2 lon2 ptrs = Some res"
    by (simp add: geod_geninverse_int_def Let_def s res_def om_def flip: cn bt)
  note f = finish_equator [OF c(3) c(5) c(4), of g om bt lm inv_state_init ptrs, folded res_def]
  obtain z1 where z1: "is_zero z1" "ip_calp1 (snd res) = Some z1"
    using f(5) by (auto simp add: ptrs_def store_def)
  obtain z2 where z2: "is_zero z2" "ip_calp2 (snd res) = Some z2"
    using f(6) by (auto simp add: ptrs_def store_def)
  have s1: "ip_salp1 (snd res) = Some (if w then Fin (- 1) else Fin 1)"
    using f(3) by (simp add: ptrs_def store_def)
  have s2: "ip_salp2 (snd res) = Some (if w then Fin (- 1) else Fin 1)"
    using f(4) by (simp add: ptrs_def store_def)
  have d: "ip_s12 (snd res) = store (o_s12 outs) (0 + g_a g * (cn_lon12 cn * degree))"
  proof (cases "o_s12 outs")
    case None
    then show ?thesis using f(2) by (simp add: ptrs_def)
  next
    case (Some v)
    then have "(om AND GEOD_DISTANCE) \<noteq> 0"
      unfolding om_def by (intro outmask_distance) (simp add: ptrs_def)
    then show ?thesis using f(2) by (simp add: ptrs_def c(7))
  qed
  have az: "atan2dx lm (if w then Fin (- 1) else Fin 1) z
              = (if cn_lonsign cn = 1 then Fin 90 else Fin (- 90))" if "is_zero z" for z
    using that by (simp add: c(5) atan2dx_east atan2dx_west)
  show "\<exists>r. geod_geninverse lm g lat1 lon1 lat2 lon2 outs = Some (cn_lon12 cn / g_f1 g, r)
           \<and> o_s12 r = store (o_s12 outs) (0 + g_a g * (cn_lon12 cn * degree))
           \<and> o_azi1 r = store (o_azi1 outs) (if cn_lonsign cn = 1 then Fin 90 else Fin (- 90))
           \<and> o_azi2 r = store (o_azi2 outs) (if cn_lonsign cn = 1 then Fin 90 else Fin (- 90))"
    using i f(1) d s1 s2 z1 z2 az
    by (simp add: geod_geninverse_def split_beta flip: ptrs_def)
qed

text \<open>Values at WGS84 and at the longitudes 0 and 90 used in the examples.\<close>

lemma geod_init_sel:
  "g_a (geod_init lm g0 a f) = a"
  "g_f (geod_init lm g0 a f) = f"
  "g_f1 (geod_init lm g0 a f) = 1 - f"
  by (simp_all add: geod_init_def Let_def A3coeff_def C3coeff_def C4coeff_def)



















section \<open>The arc length on the equator\<close>

text \<open>Rounding at a tie, and the sign of a rounded number that is neither tiny nor
  large.\<close>

lemma rhe_tie: "even n \<Longrightarrow> rhe (of_int n + 1 / 2) = n" "even n \<Longrightarrow> rhe (of_int n - 1 / 2) = n"
proof -
  assume e: "even n"
  have f1: "\<lfloor>real_of_int n + 1 / 2\<rfloor> = n" by linarith
  have f2: "\<lfloor>real_of_int n - 1 / 2\<rfloor> = n - 1" by linarith
  show "rhe (of_int n + 1 / 2) = n" unfolding rhe_def Let_def f1 using e by simp
  show "rhe (of_int n - 1 / 2) = n" unfolding rhe_def Let_def f2 using e by simp
qed

lemma rnds_tie:
  assumes "p = 2 powr (of_int k)" "- 1022 \<le> k" "p \<le> \<bar>x\<bar>" "\<bar>x\<bar> < 2 * p"
    and "x * 2 ^ 52 / p = of_int n + 1 / 2 \<or> x * 2 ^ 52 / p = of_int n - 1 / 2" "even n"
    and "n \<noteq> 0" "\<bar>of_int n * p / 2 ^ 52\<bar> < 2 ^ 1024"
  shows "rnds s x = Fin (of_int n * p / 2 ^ 52)"
proof -
  have pp: "p > 0" using assms(1) by simp
  have q: "x / (p / 2 ^ 52) = x * 2 ^ 52 / p" by simp
  have "rhe (x * 2 ^ 52 / p) = n"
    using assms(5)
  proof
    assume "x * 2 ^ 52 / p = of_int n + 1 / 2"
    then show ?thesis using rhe_tie(1) [OF assms(6)] by (simp only:)
  next
    assume "x * 2 ^ 52 / p = of_int n - 1 / 2"
    then show ?thesis using rhe_tie(2) [OF assms(6)] by (simp only:)
  qed
  then have r: "rhe (x / (p / 2 ^ 52)) = n" by (simp only: q)
  have nz: "real_of_int n * (p / 2 ^ 52) \<noteq> 0" using assms(7) pp by simp
  have nb: "\<not> 2 ^ 1024 \<le> \<bar>real_of_int n * (p / 2 ^ 52)\<bar>" using assms(8) by (simp only: times_divide_eq_right not_le)
  show ?thesis
    unfolding rnds_eval [OF assms(1-4), of s] Let_def r using nz nb by (simp only: if_False times_divide_eq_right)
qed

lemma sin_small: "\<bar>sin x - x\<bar> \<le> x\<^sup>2 / 2" for x :: real
  using Maclaurin_sin_bound [of x 2]
  by (simp add: sin_coeff_def lessThan_Suc numeral_2_eq_2)

lemma rnds_sign:
  assumes "2 powr (- 1022) \<le> \<bar>x\<bar>" "\<bar>x\<bar> \<le> 1"
  shows "\<exists>r. rnds s x = Fin r \<and> r \<noteq> 0 \<and> (r < 0 \<longleftrightarrow> x < 0)"
proof -
  define e where "e = \<lfloor>log 2 \<bar>x\<bar>\<rfloor>"
  have x0: "0 < \<bar>x\<bar>" using assms(1) by (smt (verit) powr_gt_zero)
  have "log 2 (2 powr (- 1022)) \<le> log 2 \<bar>x\<bar>" using assms(1) x0 by (subst log_le_cancel_iff) simp_all
  then have "- 1022 \<le> log 2 \<bar>x\<bar>" by simp
  then have e1: "- 1022 \<le> e" unfolding e_def by linarith
  have "log 2 \<bar>x\<bar> \<le> log 2 1" using assms(2) x0 by (subst log_le_cancel_iff) simp_all
  then have e2: "e \<le> 0" unfolding e_def by simp
  have ex: "expo x = e" unfolding expo_def e_def using e1 e_def by simp
  define u where "u = ulp x"
  have u: "u = 2 powr (of_int e - 52)" unfolding u_def ulp_def ex by simp
  have up: "0 < u" unfolding u by simp
  have "2 powr (of_int e) \<le> 2 powr (log 2 \<bar>x\<bar>)"
    unfolding e_def by (subst powr_le_cancel_iff) simp_all
  then have "2 powr (of_int e) \<le> \<bar>x\<bar>" using x0 by simp
  then have "2 powr 52 * u \<le> \<bar>x\<bar>" unfolding u by (simp add: powr_diff)
  then have z: "2 ^ 52 \<le> \<bar>x / u\<bar>" using up by (simp add: abs_divide pos_le_divide_eq)
  define m where "m = rhe (x / u)"
  have b: "\<bar>x / u - of_int m\<bar> \<le> 1 / 2" unfolding m_def by (rule rhe_bound)
  have "(1::real) \<le> 2 ^ 52" by simp
  then have z1: "1 \<le> \<bar>x / u\<bar>" using z by linarith
  have mz: "m \<noteq> 0"
  proof
    assume "m = 0"
    then have "\<bar>x / u\<bar> \<le> 1 / 2" using b by simp
    then show False using z1 by linarith
  qed
  have ms: "m < 0 \<longleftrightarrow> x < 0"
  proof
    assume "m < 0"
    then have "real_of_int m \<le> - 1" by linarith
    then have "x / u < 0" using b by linarith
    then show "x < 0" using up by (simp add: divide_less_0_iff)
  next
    assume "x < 0"
    then have "x / u < 0" using up by (simp add: divide_less_0_iff)
    then have "x / u \<le> - 1" using z1 by linarith
    then have "real_of_int m < 0" using b by linarith
    then show "m < 0" by simp
  qed
  define y where "y = of_int m * u"
  have y0: "y \<noteq> 0" unfolding y_def using mz up by simp
  have ysg: "y < 0 \<longleftrightarrow> x < 0" unfolding y_def using ms up by (simp add: mult_less_0_iff)
  have "\<bar>of_int m\<bar> \<le> \<bar>x / u\<bar> + 1 / 2" using b by linarith
  then have "\<bar>of_int m\<bar> * u \<le> (\<bar>x / u\<bar> + 1 / 2) * u" using up by (simp add: mult_right_mono)
  also have "\<dots> = \<bar>x\<bar> + u / 2" using up by (simp add: abs_divide field_simps)
  also have "\<dots> \<le> 1 + 1 / 2" 
  proof -
    have "u \<le> 2 powr 0" unfolding u using e2 by (subst powr_le_cancel_iff) simp_all
    then show ?thesis using assms(2) by simp
  qed
  finally have "\<bar>y\<bar> \<le> 3 / 2" unfolding y_def using up by (simp add: abs_mult)
  moreover have "(3 / 2 :: real) < 2 ^ 1024"
  proof -
    have "(3 / 2 :: real) < 2 ^ 1" by simp
    also have "\<dots> \<le> 2 ^ 1024" by (rule power_increasing) simp_all
    finally show ?thesis .
  qed
  ultimately have yb: "\<not> 2 ^ 1024 \<le> \<bar>y\<bar>" by (simp only: not_le order_le_less_trans)
  have "rnds s x = (if y = 0 then (if s then MZero else Fin 0)
               else if 2 ^ 1024 \<le> \<bar>y\<bar> then (if y < 0 then NInf else PInf) else Fin y)"
    unfolding rnds_def Let_def y_def m_def u_def by (rule refl)
  then have "rnds s x = Fin y" using y0 yb by (simp only: if_False)
  then show ?thesis using y0 ysg by blast
qed

text \<open>Values for the example: \<open>f = 1 / 150\<close>, longitudes -80 and 98.8.\<close>

lemma c9_round:
  "rnds s (1 / 150) = Fin (7686143364045647 / 2 ^ 60)"
  "rnds s (1 - 7686143364045647 / 2 ^ 60) = Fin (8947151259709385 / 2 ^ 53)"
  "rnds s (7686143364045647 / 2 ^ 60 * 180) = Fin (1351079888211149 / 2 ^ 50)"
  "rnds s (494 / 5) = Fin (6952431924753203 / 2 ^ 46)"
  "rnds s (- (84442493013197 / 2 ^ 46) * (5030569068109113 / 2 ^ 58)) = Fin (- (3018341440865475 / 2 ^ 57))"
  "rnds s (3145482864741581 / 2 ^ 44 / (8947151259709385 / 2 ^ 53)) = Fin (180 + 1 / 2 ^ 45)"
  using rnds_to [of "1 / 2 ^ 8" "- 8" "1 / 150" 7686143364045647 s]
    rnds_to [of "1 / 2" "- 1" "1 - 7686143364045647 / 2 ^ 60" 8947151259709385 s]
    rnds_to [of 1 0 "7686143364045647 / 2 ^ 60 * 180" 5404319552844596 s]
    rnds_to [of "2 ^ 6" 6 "494 / 5" 6952431924753203 s]
    rnds_to [of "1 / 2 ^ 6" "- 6" "- (84442493013197 / 2 ^ 46) * (5030569068109113 / 2 ^ 58)"
      "- 6036682881730950" s]
    rnds_to [of "2 ^ 7" 7 "3145482864741581 / 2 ^ 44 / (8947151259709385 / 2 ^ 53)"
      6333186975989761 s]
  by (simp_all add: powr_minus_divide)

lemma c9_tie:
  "rnds s (80 + 6952431924753203 / 2 ^ 46) = Fin (3145482864741581 / 2 ^ 44)"
  "rnds s (3145482864741581 / 2 ^ 44 - 1 / 2 ^ 46) = Fin (3145482864741581 / 2 ^ 44)"
  "rnds s (3145482864741581 / 2 ^ 44 + 1 / 2 ^ 46) = Fin (3145482864741581 / 2 ^ 44)"
  using rnds_tie [of "2 ^ 7" 7 "80 + 6952431924753203 / 2 ^ 46" 6290965729483162 s]
    rnds_tie [of "2 ^ 7" 7 "3145482864741581 / 2 ^ 44 - 1 / 2 ^ 46" 6290965729483162 s]
    rnds_tie [of "2 ^ 7" 7 "3145482864741581 / 2 ^ 44 + 1 / 2 ^ 46" 6290965729483162 s]
  by simp_all

lemmas c9_exact =
  rnd_dyadic [of 5629499534213121 46, simplified]
  rnd_dyadic [of 6952431924753203 46, simplified]
  rnd_dyadic [of 3145482864741581 44, simplified]
  rnd_dyadic [of 1 46, simplified] rnd_dyadic [of "- 1" 46, simplified]
  rnd_dyadic [of "- 21110623253299" 44, simplified]
  rnd_dyadic [of 21110623253299 44, simplified]
  rnd_dyadic [of "- 84442493013197" 46, simplified]
  rnd_dyadic [of 84442493013197 46, simplified]
  rnd_dyadic [of "- 80044446502093" 46, simplified]
  rnd_int [of 80, simplified]


lemma ell150_sel:
  "g_a ell150 = Fin 6378137"
  "g_f ell150 = Fin (7686143364045647 / 2 ^ 60)"
  "g_f1 ell150 = Fin (8947151259709385 / 2 ^ 53)"
proof -
  have f: "Fin 1 / Fin 150 = Fin (7686143364045647 / 2 ^ 60)"
    by (simp add: fin_div c9_round)
  have f1: "1 - Fin (7686143364045647 / 2 ^ 60) = Fin (8947151259709385 / 2 ^ 53)"
    using c9_round(2) [of False] by (simp add: fin_ops)
  show "g_a ell150 = Fin 6378137" by (simp only: ell150_def geod_init_sel)
  show "g_f ell150 = Fin (7686143364045647 / 2 ^ 60)" by (simp only: ell150_def geod_init_sel f)
  show "g_f1 ell150 = Fin (8947151259709385 / 2 ^ 53)" by (simp only: ell150_def geod_init_sel f f1)
qed

lemma c9_remainder:
  "remainder (Fin 80) td = Fin 80"
  "remainder (Fin (6952431924753203 / 2 ^ 46)) td = Fin (6952431924753203 / 2 ^ 46)"
  "remainder (Fin (3145482864741581 / 2 ^ 44)) td = Fin (3145482864741581 / 2 ^ 44)"
  by (simp_all add: remainder_def remquo_def td_def isinf_def is_zero_def val_def signbit_def
      rhe_near [of _ 0] Let_def)

lemma c9_sumx1:
  "sumx (Fin 80) (Fin (6952431924753203 / 2 ^ 46))
     = (Fin (3145482864741581 / 2 ^ 44), Fin (- (1 / 2 ^ 46)))"
  by (simp add: sumx_def Let_def fin_ops c9_tie [simplified] c9_exact)

lemma c9_sumx2:
  "sumx (Fin (3145482864741581 / 2 ^ 44)) (Fin (- (1 / 2 ^ 46)))
     = (Fin (3145482864741581 / 2 ^ 44), Fin (- (1 / 2 ^ 46)))"
  by (simp add: sumx_def Let_def fin_ops c9_tie [simplified] c9_exact)

lemma c9_AngDiff:
  "AngDiff (Fin (- 80)) (Fin (6952431924753203 / 2 ^ 46))
     = (Fin (3145482864741581 / 2 ^ 44), Fin (- (1 / 2 ^ 46)))"
  by (simp add: AngDiff_def Let_def fin_neg c9_remainder [simplified] c9_sumx1 [simplified]
      c9_sumx2 [simplified] fin_cmp fin_abs hd'_def zero_double_def)


lemma canon_fields:
  "cn_lon12 (geninverse_canon lm lat1 lon1 lat2 lon2)
     = fst (AngDiff lon1 lon2) * dbl (if signbit (fst (AngDiff lon1 lon2)) then - 1 else 1)"
  "cn_slam12 (geninverse_canon lm lat1 lon1 lat2 lon2)
     = fst (sincosde lm
         (fst (AngDiff lon1 lon2) * dbl (if signbit (fst (AngDiff lon1 lon2)) then - 1 else 1))
         (snd (AngDiff lon1 lon2) * dbl (if signbit (fst (AngDiff lon1 lon2)) then - 1 else 1)))"
  "cn_lon12s (geninverse_canon lm lat1 lon1 lat2 lon2)
     = (hd' - fst (AngDiff lon1 lon2) * dbl (if signbit (fst (AngDiff lon1 lon2)) then - 1 else 1))
       - snd (AngDiff lon1 lon2) * dbl (if signbit (fst (AngDiff lon1 lon2)) then - 1 else 1)"
  by (simp_all add: geninverse_canon_def Let_def split_beta)

lemma c9_sin:
  "\<exists>r. msin libm_cr (Fin (- (3018341440865475 / 2 ^ 57))) = Fin r \<and> r < 0"
proof -
  define x :: real where "x = - (3018341440865475 / 2 ^ 57)"
  have b: "\<bar>sin x - x\<bar> \<le> x\<^sup>2 / 2" by (rule sin_small)
  have x1: "x \<le> - (1 / 64)" "- (1 / 32) \<le> x" unfolding x_def by simp_all
  have "x\<^sup>2 \<le> (1 / 32)\<^sup>2" using x1 by (intro abs_le_square_iff [THEN iffD1]) simp
  moreover have "((1::real) / 32)\<^sup>2 = 1 / 1024" by (simp add: power2_eq_square)
  ultimately have x2: "x\<^sup>2 / 2 \<le> 1 / 2048" by linarith
  have s1: "sin x \<le> - (1 / 128)" using b x1 x2 by linarith
  have s2: "- 1 \<le> sin x" by simp
  have "2 powr (- 1022) \<le> (2::real) powr (- 7)" by (subst powr_le_cancel_iff) simp_all
  also have "\<dots> = 1 / 128" by (simp add: powr_minus_divide)
  finally have "2 powr (- 1022) \<le> \<bar>sin x\<bar>" using s1 by linarith
  moreover have "\<bar>sin x\<bar> \<le> 1" by (rule abs_sin_le_one)
  ultimately obtain r where r: "rnds True (sin x) = Fin r" "r \<noteq> 0" "r < 0 \<longleftrightarrow> sin x < 0"
    using rnds_sign [of "sin x" True] by blast
  have n: "sin x < 0" using s1 by linarith
  have "msin libm_cr (Fin x) = rnd (sin x)"
    unfolding x_def by (simp add: msin_def libm_cr_def isinf_def is_zero_def val_def)
  then have "msin libm_cr (Fin x) = Fin r" using r(1) n by (simp add: rnd_def)
  then show ?thesis using r(3) n unfolding x_def by blast
qed

lemma c9_remquo:
  "remquo (Fin (3145482864741581 / 2 ^ 44)) qd = (Fin (- (21110623253299 / 2 ^ 44)), 2)"
  by (simp add: remquo_def qd_def isinf_def is_zero_def val_def signbit_def Let_def
      rhe_near [of _ 2])

lemma c9_AngRound:
  "AngRound (Fin (- (84442493013197 / 2 ^ 46))) = Fin (- (84442493013197 / 2 ^ 46))"
  by (simp add: AngRound_def Let_def fin_ops c9_exact copysign_def fneg_def)

lemma c9_slam12:
  "\<exists>r. fst (sincosde libm_cr (Fin (3145482864741581 / 2 ^ 44)) (Fin (- (1 / 2 ^ 46)))) = Fin r
       \<and> 0 < r"
proof -
  obtain r where r: "msin libm_cr (Fin (- (3018341440865475 / 2 ^ 57))) = Fin r" "r < 0"
    using c9_sin by blast
  have a: "Fin (- (21110623253299 / 2 ^ 44)) + Fin (- (1 / 2 ^ 46)) = Fin (- (84442493013197 / 2 ^ 46))"
    by (simp add: fin_ops c9_exact)
  have m: "Fin (- (84442493013197 / 2 ^ 46)) * degree = Fin (- (3018341440865475 / 2 ^ 57))"
    using c9_round(5) [of True] by (simp add: degree_val fin_mul)
  have "fst (sincosde libm_cr (Fin (3145482864741581 / 2 ^ 44)) (Fin (- (1 / 2 ^ 46)))) = Fin (- r)"
    unfolding sincosde_def c9_remquo Let_def prod.case a c9_AngRound m r(1)
    using r(2) by (simp add: fin_neg fin_cmp zero_double_def)
  then show ?thesis using r(2) by simp
qed

text \<open>Claim C9, evaluated where the code leaves the interval its own comment names
  (\<^verbatim>\<open>/* Returned value in [0, 180] */\<close>). The ellipsoid has \<open>a = 6378137\<close> and
  \<open>f = 1 / 150\<close>; the points are on the equator at the longitudes -80 and 98.8. Then
  \<open>lon12\<close> is the double 178.8 (with the error term \<open>-2^-46\<close>), the guard of the equatorial
  branch holds (\<open>lon12s = 1.2000000000000028\<close> against \<open>f * 180 = 1.2000000000000002\<close>),
  and \<^verbatim>\<open>a12 = lon12 / g->f1\<close> is returned with nothing to clamp it:
  \<open>180 + 2^-45 = 180.00000000000003\<close>.\<close>

theorem equatorial_arc_exceeds_180:
  "map_option fst
     (geod_geninverse libm_cr ell150 (Fin 0) (Fin (- 80)) (Fin 0) (rnd 98.8)
        \<lparr>o_s12 = Some 0, o_azi1 = Some 0, o_azi2 = Some 0, o_m12 = None, o_M12 = None,
         o_M21 = None, o_S12 = None\<rparr>)
     = Some (Fin (180 + 1 / 2 ^ 45))
   \<and> \<not> Fin (180 + 1 / 2 ^ 45) \<le> hd'"
proof -
  define cn where "cn = geninverse_canon libm_cr (Fin 0) (Fin (- 80)) (Fin 0)
    (Fin (6952431924753203 / 2 ^ 46))"
  have m: "Fin (3145482864741581 / 2 ^ 44) * dbl 1 = Fin (3145482864741581 / 2 ^ 44)"
    "Fin (- (1 / 2 ^ 46)) * dbl 1 = Fin (- (1 / 2 ^ 46))"
    by (simp_all add: dbl_def fin_mul c9_exact)
  have s: "\<not> signbit (Fin (3145482864741581 / 2 ^ 44))" by (simp add: fin_signbit)
  have l: "cn_lon12 cn = Fin (3145482864741581 / 2 ^ 44)"
    unfolding cn_def canon_fields c9_AngDiff fst_conv snd_conv using s m by (simp only: if_False)
  have sl: "cn_slam12 cn
      = fst (sincosde libm_cr (Fin (3145482864741581 / 2 ^ 44)) (Fin (- (1 / 2 ^ 46))))"
    unfolding cn_def canon_fields c9_AngDiff fst_conv snd_conv using s m by (simp only: if_False)
  have ls: "cn_lon12s cn = (hd' - Fin (3145482864741581 / 2 ^ 44)) - Fin (- (1 / 2 ^ 46))"
    unfolding cn_def canon_fields c9_AngDiff fst_conv snd_conv using s m by (simp only: if_False)
  obtain r where r: "cn_slam12 cn = Fin r" "0 < r" using c9_slam12 sl by auto
  have nz: "\<not> feq (cn_slam12 cn) 0" using r by (simp add: fin_cmp zero_double_def)
  have "cn_lon12s cn = Fin (84442493013197 / 2 ^ 46)"
    unfolding ls by (simp add: hd'_def fin_ops c9_exact)
  moreover have "g_f ell150 * hd' = Fin (1351079888211149 / 2 ^ 50)"
    using c9_round(3) [of False] by (simp add: ell150_sel hd'_def fin_mul)
  ultimately have gd: "g_f ell150 \<le> 0 \<or> cn_lon12s cn \<ge> g_f ell150 * hd'"
    by (simp add: fin_cmp)
  have a: "cn_lon12 cn / g_f1 ell150 = Fin (180 + 1 / 2 ^ 45)"
    using c9_round(6) [of False] by (simp add: l ell150_sel fin_div)
  have lon2: "rnd 98.8 = Fin (6952431924753203 / 2 ^ 46)"
    using c9_round(4) [of False] by (simp add: rnd_def)
  have "\<exists>r. geod_geninverse libm_cr ell150 (Fin 0) (Fin (- 80)) (Fin 0)
            (Fin (6952431924753203 / 2 ^ 46))
            \<lparr>o_s12 = Some 0, o_azi1 = Some 0, o_azi2 = Some 0, o_m12 = None, o_M12 = None,
             o_M21 = None, o_S12 = None\<rparr> = Some (cn_lon12 cn / g_f1 ell150, r)"
    using geninverse_equator(2) [of "Fin 0" "Fin 0" ell150 cn libm_cr "Fin (- 80)"
        "Fin (6952431924753203 / 2 ^ 46)" _
        "\<lparr>o_s12 = Some 0, o_azi1 = Some 0, o_azi2 = Some 0, o_m12 = None, o_M12 = None,
          o_M21 = None, o_S12 = None\<rparr>", OF _ _ _ cn_def refl nz gd]
    by (auto simp add: is_zero_def isfinite_def ell150_sel)
  then have "map_option fst
     (geod_geninverse libm_cr ell150 (Fin 0) (Fin (- 80)) (Fin 0) (rnd 98.8)
        \<lparr>o_s12 = Some 0, o_azi1 = Some 0, o_azi2 = Some 0, o_m12 = None, o_M12 = None,
         o_M21 = None, o_S12 = None\<rparr>) = Some (Fin (180 + 1 / 2 ^ 45))"
    unfolding lon2 a by auto
  moreover have "\<not> Fin (180 + 1 / 2 ^ 45) \<le> hd'" by (simp add: hd'_def fin_cmp)
  ultimately show ?thesis by (rule conjI)
qed

section \<open>Polygons: edges and tests on an accumulator\<close>






























text \<open>Claim C10. \<^verbatim>\<open>geod_polygon_addedge\<close> on an accumulator whose vertex count is zero
  returns the accumulator as it was: count, perimeter and area sums, crossing counter,
  current and first vertex are all unchanged, and nothing else happens (the function
  is \<^verbatim>\<open>void\<close>, and here total).\<close>

theorem addedge_empty_noop:
  "p_num p = 0 \<Longrightarrow> geod_polygon_addedge lm l0 g p azi s = p"
  by (simp add: geod_polygon_addedge_def)

text \<open>The theorem on a freshly initialised polygon, with WGS84, azimuth 90 and an edge of
  1000 m.\<close>

theorem addedge_empty_noop_witness:
  "p_num (geod_polygon_init polygon_zero False) = 0 \<and>
   geod_polygon_addedge libm_cr line_zero wgs84 (geod_polygon_init polygon_zero False)
     (Fin 90) (Fin 1000) = geod_polygon_init polygon_zero False"
  using addedge_empty_noop [of "geod_polygon_init polygon_zero False" libm_cr line_zero wgs84
      "Fin 90" "Fin 1000"]
  by (simp add: geod_polygon_init_def geod_polygon_clear_def)




end
